theory Spec2Isabelle
  imports Main "HOL-Library.Sublist"
begin

text \<open>
  A model of \<open>create_data.py\<close>: \<open>format_data_filename\<close>, \<open>run_benchmark_and_get_size\<close>,
  \<open>build_base_benchmark_cmd\<close>, \<open>write_data_record\<close> and \<open>process_benchmark\<close> with its three
  loops. The child processes, the file system and \<open>shlex.split\<close> are the outside world
  and enter as an environment; what the function does to the world is kept in an explicit
  state. An exception that the source does not catch (\<open>ValueError\<close> from \<open>shlex.split\<close>,
  \<open>OSError\<close> when a command cannot be run) leaves \<open>process_benchmark\<close> without a status and
  is an outcome of its own. Printing and the contents of the log file are left out. The
  model assumes what the source assumes without checking: the two output directories can
  be created, a record file can be written, and the configuration has the mandatory keys
  with values of the expected types.
\<close>

section \<open>Python primitives used by create\_data.py\<close>

text \<open>
  Python integers are unbounded and are modelled as \<open>int\<close>; strings are \<open>string\<close>.
  \<open>str_nat\<close> and \<open>str_int\<close> are \<open>str()\<close> on integers, \<open>fmt_04d\<close> is the format
  specification \<open>{index:04d}\<close>: the sign counts towards the width of four, and a number
  with more digits is printed in full.
\<close>

definition digit_char :: "nat \<Rightarrow> char" where
  "digit_char d = ''0123456789'' ! d"

fun str_nat :: "nat \<Rightarrow> string" where
  "str_nat n = (if n < 10 then [digit_char n] else str_nat (n div 10) @ [digit_char (n mod 10)])"

declare str_nat.simps [simp del]

definition str_int :: "int \<Rightarrow> string" where
  "str_int i = (if i < 0 then CHR ''-'' # str_nat (nat (- i)) else str_nat (nat i))"

definition zfill :: "nat \<Rightarrow> string \<Rightarrow> string" where
  "zfill w s = replicate (w - length s) CHR ''0'' @ s"

definition fmt_04d :: "int \<Rightarrow> string" where
  "fmt_04d i = (if i < 0 then CHR ''-'' # zfill 3 (str_nat (nat (- i))) else zfill 4 (str_nat (nat i)))"

text \<open>\<open>sep.join(parts)\<close>.\<close>

fun py_join :: "string \<Rightarrow> string list \<Rightarrow> string" where
  "py_join sep [] = []"
| "py_join sep [x] = x"
| "py_join sep (x # y # ys) = x @ sep @ py_join sep (y # ys)"

text \<open>\<open>s.split(sep)\<close> for a one-character separator.\<close>

fun split_on :: "char \<Rightarrow> string \<Rightarrow> string list" where
  "split_on c [] = [[]]"
| "split_on c (x # xs) =
     (if x = c then [] # split_on c xs
      else (case split_on c xs of [] \<Rightarrow> [[x]] | w # ws \<Rightarrow> (x # w) # ws))"

text \<open>\<open>s.replace(old, new)\<close> for a non-empty \<open>old\<close>: leftmost occurrences, not overlapping.\<close>

fun str_replace :: "string \<Rightarrow> string \<Rightarrow> string \<Rightarrow> string" where
  "str_replace old new [] = []"
| "str_replace old new (c # cs) =
     (if old \<noteq> [] \<and> prefix old (c # cs)
      then new @ str_replace old new (drop (length old - 1) cs)
      else c # str_replace old new cs)"

text \<open>\<open>arg.lstrip("-")\<close>.\<close>

definition lstrip_dash :: "string \<Rightarrow> string" where
  "lstrip_dash s = dropWhile (\<lambda>c. c = CHR ''-'') s"

subsection \<open>os.path and pathlib on POSIX\<close>

definition os_path_join :: "string \<Rightarrow> string \<Rightarrow> string" where
  "os_path_join a b =
     (if b \<noteq> [] \<and> hd b = CHR ''/'' then b
      else if a = [] \<or> last a = CHR ''/'' then a @ b
      else a @ ''/'' @ b)"

text \<open>
  The loop of \<open>posixpath.normpath\<close> over the components: empty and \<open>.\<close> components are
  skipped, \<open>..\<close> removes the component before it unless there is none to remove.
\<close>

fun norm_comps :: "bool \<Rightarrow> string list \<Rightarrow> string list \<Rightarrow> string list" where
  "norm_comps initial_slashes new_comps [] = new_comps"
| "norm_comps initial_slashes new_comps (cp # comps) =
     (if cp = [] \<or> cp = ''.'' then norm_comps initial_slashes new_comps comps
      else if cp \<noteq> ''..'' \<or> (\<not> initial_slashes \<and> new_comps = [])
                \<or> (new_comps \<noteq> [] \<and> last new_comps = ''..'')
      then norm_comps initial_slashes (new_comps @ [cp]) comps
      else if new_comps \<noteq> [] then norm_comps initial_slashes (butlast new_comps) comps
      else norm_comps initial_slashes new_comps comps)"

definition normpath :: "string \<Rightarrow> string" where
  "normpath path =
     (if path = [] then ''.''
      else
        let initial_slashes = (if hd path = CHR ''/'' then
                                 (if prefix ''//'' path \<and> \<not> prefix ''///'' path then 2 else 1)
                               else (0::nat));
            comps = norm_comps (0 < initial_slashes) [] (split_on CHR ''/'' path);
            p = replicate initial_slashes CHR ''/'' @ py_join ''/'' comps
        in if p = [] then ''.'' else p)"

definition abspath :: "string \<Rightarrow> string \<Rightarrow> string" where
  "abspath cwd path =
     normpath (if path \<noteq> [] \<and> hd path = CHR ''/'' then path else os_path_join cwd path)"

definition basename :: "string \<Rightarrow> string" where
  "basename p = last (split_on CHR ''/'' p)"

text \<open>
  \<open>Path(p).name\<close>: the last component of the path, where pathlib has dropped empty and
  \<open>.\<close> components; the empty string when there is none.
\<close>

definition path_name :: "string \<Rightarrow> string" where
  "path_name p =
     (case filter (\<lambda>c. c \<noteq> [] \<and> c \<noteq> ''.'') (split_on CHR ''/'' p) of
        [] \<Rightarrow> []
      | cs \<Rightarrow> last cs)"

text \<open>
  \<open>str(Path(p))\<close>: pathlib keeps the root (\<open>/\<close>, or \<open>//\<close> for exactly two leading slashes),
  drops empty and \<open>.\<close> components and joins the others with \<open>/\<close>; the path without
  components and without root is \<open>.\<close>. \<open>path_div a b\<close> is \<open>str(Path(a) / b)\<close>.
\<close>

definition pathlib_str :: "string \<Rightarrow> string" where
  "pathlib_str p =
     (let root = (if prefix ''//'' p \<and> \<not> prefix ''///'' p then ''//''
                  else if prefix ''/'' p then ''/'' else []);
          parts = filter (\<lambda>c. c \<noteq> [] \<and> c \<noteq> ''.'') (split_on CHR ''/'' p)
      in if root = [] \<and> parts = [] then ''.'' else root @ py_join ''/'' parts)"

definition path_div :: "string \<Rightarrow> string \<Rightarrow> string" where
  "path_div a b =
     pathlib_str (if a = [] \<or> (b \<noteq> [] \<and> hd b = CHR ''/'') then b else a @ ''/'' @ b)"

section \<open>File names\<close>

definition DATA_TASK_PREFIX :: string where
  "DATA_TASK_PREFIX = ''D''"

definition MGPUSIM_COMMIT_SHA :: string where
  "MGPUSIM_COMMIT_SHA = ''8ef2478f927933de2711ddea400927453079955c''"

definition format_data_filename :: "string \<Rightarrow> string \<Rightarrow> int \<Rightarrow> string" where
  "format_data_filename bench_id type_id index =
     DATA_TASK_PREFIX @ bench_id @ type_id @ fmt_04d index @ ''.sqlite3''"

definition format_data_record_filename :: "string \<Rightarrow> int \<Rightarrow> string" where
  "format_data_record_filename bench_id index =
     DATA_TASK_PREFIX @ bench_id @ fmt_04d index @ ''.json''"

definition strip_leading_dot_slash :: "string \<Rightarrow> string" where
  "strip_leading_dot_slash s = s"

section \<open>Configuration, records and the outside world\<close>

text \<open>
  A value of a flag in \<open>normal_arg_values\<close> is a JSON number or string; the commands and
  the records only ever use \<open>str(value)\<close>.
\<close>

datatype arg_value = IntVal int | StrVal string

fun py_str :: "arg_value \<Rightarrow> string" where
  "py_str (IntVal i) = str_int i"
| "py_str (StrVal s) = s"

text \<open>
  One entry of \<open>profile["benchmark_config"]\<close> and the profile itself. The optional keys
  hold their value after \<open>.get(key, default)\<close> and \<open>int(...)\<close>; the two dictionaries are
  maps.
\<close>

record bench_conf =
  bench_id :: string
  base_script :: string
  size_arg :: string
  size_arg_start :: int
  normal_arg_list :: "string list"
  normal_arg_values :: "string \<rightharpoonup> arg_value list"
  special_arg_list :: "string list"

record profile =
  benchmark_config :: "string \<rightharpoonup> bench_conf"
  data_save_path :: string
  data_record_save_path :: string
  benchmark_path :: string
  benchmark_base_arg :: string
  benchmark_trace_filename_arg :: string
  benchmark_trace_min_size_MB :: int

text \<open>The JSON document of one run; \<open>rec_id\<close>, \<open>size_field\<close> and \<open>comment_field\<close> are the
  keys \<open>id\<close>, \<open>size\<close> and \<open>comment\<close>.\<close>

record data_record =
  rec_id :: string
  benchmark :: string
  benchmark_cmd :: string
  trace_file :: string
  mgpusim_commit_SHA :: string
  size_field :: string
  comment_field :: string

record summary =
  summary_benchmark :: string
  summary_data :: "string list"
  summary_data_record :: "string list"

text \<open>
  What the child process left behind: its return code and the files of the working
  directory that match \<open>akita_sim_*.sqlite3\<close> after it exited, in the order of the glob,
  each with its modification time and its size in bytes.
\<close>

record file_stat =
  file_path :: string
  st_mtime :: nat
  st_size :: nat

record proc_result =
  returncode :: int
  matches :: "file_stat list"

text \<open>
  The outside world. \<open>run_proc k cmd\<close> is what the \<open>k\<close>-th child process of the whole
  execution leaves behind when it runs \<open>cmd\<close> (so the answer may depend on the command and
  on everything that happened before); \<open>move_ok k\<close> says whether the artifact of that run
  can be moved into the trace directory. \<open>run_proc k cmd\<close> is \<open>None\<close> when
  \<open>run_benchmark_and_get_size\<close> raises instead of returning: the log file cannot be opened
  or the program cannot be started. \<open>shlex_split s\<close> is what \<open>shlex.split\<close> returns for a
  non-empty string, and \<open>None\<close> when it raises \<open>ValueError\<close> (a quotation that is not closed,
  a trailing escape character).
\<close>

record env =
  shlex_split :: "string \<Rightarrow> string list option"
  getcwd :: string
  isdir :: "string \<Rightarrow> bool"
  go_build_returncode :: "string \<Rightarrow> int"
  run_proc :: "nat \<Rightarrow> string list \<Rightarrow> proc_result option"
  move_ok :: "nat \<Rightarrow> bool"
  summary_write_ok :: bool

text \<open>\<open>shlex.split(s)\<close>: the empty string has no tokens.\<close>

definition py_shlex_split :: "env \<Rightarrow> string \<Rightarrow> string list option" where
  "py_shlex_split e s = (if s = [] then Some [] else shlex_split e s)"

text \<open>
  The effects: the commands run so far (in order), the undersized artifacts whose
  deletion was attempted, the moves that succeeded (source and destination), the record
  files written (path and document, in order) and the summary files written.
\<close>

record sys_state =
  executed :: "string list list"
  unlinked :: "string list"
  moved :: "(string \<times> string) list"
  record_files :: "(string \<times> data_record) list"
  summary_files :: "(string \<times> summary) list"

text \<open>The local variables of \<open>process_benchmark\<close> that the loops update.\<close>

record locals =
  idx_counter :: int
  produced_traces :: "string list"
  produced_records :: "string list"

text \<open>
  A piece of code either returns a value or is left by an exception that nothing in
  \<open>create_data.py\<close> catches; \<open>Raised err s\<close> keeps the state in which it was raised.
\<close>

datatype error = ValueError | OSError

datatype 'a outcome = Raised error sys_state | Returned 'a

section \<open>Running one command\<close>

text \<open>
  \<open>size_mb\<close> is the integer \<open>0\<close> when there is no artifact and the float
  \<open>round(size_bytes / (1024 * 1024), 2)\<close> otherwise. A float with two decimals is
  modelled by its number of hundredths. The division of the two integers gives the
  double nearest to the quotient: the quotient itself for a file below \<open>2^53\<close> bytes, and
  the quotient of the size rounded to 53 significant bits (ties to even) above, the
  divisor being a power of two. \<open>round\<close> rounds the value of that double to the nearest
  hundredth, ties to even, and \<open>repr\<close> prints the result with its one or two decimals
  (\<open>st_size\<close> is below \<open>2^63\<close>, so the result has at most fifteen significant digits).
\<close>

datatype megabytes = IntMB int | FloatMB nat

text \<open>The integer nearest to \<open>a / b\<close>, ties to even.\<close>

definition round_half_even :: "nat \<Rightarrow> nat \<Rightarrow> nat" where
  "round_half_even a b =
     (let q = a div b; r = a mod b
      in if 2 * r < b then q
         else if 2 * r > b then q + 1
         else if even q then q else q + 1)"

fun bit_length :: "nat \<Rightarrow> nat" where
  "bit_length n = (if n = 0 then 0 else Suc (bit_length (n div 2)))"

declare bit_length.simps [simp del]

text \<open>The integer that the double nearest to \<open>n\<close> holds.\<close>

definition to_double :: "nat \<Rightarrow> nat" where
  "to_double n =
     (if n < 2 ^ 53 then n
      else (let ulp = 2 ^ (bit_length n - 53) in round_half_even n ulp * ulp))"

definition round_mb :: "nat \<Rightarrow> nat" where
  "round_mb size_bytes = round_half_even (100 * to_double size_bytes) (1024 * 1024)"

definition float_repr :: "nat \<Rightarrow> string" where
  "float_repr h =
     str_nat (h div 100) @ ''.'' @
       (if h mod 10 = 0 then [digit_char (h mod 100 div 10)]
        else [digit_char (h mod 100 div 10), digit_char (h mod 10)])"

fun fmt_mb :: "megabytes \<Rightarrow> string" where
  "fmt_mb (IntMB i) = str_int i"
| "fmt_mb (FloatMB h) = float_repr h"

fun mb_less :: "megabytes \<Rightarrow> int \<Rightarrow> bool" where
  "mb_less (IntMB i) t = (i < t)"
| "mb_less (FloatMB h) t = (int h < 100 * t)"

text \<open>The newest match: the list sorted by modification time, descending and stable.\<close>

definition newest_first :: "file_stat list \<Rightarrow> file_stat list" where
  "newest_first ms = sort_key (\<lambda>p. - int (st_mtime p)) ms"

definition run_benchmark_and_get_size :: "proc_result \<Rightarrow> bool \<times> megabytes \<times> string option" where
  "run_benchmark_and_get_size proc =
     (if returncode proc \<noteq> 0 then (False, IntMB 0, None)
      else if matches proc = [] then (True, IntMB 0, None)
      else (case newest_first (matches proc) of
              [] \<Rightarrow> (True, IntMB 0, None)
            | src # _ \<Rightarrow> (True, FloatMB (round_mb (st_size src)), Some (file_path src))))"

text \<open>
  Running a command: the world answers and the command is logged, or the call raises
  (\<open>None\<close>) and nothing has run.
\<close>

definition run_cmd ::
  "env \<Rightarrow> string list \<Rightarrow> sys_state \<Rightarrow> ((bool \<times> megabytes \<times> string option) \<times> sys_state) option" where
  "run_cmd e cmd s =
     (case run_proc e (length (executed s)) cmd of
        None \<Rightarrow> None
      | Some proc \<Rightarrow> Some (run_benchmark_and_get_size proc, s\<lparr>executed := executed s @ [cmd]\<rparr>))"

text \<open>The command of a base attempt, or \<open>None\<close> when \<open>shlex.split\<close> raises.\<close>

definition build_base_benchmark_cmd ::
  "env \<Rightarrow> string \<Rightarrow> string \<Rightarrow> string \<Rightarrow> string \<Rightarrow> string \<Rightarrow> int \<Rightarrow> string list option" where
  "build_base_benchmark_cmd e exe_path base_args trace_arg_flag trace_file_path size_arg_name size_value =
     (case (if base_args \<noteq> [] then py_shlex_split e base_args else Some []) of
        None \<Rightarrow> None
      | Some base_tokens \<Rightarrow> Some ([exe_path] @ base_tokens @ [size_arg_name] @ [str_int size_value]))"

definition write_data_record :: "string \<Rightarrow> data_record \<Rightarrow> sys_state \<Rightarrow> string \<times> sys_state" where
  "write_data_record data_record_dir record s =
     (let out_path = path_div data_record_dir (rec_id record @ ''.json'')
      in (out_path, s\<lparr>record_files := record_files s @ [(out_path, record)]\<rparr>))"

text \<open>
  \<open>shutil.move\<close> into the trace directory, inside \<open>try\<close>: the move is logged when it
  succeeds and nothing changes when it fails. \<open>k\<close> is the index of the run that produced
  the file.
\<close>

definition try_move :: "env \<Rightarrow> nat \<Rightarrow> string \<Rightarrow> string \<Rightarrow> sys_state \<Rightarrow> bool \<times> sys_state" where
  "try_move e k src dest s =
     (if move_ok e k then (True, s\<lparr>moved := moved s @ [(src, dest)]\<rparr>) else (False, s))"

section \<open>process\_benchmark\<close>

text \<open>\<open>f"{size_mb} MB" if size_mb is not None else "0 MB"\<close>; \<open>size_mb\<close> is never \<open>None\<close>.\<close>

definition size_label :: "megabytes \<Rightarrow> string" where
  "size_label size_mb = fmt_mb size_mb @ '' MB''"

subsection \<open>The base-size search\<close>

datatype base_outcome =
    BaseFound int locals sys_state
  | BaseAborted sys_state
  | BaseRaised error sys_state

datatype search_step = Searching int sys_state | Stop base_outcome

text \<open>
  One iteration of the \<open>while True\<close> loop at the current size. \<open>idx_counter\<close> is \<open>0\<close>
  throughout the loop, and the two lists of produced names are still empty.
\<close>

definition base_step ::
  "env \<Rightarrow> profile \<Rightarrow> string \<Rightarrow> bench_conf \<Rightarrow> string \<Rightarrow> int \<Rightarrow> sys_state \<Rightarrow> search_step" where
  "base_step e prof bench_name bconf exe_path cur_size s =
     (let idx = 0;
          trace_filename = format_data_filename (bench_id bconf) ''0'' idx;
          trace_file_rel = os_path_join (data_save_path prof) trace_filename
      in case build_base_benchmark_cmd e exe_path (benchmark_base_arg prof)
                (benchmark_trace_filename_arg prof) trace_file_rel (size_arg bconf) cur_size of
           None \<Rightarrow> Stop (BaseRaised ValueError s)
         | Some cmd_list \<Rightarrow>
          (case run_cmd e cmd_list s of
             None \<Rightarrow> Stop (BaseRaised OSError s)
           | Some ((succeeded, size_mb, produced_path), s1) \<Rightarrow>
               if \<not> succeeded then Stop (BaseAborted s1)
               else (case produced_path of
                 None \<Rightarrow> Searching (cur_size * 2) s1
               | Some p \<Rightarrow>
                   if mb_less size_mb (benchmark_trace_min_size_MB prof)
                   then Searching (cur_size * 2) (s1\<lparr>unlinked := unlinked s1 @ [p]\<rparr>)
                   else
                     (let dest0 = path_div (data_save_path prof) trace_filename;
                          (ok, s2) = try_move e (length (executed s)) p dest0 s1;
                          dest_path = (if ok then dest0 else p);
                          base_size = cur_size
                      in case py_shlex_split e (benchmark_base_arg prof) of
                           None \<Rightarrow> Stop (BaseRaised ValueError s2)
                         | Some base_tokens \<Rightarrow>
                          (let record = \<lparr>rec_id = str_replace ''.sqlite3'' []
                                             (format_data_filename (bench_id bconf) ''0'' idx),
                                    benchmark = bench_name,
                                    benchmark_cmd = py_join '' ''
                                      ([strip_leading_dot_slash (basename exe_path)]
                                       @ base_tokens
                                       @ [size_arg bconf @ '' '' @ str_int base_size]),
                                    trace_file = path_name dest_path,
                                    mgpusim_commit_SHA = MGPUSIM_COMMIT_SHA,
                                    size_field = size_label size_mb,
                                    comment_field = ''base trace''\<rparr>;
                               (out, s3) = write_data_record (data_record_save_path prof) record s2
                           in Stop (BaseFound base_size
                                 \<lparr>idx_counter = idx,
                                  produced_traces = [path_name dest_path],
                                  produced_records = [path_name out]\<rparr> s3))))))"

text \<open>The loop itself; it has no bound, so a search that never stops is \<open>None\<close>.\<close>

partial_function (option) base_loop ::
  "env \<Rightarrow> profile \<Rightarrow> string \<Rightarrow> bench_conf \<Rightarrow> string \<Rightarrow> int \<Rightarrow> sys_state \<Rightarrow> base_outcome option" where
  "base_loop e prof bench_name bconf exe_path cur_size s =
     (case base_step e prof bench_name bconf exe_path cur_size s of
        Searching cur_size' s' \<Rightarrow> base_loop e prof bench_name bconf exe_path cur_size' s'
      | Stop r \<Rightarrow> Some r)"

text \<open>The first \<open>n\<close> iterations of the loop: where the search stands after them.\<close>

fun base_iter ::
  "nat \<Rightarrow> env \<Rightarrow> profile \<Rightarrow> string \<Rightarrow> bench_conf \<Rightarrow> string \<Rightarrow> int \<Rightarrow> sys_state \<Rightarrow> search_step" where
  "base_iter 0 e prof bench_name bconf exe_path cur_size s = Searching cur_size s"
| "base_iter (Suc n) e prof bench_name bconf exe_path cur_size s =
     (case base_step e prof bench_name bconf exe_path cur_size s of
        Searching cur_size' s' \<Rightarrow> base_iter n e prof bench_name bconf exe_path cur_size' s'
      | Stop r \<Rightarrow> Stop r)"

subsection \<open>The normal pass\<close>

text \<open>
  \<open>itertools.product(*pools)\<close>, as the standard library documents it:
  \<open>result = [[]]\<close>, then for every pool \<open>result = [x + [y] for x in result for y in pool]\<close>.
\<close>

definition py_product :: "'a list list \<Rightarrow> 'a list list" where
  "py_product pools =
     foldl (\<lambda>result pool. concat (map (\<lambda>x. map (\<lambda>y. x @ [y]) pool) result)) [[]] pools"

definition normal_values_lists :: "bench_conf \<Rightarrow> arg_value list list" where
  "normal_values_lists bconf =
     map (\<lambda>arg. case normal_arg_values bconf (lstrip_dash arg) of None \<Rightarrow> [] | Some vals \<Rightarrow> vals)
       (normal_arg_list bconf)"

definition normal_combinations :: "bench_conf \<Rightarrow> arg_value list list" where
  "normal_combinations bconf =
     (if normal_values_lists bconf \<noteq> [] then py_product (normal_values_lists bconf) else [])"

text \<open>
  The body of the loop over the combinations. The record is put together before the
  artifact is moved, and \<open>shlex.split\<close> is called once for the command and once more for
  the record.
\<close>

definition normal_run ::
  "env \<Rightarrow> profile \<Rightarrow> string \<Rightarrow> bench_conf \<Rightarrow> string \<Rightarrow> int \<Rightarrow> arg_value list
     \<Rightarrow> locals \<times> sys_state \<Rightarrow> (locals \<times> sys_state) outcome" where
  "normal_run e prof bench_name bconf exe_path base_size combo ls =
     (let (l, s) = ls;
          trace_filename = format_data_filename (bench_id bconf) ''0'' (idx_counter l)
      in case (if benchmark_base_arg prof \<noteq> [] then py_shlex_split e (benchmark_base_arg prof)
               else Some []) of
           None \<Rightarrow> Raised ValueError s
         | Some base_tokens \<Rightarrow>
          (let cmd = [exe_path] @ base_tokens
                     @ [size_arg bconf] @ [str_int base_size]
                     @ concat (map (\<lambda>(arg_name, arg_val). [arg_name, py_str arg_val])
                                 (zip (normal_arg_list bconf) combo))
           in case run_cmd e cmd s of
                None \<Rightarrow> Raised OSError s
              | Some ((succeeded, size_mb, produced_path), s1) \<Rightarrow>
               (case py_shlex_split e (benchmark_base_arg prof) of
                  None \<Rightarrow> Raised ValueError s1
                | Some record_tokens \<Rightarrow>
                   (let record = \<lparr>rec_id = str_replace ''.sqlite3'' []
                                      (format_data_filename (bench_id bconf) ''0'' (idx_counter l)),
                             benchmark = bench_name,
                             benchmark_cmd = py_join '' ''
                               ([strip_leading_dot_slash (basename exe_path)]
                                @ record_tokens
                                @ map (\<lambda>(arg, val). arg @ '' '' @ py_str val)
                                    (zip (normal_arg_list bconf) combo)),
                             trace_file = trace_filename,
                             mgpusim_commit_SHA = MGPUSIM_COMMIT_SHA,
                             size_field = size_label size_mb,
                             comment_field = []\<rparr>;
                        s2 = (case produced_path of
                                None \<Rightarrow> s1
                              | Some p \<Rightarrow> snd (try_move e (length (executed s)) p
                                                 (path_div (data_save_path prof) trace_filename) s1));
                        (out, s3) = write_data_record (data_record_save_path prof) record s2
                    in Returned (l\<lparr>idx_counter := idx_counter l + 1,
                                   produced_traces := produced_traces l @ [trace_filename],
                                   produced_records := produced_records l @ [path_name out]\<rparr>, s3)))))"

text \<open>The loop: an exception in one run ends it.\<close>

fun normal_pass ::
  "env \<Rightarrow> profile \<Rightarrow> string \<Rightarrow> bench_conf \<Rightarrow> string \<Rightarrow> int \<Rightarrow> arg_value list list
     \<Rightarrow> locals \<times> sys_state \<Rightarrow> (locals \<times> sys_state) outcome" where
  "normal_pass e prof bench_name bconf exe_path base_size [] ls = Returned ls"
| "normal_pass e prof bench_name bconf exe_path base_size (combo # combos) ls =
     (case normal_run e prof bench_name bconf exe_path base_size combo ls of
        Raised err s \<Rightarrow> Raised err s
      | Returned ls' \<Rightarrow> normal_pass e prof bench_name bconf exe_path base_size combos ls')"

subsection \<open>The special pass\<close>

text \<open>
  The body of the loop over the special entries: the entry is tokenised first, outside
  any \<open>try\<close>.
\<close>

definition special_run ::
  "env \<Rightarrow> profile \<Rightarrow> string \<Rightarrow> bench_conf \<Rightarrow> string \<Rightarrow> int \<Rightarrow> string
     \<Rightarrow> locals \<times> sys_state \<Rightarrow> (locals \<times> sys_state) outcome" where
  "special_run e prof bench_name bconf exe_path base_size special ls =
     (let (l, s) = ls
      in case py_shlex_split e special of
           None \<Rightarrow> Raised ValueError s
         | Some special_tokens \<Rightarrow>
          (let trace_filename = format_data_filename (bench_id bconf) ''1'' (idx_counter l)
           in case (if benchmark_base_arg prof \<noteq> [] then py_shlex_split e (benchmark_base_arg prof)
                    else Some []) of
                None \<Rightarrow> Raised ValueError s
              | Some base_tokens \<Rightarrow>
               (let cmd = [exe_path] @ base_tokens
                          @ [size_arg bconf] @ [str_int base_size]
                          @ special_tokens
                in case run_cmd e cmd s of
                     None \<Rightarrow> Raised OSError s
                   | Some ((succeeded, size_mb, produced_path), s1) \<Rightarrow>
                    (case (if benchmark_base_arg prof \<noteq> []
                           then py_shlex_split e (benchmark_base_arg prof) else Some []) of
                       None \<Rightarrow> Raised ValueError s1
                     | Some record_tokens \<Rightarrow>
                        (let benchmark_cmd_parts =
                                   [strip_leading_dot_slash (basename exe_path)]
                                   @ record_tokens
                                   @ [size_arg bconf, str_int base_size]
                                   @ special_tokens;
                             record = \<lparr>rec_id = str_replace ''.sqlite3'' []
                                           (format_data_filename (bench_id bconf) ''1'' (idx_counter l)),
                                  benchmark = bench_name,
                                  benchmark_cmd = py_join '' '' benchmark_cmd_parts,
                                  trace_file = trace_filename,
                                  mgpusim_commit_SHA = MGPUSIM_COMMIT_SHA,
                                  size_field = size_label size_mb,
                                  comment_field = []\<rparr>;
                             s2 = (case produced_path of
                                     None \<Rightarrow> s1
                                   | Some p \<Rightarrow> snd (try_move e (length (executed s)) p
                                                      (path_div (data_save_path prof) trace_filename) s1));
                             (out, s3) = write_data_record (data_record_save_path prof) record s2
                         in Returned (l\<lparr>idx_counter := idx_counter l + 1,
                                        produced_traces := produced_traces l @ [trace_filename],
                                        produced_records := produced_records l @ [path_name out]\<rparr>,
                                      s3))))))"

fun special_pass ::
  "env \<Rightarrow> profile \<Rightarrow> string \<Rightarrow> bench_conf \<Rightarrow> string \<Rightarrow> int \<Rightarrow> string list
     \<Rightarrow> locals \<times> sys_state \<Rightarrow> (locals \<times> sys_state) outcome" where
  "special_pass e prof bench_name bconf exe_path base_size [] ls = Returned ls"
| "special_pass e prof bench_name bconf exe_path base_size (special # specials) ls =
     (case special_run e prof bench_name bconf exe_path base_size special ls of
        Raised err s \<Rightarrow> Raised err s
      | Returned ls' \<Rightarrow> special_pass e prof bench_name bconf exe_path base_size specials ls')"

subsection \<open>The summary and the whole function\<close>

definition write_summary :: "env \<Rightarrow> profile \<Rightarrow> string \<Rightarrow> locals \<Rightarrow> sys_state \<Rightarrow> sys_state" where
  "write_summary e prof bench_name l s =
     (let summ = \<lparr>summary_benchmark = bench_name,
                  summary_data = produced_traces l,
                  summary_data_record = produced_records l\<rparr>;
          summary_path = path_div (data_record_save_path prof) (bench_name @ ''.json'')
      in if summary_write_ok e then s\<lparr>summary_files := summary_files s @ [(summary_path, summ)]\<rparr>
         else s)"

text \<open>Everything after the base size is found: both passes on one counter.\<close>

definition sweeps ::
  "env \<Rightarrow> profile \<Rightarrow> string \<Rightarrow> bench_conf \<Rightarrow> string \<Rightarrow> int \<Rightarrow> locals \<times> sys_state
     \<Rightarrow> (locals \<times> sys_state) outcome" where
  "sweeps e prof bench_name bconf exe_path base_size ls =
     (let (l, s) = ls;
          ls1 = (l\<lparr>idx_counter := 1\<rparr>, s)
      in case normal_pass e prof bench_name bconf exe_path base_size (normal_combinations bconf) ls1 of
           Raised err s' \<Rightarrow> Raised err s'
         | Returned ls2 \<Rightarrow>
             special_pass e prof bench_name bconf exe_path base_size (special_arg_list bconf) ls2)"

definition exe_path_of :: "env \<Rightarrow> profile \<Rightarrow> string \<Rightarrow> bench_conf \<Rightarrow> string" where
  "exe_path_of e prof bench_name bconf =
     (let benchmark_dir = os_path_join (benchmark_path prof) bench_name;
          exe_name = strip_leading_dot_slash (base_script bconf)
      in abspath (getcwd e) (os_path_join benchmark_dir exe_name))"

text \<open>
  What \<open>process_benchmark\<close> does: it returns a status code, or is left by an exception,
  each with the effects so far; \<open>None\<close> when the base-size search never stops. The
  creation of the two directories and the removal of stray artifacts before the build
  change nothing that is recorded here.
\<close>

definition process_benchmark ::
  "env \<Rightarrow> profile \<Rightarrow> string \<Rightarrow> sys_state \<Rightarrow> (int \<times> sys_state) outcome option" where
  "process_benchmark e prof bench_name s =
     (case benchmark_config prof bench_name of
        None \<Rightarrow> Some (Returned (1, s))
      | Some bconf \<Rightarrow>
          (let benchmark_dir = os_path_join (benchmark_path prof) bench_name
           in if \<not> isdir e benchmark_dir then Some (Returned (1, s))
              else if go_build_returncode e benchmark_dir \<noteq> 0 then Some (Returned (1, s))
              else
                (let exe_path = exe_path_of e prof bench_name bconf
                 in case base_loop e prof bench_name bconf exe_path (size_arg_start bconf) s of
                      None \<Rightarrow> None
                    | Some (BaseAborted s1) \<Rightarrow> Some (Returned (1, s1))
                    | Some (BaseRaised err s1) \<Rightarrow> Some (Raised err s1)
                    | Some (BaseFound base_size l s1) \<Rightarrow>
                        (case sweeps e prof bench_name bconf exe_path base_size (l, s1) of
                           Raised err s2 \<Rightarrow> Some (Raised err s2)
                         | Returned (l2, s2) \<Rightarrow>
                             Some (Returned (0, write_summary e prof bench_name l2 s2))))))"

declare base_loop.simps [code]

subsection \<open>The runs, seen from outside\<close>

text \<open>
  The search started at size \<open>start\<close> in state \<open>s\<close> runs its \<open>j\<close>-th attempt (counted from
  \<open>0\<close>) at size \<open>start * 2 ^ j\<close>, as run number \<open>length (executed s) + j\<close> of the execution.
  \<open>base_cmd\<close> is the command of an attempt, \<open>attempt_proc\<close> what that child process leaves
  behind (\<open>None\<close> when the command cannot be built or run, so that the attempt raises),
  \<open>base_attempt\<close> what \<open>run_benchmark_and_get_size\<close> makes of it, and \<open>meets_threshold\<close> the
  condition under which the loop accepts it: an artifact was found and its size is not
  below the minimum. For an attempt that raises, \<open>base_attempt\<close> is \<open>(False, 0, None)\<close>: it
  neither succeeded nor met the threshold.
\<close>

definition base_cmd :: "env \<Rightarrow> profile \<Rightarrow> bench_conf \<Rightarrow> string \<Rightarrow> int \<Rightarrow> string list option" where
  "base_cmd e prof bconf exe_path cur_size =
     build_base_benchmark_cmd e exe_path (benchmark_base_arg prof)
       (benchmark_trace_filename_arg prof)
       (os_path_join (data_save_path prof) (format_data_filename (bench_id bconf) ''0'' 0))
       (size_arg bconf) cur_size"

definition attempt_proc ::
  "env \<Rightarrow> profile \<Rightarrow> bench_conf \<Rightarrow> string \<Rightarrow> int \<Rightarrow> sys_state \<Rightarrow> nat \<Rightarrow> proc_result option" where
  "attempt_proc e prof bconf exe_path start s j =
     (case base_cmd e prof bconf exe_path (start * 2 ^ j) of
        None \<Rightarrow> None
      | Some cmd \<Rightarrow> run_proc e (length (executed s) + j) cmd)"

definition base_attempt ::
  "env \<Rightarrow> profile \<Rightarrow> bench_conf \<Rightarrow> string \<Rightarrow> int \<Rightarrow> sys_state \<Rightarrow> nat
     \<Rightarrow> bool \<times> megabytes \<times> string option" where
  "base_attempt e prof bconf exe_path start s j =
     (case attempt_proc e prof bconf exe_path start s j of
        None \<Rightarrow> (False, IntMB 0, None)
      | Some proc \<Rightarrow> run_benchmark_and_get_size proc)"

definition meets_threshold :: "profile \<Rightarrow> bool \<times> megabytes \<times> string option \<Rightarrow> bool" where
  "meets_threshold prof r =
     (case r of (succeeded, size_mb, produced_path) \<Rightarrow>
        succeeded \<and> produced_path \<noteq> None \<and> \<not> mb_less size_mb (benchmark_trace_min_size_MB prof))"


text \<open>
  The commands of the sweep runs: of the normal run for a combination and of the special
  run for an entry, at the accepted base size; \<open>None\<close> when \<open>shlex.split\<close> raises.
\<close>

definition normal_cmd ::
  "env \<Rightarrow> profile \<Rightarrow> bench_conf \<Rightarrow> string \<Rightarrow> int \<Rightarrow> arg_value list \<Rightarrow> string list option" where
  "normal_cmd e prof bconf exe_path base_size combo =
     (case (if benchmark_base_arg prof \<noteq> [] then py_shlex_split e (benchmark_base_arg prof)
            else Some []) of
        None \<Rightarrow> None
      | Some base_tokens \<Rightarrow>
          Some ([exe_path] @ base_tokens
                @ [size_arg bconf] @ [str_int base_size]
                @ concat (map (\<lambda>(arg_name, arg_val). [arg_name, py_str arg_val])
                            (zip (normal_arg_list bconf) combo))))"

definition special_cmd ::
  "env \<Rightarrow> profile \<Rightarrow> bench_conf \<Rightarrow> string \<Rightarrow> int \<Rightarrow> string \<Rightarrow> string list option" where
  "special_cmd e prof bconf exe_path base_size special =
     (case py_shlex_split e special of
        None \<Rightarrow> None
      | Some special_tokens \<Rightarrow>
         (case (if benchmark_base_arg prof \<noteq> [] then py_shlex_split e (benchmark_base_arg prof)
                else Some []) of
            None \<Rightarrow> None
          | Some base_tokens \<Rightarrow>
              Some ([exe_path] @ base_tokens
                    @ [size_arg bconf] @ [str_int base_size]
                    @ special_tokens)))"

text \<open>The commands of all sweep runs, in the order in which they are run.\<close>

definition sweep_cmds ::
  "env \<Rightarrow> profile \<Rightarrow> bench_conf \<Rightarrow> string \<Rightarrow> int \<Rightarrow> string list option list" where
  "sweep_cmds e prof bconf exe_path base_size =
     map (normal_cmd e prof bconf exe_path base_size) (normal_combinations bconf)
     @ map (special_cmd e prof bconf exe_path base_size) (special_arg_list bconf)"

section \<open>The specification's side\<close>

text \<open>
  The parser the specification speaks of, for names of the shape
  \<open>D<bench_id><type_id><index:04d>.sqlite3\<close> with a two-character \<open>bench_id\<close> and a
  one-character \<open>type_id\<close>. The source has no parser; this one is the inverse the
  specification asks for.
\<close>

definition digit_val :: "char \<Rightarrow> nat" where
  "digit_val c = of_char c - 48"

definition nat_of_digits :: "string \<Rightarrow> nat" where
  "nat_of_digits ds = foldl (\<lambda>a c. 10 * a + digit_val c) 0 ds"

definition spec_parse_int :: "string \<Rightarrow> int" where
  "spec_parse_int ds =
     (case ds of
        [] \<Rightarrow> 0
      | c # cs \<Rightarrow> if c = CHR ''-'' then - int (nat_of_digits cs) else int (nat_of_digits ds))"

definition spec_parse_data_filename :: "string \<Rightarrow> (string \<times> string \<times> int) option" where
  "spec_parse_data_filename name =
     (if 12 \<le> length name \<and> take 1 name = ''D'' \<and> suffix ''.sqlite3'' name
      then Some (take 2 (drop 1 name), take 1 (drop 3 name),
                 spec_parse_int (take (length name - 12) (drop 4 name)))
      else None)"

text \<open>
  The specification's order of the combinations: the lexicographic product of the value
  lists, the last flag varying fastest. Position \<open>p\<close> holds the combination whose value
  for a flag is selected by the corresponding digit of \<open>p\<close> in the mixed radix of the
  value lists' lengths.
\<close>

fun combo_at :: "'a list list \<Rightarrow> nat \<Rightarrow> 'a list" where
  "combo_at [] p = []"
| "combo_at (vals # rest) p =
     vals ! (p div prod_list (map length rest)) # combo_at rest (p mod prod_list (map length rest))"

definition spec_lex_product :: "'a list list \<Rightarrow> 'a list list" where
  "spec_lex_product pools = map (combo_at pools) [0..<prod_list (map length pools)]"

section \<open>A concrete configuration and scripted worlds\<close>

text \<open>
  \<open>split_spaces\<close> is \<open>shlex.split\<close> on a string made of plain characters, spaces and
  double quotes (no backslash, no single quote, no other white space): spaces separate
  the words, a double quote opens or closes a quoted stretch in which a space belongs to
  the word, and a string that ends inside a quoted stretch is refused (\<open>ValueError\<close>,
  no closing quotation). \<open>tok\<close> is the word being read, if one has begun. In a scripted
  world the \<open>k\<close>-th call of \<open>run_benchmark_and_get_size\<close> meets \<open>script ! k\<close> (and \<open>dflt\<close>
  once the script is over), and the moves after the runs listed in \<open>bad_moves\<close> fail.
\<close>

fun shlex_scan :: "bool \<Rightarrow> string option \<Rightarrow> string \<Rightarrow> string list option" where
  "shlex_scan quoted tok [] =
     (if quoted then None else Some (case tok of None \<Rightarrow> [] | Some w \<Rightarrow> [w]))"
| "shlex_scan quoted tok (c # cs) =
     (if c = CHR 0x22
      then shlex_scan (\<not> quoted) (Some (case tok of None \<Rightarrow> [] | Some w \<Rightarrow> w)) cs
      else if c = CHR '' '' \<and> \<not> quoted
      then (case tok of
              None \<Rightarrow> shlex_scan False None cs
            | Some w \<Rightarrow> map_option ((#) w) (shlex_scan False None cs))
      else shlex_scan quoted (Some ((case tok of None \<Rightarrow> [] | Some w \<Rightarrow> w) @ [c])) cs)"

definition split_spaces :: "string \<Rightarrow> string list option" where
  "split_spaces s = shlex_scan False None s"

definition artifact :: "nat \<Rightarrow> proc_result" where
  "artifact size_bytes =
     \<lparr>returncode = 0,
      matches = [\<lparr>file_path = ''/w/akita_sim_1.sqlite3'', st_mtime = 1, st_size = size_bytes\<rparr>]\<rparr>"

definition no_artifact :: proc_result where
  "no_artifact = \<lparr>returncode = 0, matches = []\<rparr>"

definition exit_nonzero :: proc_result where
  "exit_nonzero = \<lparr>returncode = 1, matches = []\<rparr>"

definition scripted_env :: "proc_result option list \<Rightarrow> proc_result option \<Rightarrow> nat list \<Rightarrow> env" where
  "scripted_env script dflt bad_moves =
     \<lparr>shlex_split = split_spaces,
      getcwd = ''/w'',
      isdir = (\<lambda>d. True),
      go_build_returncode = (\<lambda>d. 0),
      run_proc = (\<lambda>k cmd. if k < length script then script ! k else dflt),
      move_ok = (\<lambda>k. k \<notin> set bad_moves),
      summary_write_ok = True\<rparr>"

definition demo_conf :: "int \<Rightarrow> bench_conf" where
  "demo_conf start =
     \<lparr>bench_id = ''03'', base_script = ''./kmeans'', size_arg = ''-points'',
      size_arg_start = start,
      normal_arg_list = [''-a'', ''-b''],
      normal_arg_values = [''a'' \<mapsto> [IntVal 1, IntVal 2], ''b'' \<mapsto> [IntVal 10, IntVal 20]],
      special_arg_list = [''-x 1'']\<rparr>"


definition plain_conf :: "int \<Rightarrow> bench_conf" where
  "plain_conf start =
     \<lparr>bench_id = ''03'', base_script = ''./kmeans'', size_arg = ''-points'',
      size_arg_start = start,
      normal_arg_list = [],
      normal_arg_values = Map.empty,
      special_arg_list = []\<rparr>"

definition demo_profile :: "bench_conf \<Rightarrow> profile" where
  "demo_profile bconf =
     \<lparr>benchmark_config = [''kmeans'' \<mapsto> bconf],
      data_save_path = ''./data'',
      data_record_save_path = ''./data_record'',
      benchmark_path = ''bench'',
      benchmark_base_arg = ''-timing -trace-vis'',
      benchmark_trace_filename_arg = ''-trace-vis-db-file'',
      benchmark_trace_min_size_MB = 5\<rparr>"

definition fresh_state :: sys_state where
  "fresh_state = \<lparr>executed = [], unlinked = [], moved = [], record_files = [], summary_files = []\<rparr>"

text \<open>
  The main scenario: the search starts at size 1 and sees no artifact, 2 MB, 2 MB and
  6 MB; then the four normal runs (the first produces an artifact that cannot be moved,
  the second exits nonzero, the third succeeds, the fourth produces no artifact) and one
  special run.
\<close>

definition demo_env :: env where
  "demo_env =
     scripted_env
       [Some no_artifact, Some (artifact (2 * 1048576)), Some (artifact (2 * 1048576)),
        Some (artifact (6 * 1048576)),
        Some (artifact (6 * 1048576)), Some exit_nonzero, Some (artifact (7 * 1048576)),
        Some no_artifact]
       (Some (artifact (6 * 1048576))) [4]"

text \<open>A world in which every run leaves a 6 MB artifact and no move succeeds.\<close>

definition stuck_env :: env where
  "stuck_env = scripted_env [] (Some (artifact (6 * 1048576))) [0, 1, 2, 3, 4, 5, 6, 7]"

text \<open>A world in which the second attempt of the search exits nonzero.\<close>

definition failing_env :: env where
  "failing_env = scripted_env [Some no_artifact, Some exit_nonzero] (Some (artifact (6 * 1048576))) []"

text \<open>A world in which every run leaves a 2 MB artifact.\<close>

definition small_env :: env where
  "small_env = scripted_env [] (Some (artifact (2 * 1048576))) []"


subsection \<open>What a stretch of sweep runs leaves behind\<close>

text \<open>
  \<open>sweep_ok e nm n ls ls'\<close>: from \<open>ls\<close> to \<open>ls'\<close> exactly \<open>n\<close> commands were run and \<open>n\<close>
  records written, no summary; the \<open>i\<close>-th of them has the trace file name \<open>nm i\<close>, which
  was also appended to the list of produced traces; the \<open>i\<close>-th command did run, and the
  size field is the size that \<open>run_benchmark_and_get_size\<close> measured for it.
\<close>

definition sweep_ok ::
  "env \<Rightarrow> (nat \<Rightarrow> string) \<Rightarrow> nat \<Rightarrow> locals \<times> sys_state \<Rightarrow> locals \<times> sys_state \<Rightarrow> bool" where
  "sweep_ok e nm n ls ls' =
     (produced_traces (fst ls') = produced_traces (fst ls) @ map nm [0..<n]
      \<and> length (produced_records (fst ls')) = length (produced_records (fst ls)) + n
      \<and> summary_files (snd ls') = summary_files (snd ls)
      \<and> (\<exists>cmds recs.
            executed (snd ls') = executed (snd ls) @ cmds \<and> length cmds = n
          \<and> record_files (snd ls') = record_files (snd ls) @ recs \<and> length recs = n
          \<and> (\<forall>i<n. trace_file (snd (recs ! i)) = nm i
                   \<and> rec_id (snd (recs ! i)) = str_replace ''.sqlite3'' [] (nm i)
                   \<and> (\<exists>p. run_proc e (length (executed (snd ls)) + i) (cmds ! i) = Some p
                          \<and> size_field (snd (recs ! i)) =
                              size_label (fst (snd (run_benchmark_and_get_size p)))))))"

section \<open>Decimal numbers and file names\<close>

lemma digit_val_digit_char: "d < 10 \<Longrightarrow> digit_val (digit_char d) = d"
proof -
  assume "d < 10"
  then have "d \<in> {0,1,2,3,4,5,6,7,8,9}" by auto
  then show ?thesis by (auto simp: digit_val_def digit_char_def)
qed

lemma digit_char_not_dash: "d < 10 \<Longrightarrow> digit_char d \<noteq> CHR ''-''"
proof -
  assume "d < 10"
  then have "d \<in> {0,1,2,3,4,5,6,7,8,9}" by auto
  then show ?thesis by (auto simp: digit_char_def)
qed

lemma nat_of_digits_snoc: "nat_of_digits (ds @ [c]) = 10 * nat_of_digits ds + digit_val c"
  by (simp add: nat_of_digits_def)

lemma nat_of_digits_str_nat: "nat_of_digits (str_nat n) = n"
proof (induction n rule: str_nat.induct)
  case (1 n)
  show ?case
  proof (cases "n < 10")
    case True
    then show ?thesis
      by (simp add: str_nat.simps [of n] nat_of_digits_def digit_val_digit_char)
  next
    case False
    with 1 show ?thesis
      by (simp add: str_nat.simps [of n] nat_of_digits_snoc digit_val_digit_char)
  qed
qed

lemma nat_of_digits_zeros: "nat_of_digits (replicate k CHR ''0'' @ ds) = nat_of_digits ds"
proof -
  have "foldl (\<lambda>a c. 10 * a + digit_val c) 0 (replicate k CHR ''0'') = 0"
    by (induction k) (simp_all add: digit_val_def)
  then show ?thesis by (simp add: nat_of_digits_def)
qed

lemma str_nat_not_Nil: "str_nat n \<noteq> []"
  by (subst str_nat.simps) simp

lemma hd_str_nat_not_dash: "hd (str_nat n) \<noteq> CHR ''-''"
proof (induction n rule: str_nat.induct)
  case (1 n)
  show ?case
  proof (cases "n < 10")
    case True
    then show ?thesis by (simp add: str_nat.simps [of n] digit_char_not_dash)
  next
    case False
    with 1 show ?thesis
      by (simp add: str_nat.simps [of n] str_nat_not_Nil)
  qed
qed

lemma hd_zfill_not_dash: "hd (zfill w (str_nat n)) \<noteq> CHR ''-''"
  by (cases "w - length (str_nat n)") (simp_all add: zfill_def hd_str_nat_not_dash hd_append str_nat_not_Nil)

lemma zfill_not_Nil: "zfill w (str_nat n) \<noteq> []"
  by (simp add: zfill_def str_nat_not_Nil)

lemma nat_of_digits_zfill: "nat_of_digits (zfill w (str_nat n)) = n"
  by (simp add: zfill_def nat_of_digits_zeros nat_of_digits_str_nat)

lemma spec_parse_int_fmt_04d: "spec_parse_int (fmt_04d i) = i"
proof (cases "i < 0")
  case True
  then show ?thesis
    by (simp add: fmt_04d_def spec_parse_int_def nat_of_digits_zfill)
next
  case False
  obtain c cs where z: "zfill 4 (str_nat (nat i)) = c # cs"
    using zfill_not_Nil [of 4 "nat i"] by (cases "zfill 4 (str_nat (nat i))") auto
  have "c \<noteq> CHR ''-''" using hd_zfill_not_dash [of 4 "nat i"] z by simp
  moreover have "nat_of_digits (c # cs) = nat i" using nat_of_digits_zfill [of 4 "nat i"] z by simp
  ultimately show ?thesis using False z
    by (simp add: fmt_04d_def spec_parse_int_def)
qed

lemma length_zfill: "w \<le> length (zfill w ds)"
  by (simp add: zfill_def)

lemma length_fmt_04d: "4 \<le> length (fmt_04d i)"
  using length_zfill [of 3 "str_nat (nat (- i))"] length_zfill [of 4 "str_nat (nat i)"]
  by (simp add: fmt_04d_def)

lemma spec_parse_format:
  assumes "length bid = 2" "length tid = 1"
  shows "spec_parse_data_filename (format_data_filename bid tid index) = Some (bid, tid, index)"
proof -
  let ?f = "fmt_04d index"
  let ?n = "format_data_filename bid tid index"
  have n: "?n = CHR ''D'' # bid @ tid @ ?f @ ''.sqlite3''"
    by (simp add: format_data_filename_def DATA_TASK_PREFIX_def)
  have len: "length ?n = 12 + length ?f" using assms by (simp add: n)
  have suf: "suffix ''.sqlite3'' ?n"
    unfolding n by (metis append_Cons append_assoc suffixI)
  have d4: "drop 4 ?n = ?f @ ''.sqlite3''" using assms by (simp add: n)
  have "take 2 (drop 1 ?n) = bid" using assms by (simp add: n)
  moreover have "take 1 (drop 3 ?n) = tid" using assms by (simp add: n)
  moreover have "take (length ?n - 12) (drop 4 ?n) = ?f" by (simp add: len d4)
  moreover have "take 1 ?n = ''D''" by (simp add: n)
  ultimately show ?thesis using len suf
    by (simp add: spec_parse_data_filename_def spec_parse_int_fmt_04d)
qed

lemma str_nat_small: "n < 10 \<Longrightarrow> str_nat n = [digit_char n]"
  by (subst str_nat.simps) simp

lemma str_nat_big: "\<not> n < 10 \<Longrightarrow> str_nat n = str_nat (n div 10) @ [digit_char (n mod 10)]"
  by (subst str_nat.simps) simp

lemma replicate_eval: "replicate n x = (if n = 0 then [] else x # replicate (n - 1) x)"
  by (cases n) simp_all

lemmas eval_str = replicate_eval str_nat_small str_nat_big digit_char_def str_int_def fmt_04d_def zfill_def


subsection \<open>Formatting a file name is invertible\<close>

text \<open>
  Claim C8. For a two-character \<open>bench_id\<close>, a \<open>type_id\<close> that is \<open>"0"\<close> or \<open>"1"\<close> and any
  index, the file name is \<open>D<bench_id><type_id><index:04d>.sqlite3\<close>: the index is printed
  with at least four characters and reads back as the same number; parsing the name gives
  back the triple it was formatted from; and two such triples with the same name are
  equal, so runs with distinct type or index never share a name.
\<close>

theorem format_data_filename_invertible:
  assumes "length bid = 2" and "tid \<in> {''0'', ''1''}"
  shows "format_data_filename bid tid index
           = ''D'' @ bid @ tid @ fmt_04d index @ ''.sqlite3''
       \<and> 4 \<le> length (fmt_04d index)
       \<and> spec_parse_int (fmt_04d index) = index
       \<and> spec_parse_data_filename (format_data_filename bid tid index)
           = Some (bid, tid, index)
       \<and> (\<forall>b' t' i'. length b' = 2 \<and> t' \<in> {''0'', ''1''}
             \<and> format_data_filename b' t' i' = format_data_filename bid tid index
            \<longrightarrow> b' = bid \<and> t' = tid \<and> i' = index)"
proof -
  have t: "length tid = 1" using assms(2) by auto
  have p: "spec_parse_data_filename (format_data_filename bid tid index)
           = Some (bid, tid, index)"
    by (rule spec_parse_format [OF assms(1) t])
  have inj: "b' = bid \<and> t' = tid \<and> i' = index"
    if "length b' = 2" "t' \<in> {''0'', ''1''}"
       "format_data_filename b' t' i' = format_data_filename bid tid index" for b' t' i'
  proof -
    have "length t' = 1" using that(2) by auto
    then have "spec_parse_data_filename (format_data_filename b' t' i') = Some (b', t', i')"
      by (rule spec_parse_format [OF that(1)])
    then have "spec_parse_data_filename (format_data_filename bid tid index) = Some (b', t', i')"
      by (simp only: that(3))
    then have "Some (b', t', i') = Some (bid, tid, index)"
      by (simp only: p)
    then show ?thesis by (simp only: option.inject prod.inject)
  qed
  have shape: "format_data_filename bid tid index
           = ''D'' @ bid @ tid @ fmt_04d index @ ''.sqlite3''"
    by (simp add: format_data_filename_def DATA_TASK_PREFIX_def)
  from inj have inj': "\<forall>b' t' i'. length b' = 2 \<and> t' \<in> {''0'', ''1''}
             \<and> format_data_filename b' t' i' = format_data_filename bid tid index
            \<longrightarrow> b' = bid \<and> t' = tid \<and> i' = index"
    by blast
  from shape length_fmt_04d [of index] spec_parse_int_fmt_04d [of index] p inj'
  show ?thesis by (intro conjI)
qed

theorem format_data_filename_invertible_witness:
  "length ''03'' = 2 \<and> ''1'' \<in> {''0'', ''1''}
   \<and> format_data_filename ''03'' ''1'' 5 = ''D0310005.sqlite3''
   \<and> spec_parse_data_filename ''D0310005.sqlite3'' = Some (''03'', ''1'', 5)"
proof -
  have f: "format_data_filename ''03'' ''1'' 5 = ''D0310005.sqlite3''"
    by (simp add: format_data_filename_def DATA_TASK_PREFIX_def eval_str)
  show ?thesis
    using format_data_filename_invertible [of "''03''" "''1''" 5] by (simp add: f)
qed

section \<open>The base-size search\<close>

text \<open>An attempt seen from the state in which it starts.\<close>

lemma attempt_proc_shift:
  "length (executed sk) = length (executed s) + k
     \<Longrightarrow> attempt_proc e prof bconf exe_path (start * 2 ^ k) sk 0
           = attempt_proc e prof bconf exe_path start s k"
  by (simp add: attempt_proc_def split: option.splits)

lemma base_attempt_shift:
  "length (executed sk) = length (executed s) + k
     \<Longrightarrow> base_attempt e prof bconf exe_path (start * 2 ^ k) sk 0
           = base_attempt e prof bconf exe_path start s k"
  by (simp add: base_attempt_def attempt_proc_shift)

lemma attempt_proc_SomeD:
  assumes "attempt_proc e prof bconf exe_path c s 0 = Some p"
  shows "\<exists>cmd. build_base_benchmark_cmd e exe_path (benchmark_base_arg prof)
                  (benchmark_trace_filename_arg prof)
                  (os_path_join (data_save_path prof) (format_data_filename (bench_id bconf) ''0'' 0))
                  (size_arg bconf) c = Some cmd
              \<and> run_proc e (length (executed s)) cmd = Some p"
  using assms by (simp add: attempt_proc_def base_cmd_def split: option.splits)

lemma base_attempt_ranD:
  assumes "fst (base_attempt e prof bconf exe_path c s j)"
  shows "\<exists>p. attempt_proc e prof bconf exe_path c s j = Some p
            \<and> base_attempt e prof bconf exe_path c s j = run_benchmark_and_get_size p"
  using assms by (simp add: base_attempt_def split: option.splits)

lemma meets_threshold_fst: "meets_threshold prof r \<Longrightarrow> fst r"
  by (cases r) (simp add: meets_threshold_def)

lemma build_cmd_tokens:
  assumes "build_base_benchmark_cmd e exe_path base_args flag path size_name c = Some cmd"
  shows "\<exists>toks. py_shlex_split e base_args = Some toks"
  using assms
  by (cases "base_args = []")
     (simp_all add: build_base_benchmark_cmd_def py_shlex_split_def split: option.splits)

text \<open>What one iteration does, by the outcome of its run.\<close>

lemma base_step_aborted:
  assumes "attempt_proc e prof bconf exe_path c s 0 = Some p" and "returncode p \<noteq> 0"
  shows "\<exists>s'. base_step e prof bench_name bconf exe_path c s = Stop (BaseAborted s')
            \<and> record_files s' = record_files s \<and> summary_files s' = summary_files s
            \<and> moved s' = moved s"
proof -
  from attempt_proc_SomeD [OF assms(1)] obtain cmd where
    b: "build_base_benchmark_cmd e exe_path (benchmark_base_arg prof)
          (benchmark_trace_filename_arg prof)
          (os_path_join (data_save_path prof) (format_data_filename (bench_id bconf) ''0'' 0))
          (size_arg bconf) c = Some cmd"
    and r: "run_proc e (length (executed s)) cmd = Some p"
    by blast
  have "run_benchmark_and_get_size p = (False, IntMB 0, None)"
    using assms(2) by (simp add: run_benchmark_and_get_size_def)
  with b r show ?thesis
    by (simp add: base_step_def run_cmd_def Let_def)
qed

lemma base_step_searching:
  assumes "fst (base_attempt e prof bconf exe_path c s 0)"
    and "\<not> meets_threshold prof (base_attempt e prof bconf exe_path c s 0)"
  shows "\<exists>s'. base_step e prof bench_name bconf exe_path c s = Searching (c * 2) s'
            \<and> length (executed s') = length (executed s) + 1
            \<and> record_files s' = record_files s \<and> summary_files s' = summary_files s
            \<and> moved s' = moved s"
proof -
  from base_attempt_ranD [OF assms(1)] obtain p where
    p: "attempt_proc e prof bconf exe_path c s 0 = Some p"
    and a: "base_attempt e prof bconf exe_path c s 0 = run_benchmark_and_get_size p"
    by blast
  from attempt_proc_SomeD [OF p] obtain cmd where
    b: "build_base_benchmark_cmd e exe_path (benchmark_base_arg prof)
          (benchmark_trace_filename_arg prof)
          (os_path_join (data_save_path prof) (format_data_filename (bench_id bconf) ''0'' 0))
          (size_arg bconf) c = Some cmd"
    and r: "run_proc e (length (executed s)) cmd = Some p"
    by blast
  obtain ok sz pp where t: "run_benchmark_and_get_size p = (ok, sz, pp)"
    by (metis prod_cases3)
  with assms a have ok: "ok" and nm: "pp = None \<or> mb_less sz (benchmark_trace_min_size_MB prof)"
    by (auto simp: meets_threshold_def)
  show ?thesis
  proof (cases pp)
    case None
    with b r t ok show ?thesis
      by (simp add: base_step_def run_cmd_def Let_def)
  next
    case (Some q)
    with nm have "mb_less sz (benchmark_trace_min_size_MB prof)" by simp
    with b r t ok Some show ?thesis
      by (simp add: base_step_def run_cmd_def Let_def)
  qed
qed

lemma base_step_found:
  assumes "meets_threshold prof (base_attempt e prof bconf exe_path c s 0)"
  shows "\<exists>l s' path r. base_step e prof bench_name bconf exe_path c s = Stop (BaseFound c l s')
            \<and> length (executed s') = length (executed s) + 1
            \<and> record_files s' = record_files s @ [(path, r)]
            \<and> summary_files s' = summary_files s
            \<and> size_field r = size_label (fst (snd (base_attempt e prof bconf exe_path c s 0)))
            \<and> comment_field r = ''base trace''
            \<and> idx_counter l = 0
            \<and> produced_traces l = [trace_file r]
            \<and> length (produced_records l) = 1"
proof -
  from base_attempt_ranD [OF meets_threshold_fst [OF assms]] obtain p where
    p: "attempt_proc e prof bconf exe_path c s 0 = Some p"
    and a: "base_attempt e prof bconf exe_path c s 0 = run_benchmark_and_get_size p"
    by blast
  from attempt_proc_SomeD [OF p] obtain cmd where
    b: "build_base_benchmark_cmd e exe_path (benchmark_base_arg prof)
          (benchmark_trace_filename_arg prof)
          (os_path_join (data_save_path prof) (format_data_filename (bench_id bconf) ''0'' 0))
          (size_arg bconf) c = Some cmd"
    and r: "run_proc e (length (executed s)) cmd = Some p"
    by blast
  from build_cmd_tokens [OF b] obtain toks where
    toks: "py_shlex_split e (benchmark_base_arg prof) = Some toks" by blast
  obtain ok sz pp where t: "run_benchmark_and_get_size p = (ok, sz, pp)"
    by (metis prod_cases3)
  with assms a obtain q where ok: "ok" and pp: "pp = Some q"
    and ge: "\<not> mb_less sz (benchmark_trace_min_size_MB prof)"
    by (auto simp: meets_threshold_def)
  show ?thesis
  proof (cases "move_ok e (length (executed s))")
    case True
    with b r t ok pp ge toks show ?thesis
      by (simp add: a base_step_def run_cmd_def Let_def write_data_record_def try_move_def)
  next
    case False
    with b r t ok pp ge toks show ?thesis
      by (simp add: a base_step_def run_cmd_def Let_def write_data_record_def try_move_def)
  qed
qed


lemma base_iter_back:
  "base_iter (Suc n) e prof bench_name bconf exe_path c s =
     (case base_iter n e prof bench_name bconf exe_path c s of
        Searching c' s' \<Rightarrow> base_step e prof bench_name bconf exe_path c' s'
      | Stop r \<Rightarrow> Stop r)"
proof (induction n arbitrary: c s)
  case 0
  show ?case by (simp split: search_step.splits)
next
  case (Suc n)
  show ?case
  proof (cases "base_step e prof bench_name bconf exe_path c s")
    case (Searching c1 s1)
    have "base_iter (Suc (Suc n)) e prof bench_name bconf exe_path c s
            = base_iter (Suc n) e prof bench_name bconf exe_path c1 s1"
      using Searching by simp
    also have "\<dots> = (case base_iter n e prof bench_name bconf exe_path c1 s1 of
        Searching c' s' \<Rightarrow> base_step e prof bench_name bconf exe_path c' s'
      | Stop r \<Rightarrow> Stop r)"
      by (rule Suc.IH)
    also have "base_iter n e prof bench_name bconf exe_path c1 s1
            = base_iter (Suc n) e prof bench_name bconf exe_path c s"
      using Searching by simp
    finally show ?thesis .
  next
    case (Stop r)
    then show ?thesis by simp
  qed
qed

lemma base_iter_searching:
  assumes "\<forall>j<k. fst (base_attempt e prof bconf exe_path start s j)
                \<and> \<not> meets_threshold prof (base_attempt e prof bconf exe_path start s j)"
  shows "\<exists>sk. base_iter k e prof bench_name bconf exe_path start s = Searching (start * 2 ^ k) sk
            \<and> length (executed sk) = length (executed s) + k
            \<and> record_files sk = record_files s \<and> summary_files sk = summary_files s
            \<and> moved sk = moved s"
  using assms
proof (induction k)
  case 0
  show ?case by simp
next
  case (Suc k)
  then obtain sk where sk: "base_iter k e prof bench_name bconf exe_path start s = Searching (start * 2 ^ k) sk"
    and len: "length (executed sk) = length (executed s) + k"
    and same: "record_files sk = record_files s" "summary_files sk = summary_files s" "moved sk = moved s"
    by auto
  from Suc.prems have att: "fst (base_attempt e prof bconf exe_path start s k)"
    "\<not> meets_threshold prof (base_attempt e prof bconf exe_path start s k)" by auto
  have a: "base_attempt e prof bconf exe_path (start * 2 ^ k) sk 0
             = base_attempt e prof bconf exe_path start s k"
    using len by (rule base_attempt_shift)
  from base_step_searching [of e prof bconf exe_path "start * 2 ^ k" sk bench_name] att
  obtain s' where s': "base_step e prof bench_name bconf exe_path (start * 2 ^ k) sk = Searching (start * 2 ^ k * 2) s'"
    "length (executed s') = length (executed sk) + 1"
    "record_files s' = record_files sk" "summary_files s' = summary_files sk" "moved s' = moved sk"
    unfolding a by blast
  have "base_iter (Suc k) e prof bench_name bconf exe_path start s = Searching (start * 2 ^ Suc k) s'"
    by (simp only: base_iter_back sk search_step.case s' power_Suc2 mult.assoc)
  with s' len same show ?case by simp
qed

lemma base_loop_of_iter:
  "base_iter n e prof bench_name bconf exe_path c s = Stop r
     \<Longrightarrow> base_loop e prof bench_name bconf exe_path c s = Some r"
proof (induction n arbitrary: c s)
  case 0
  then show ?case by simp
next
  case (Suc n)
  show ?case
  proof (cases "base_step e prof bench_name bconf exe_path c s")
    case (Searching c1 s1)
    with Suc.prems have "base_iter n e prof bench_name bconf exe_path c1 s1 = Stop r" by simp
    then have "base_loop e prof bench_name bconf exe_path c1 s1 = Some r" by (rule Suc.IH)
    then show ?thesis by (subst base_loop.simps) (simp add: Searching)
  next
    case (Stop r')
    with Suc.prems have "r' = r" by simp
    then show ?thesis by (subst base_loop.simps) (simp add: Stop)
  qed
qed

lemma base_loop_Some_iter:
  assumes "base_loop e prof bench_name bconf exe_path c s = Some r"
  shows "\<exists>n. base_iter n e prof bench_name bconf exe_path c s = Stop r"
proof (rule base_loop.raw_induct
    [where P = "\<lambda>e prof bench_name bconf exe_path c s r.
                  \<exists>n. base_iter n e prof bench_name bconf exe_path c s = Stop r",
     OF _ assms])
  fix loop :: "env \<Rightarrow> profile \<Rightarrow> string \<Rightarrow> bench_conf \<Rightarrow> string \<Rightarrow> int \<Rightarrow> sys_state \<Rightarrow> base_outcome option"
  fix e prof bench_name bconf exe_path c s r
  assume IH: "\<And>e prof bench_name bconf exe_path c s r.
      loop e prof bench_name bconf exe_path c s = Some r
      \<Longrightarrow> \<exists>n. base_iter n e prof bench_name bconf exe_path c s = Stop r"
    and body: "(case base_step e prof bench_name bconf exe_path c s of
        Searching c' s' \<Rightarrow> loop e prof bench_name bconf exe_path c' s'
      | Stop r \<Rightarrow> Some r) = Some r"
  show "\<exists>n. base_iter n e prof bench_name bconf exe_path c s = Stop r"
  proof (cases "base_step e prof bench_name bconf exe_path c s")
    case (Searching c1 s1)
    with body have "loop e prof bench_name bconf exe_path c1 s1 = Some r" by simp
    then obtain n where "base_iter n e prof bench_name bconf exe_path c1 s1 = Stop r"
      using IH by blast
    then have "base_iter (Suc n) e prof bench_name bconf exe_path c s = Stop r"
      using Searching by simp
    then show ?thesis ..
  next
    case (Stop r')
    with body have "r' = r" by simp
    then have "base_iter (Suc 0) e prof bench_name bconf exe_path c s = Stop r"
      using Stop by simp
    then show ?thesis ..
  qed
qed

lemma fst_run_benchmark_and_get_size:
  "fst (run_benchmark_and_get_size p) \<longleftrightarrow> returncode p = 0"
  by (simp add: run_benchmark_and_get_size_def split: list.splits)


lemma base_loop_found_at:
  assumes before: "\<forall>j<k. fst (base_attempt e prof bconf exe_path start s j)
                \<and> \<not> meets_threshold prof (base_attempt e prof bconf exe_path start s j)"
    and at: "meets_threshold prof (base_attempt e prof bconf exe_path start s k)"
  shows "\<exists>l s' path r. base_loop e prof bench_name bconf exe_path start s
               = Some (BaseFound (start * 2 ^ k) l s')
            \<and> length (executed s') = length (executed s) + k + 1
            \<and> record_files s' = record_files s @ [(path, r)]
            \<and> summary_files s' = summary_files s
            \<and> size_field r = size_label (fst (snd (base_attempt e prof bconf exe_path start s k)))
            \<and> comment_field r = ''base trace''
            \<and> idx_counter l = 0
            \<and> produced_traces l = [trace_file r]
            \<and> length (produced_records l) = 1"
proof -
  from base_iter_searching [OF before, of bench_name]
  obtain sk where sk: "base_iter k e prof bench_name bconf exe_path start s = Searching (start * 2 ^ k) sk"
    and len: "length (executed sk) = length (executed s) + k"
    and same: "record_files sk = record_files s" "summary_files sk = summary_files s"
    by blast
  have a: "base_attempt e prof bconf exe_path (start * 2 ^ k) sk 0
             = base_attempt e prof bconf exe_path start s k"
    using len by (rule base_attempt_shift)
  from base_step_found [of prof e bconf exe_path "start * 2 ^ k" sk bench_name] at
  obtain l s' path r where
    st: "base_step e prof bench_name bconf exe_path (start * 2 ^ k) sk = Stop (BaseFound (start * 2 ^ k) l s')"
    and ex: "length (executed s') = length (executed sk) + 1"
    and rf: "record_files s' = record_files sk @ [(path, r)]" "summary_files s' = summary_files sk"
    and sz: "size_field r = size_label (fst (snd (base_attempt e prof bconf exe_path start s k)))"
    and rest: "comment_field r = ''base trace''" "idx_counter l = 0"
      "produced_traces l = [trace_file r]" "length (produced_records l) = 1"
    unfolding a by blast
  have "base_iter (Suc k) e prof bench_name bconf exe_path start s = Stop (BaseFound (start * 2 ^ k) l s')"
    by (simp only: base_iter_back sk search_step.case st)
  then have "base_loop e prof bench_name bconf exe_path start s = Some (BaseFound (start * 2 ^ k) l s')"
    by (rule base_loop_of_iter)
  moreover have "length (executed s') = length (executed s) + k + 1" by (simp add: ex len)
  ultimately show ?thesis using rf same sz rest by auto
qed

lemma base_loop_aborted_at:
  assumes before: "\<forall>j<k. fst (base_attempt e prof bconf exe_path start s j)
                \<and> \<not> meets_threshold prof (base_attempt e prof bconf exe_path start s j)"
    and at: "attempt_proc e prof bconf exe_path start s k = Some p" "returncode p \<noteq> 0"
  shows "\<exists>s'. base_loop e prof bench_name bconf exe_path start s = Some (BaseAborted s')
            \<and> record_files s' = record_files s \<and> summary_files s' = summary_files s
            \<and> moved s' = moved s"
proof -
  from base_iter_searching [OF before, of bench_name]
  obtain sk where sk: "base_iter k e prof bench_name bconf exe_path start s = Searching (start * 2 ^ k) sk"
    and len: "length (executed sk) = length (executed s) + k"
    and same: "record_files sk = record_files s" "summary_files sk = summary_files s" "moved sk = moved s"
    by blast
  have a: "attempt_proc e prof bconf exe_path (start * 2 ^ k) sk 0 = Some p"
    using at(1) attempt_proc_shift [OF len] by simp
  from base_step_aborted [OF a at(2), of bench_name]
  obtain s' where st: "base_step e prof bench_name bconf exe_path (start * 2 ^ k) sk = Stop (BaseAborted s')"
    and same': "record_files s' = record_files sk" "summary_files s' = summary_files sk"
      "moved s' = moved sk"
    by blast
  have "base_iter (Suc k) e prof bench_name bconf exe_path start s = Stop (BaseAborted s')"
    by (simp only: base_iter_back sk search_step.case st)
  then have "base_loop e prof bench_name bconf exe_path start s = Some (BaseAborted s')"
    by (rule base_loop_of_iter)
  then show ?thesis using same same' by simp
qed

lemma base_loop_diverges:
  assumes "\<forall>j. fst (base_attempt e prof bconf exe_path start s j)
                \<and> \<not> meets_threshold prof (base_attempt e prof bconf exe_path start s j)"
  shows "base_loop e prof bench_name bconf exe_path start s = None"
proof (rule ccontr)
  assume "base_loop e prof bench_name bconf exe_path start s \<noteq> None"
  then obtain r where "base_loop e prof bench_name bconf exe_path start s = Some r" by auto
  then obtain n where n: "base_iter n e prof bench_name bconf exe_path start s = Stop r"
    using base_loop_Some_iter by blast
  from assms have "\<forall>j<n. fst (base_attempt e prof bconf exe_path start s j)
                \<and> \<not> meets_threshold prof (base_attempt e prof bconf exe_path start s j)" by simp
  from base_iter_searching [OF this, of bench_name] n show False by auto
qed


lemma split_spaces_base_args:
  "split_spaces ''-timing -trace-vis'' = Some [''-timing'', ''-trace-vis'']"
  by (simp add: split_spaces_def)

lemma split_spaces_special: "split_spaces ''-x 1'' = Some [''-x'', ''1'']"
  by (simp add: split_spaces_def)

lemma split_spaces_open_quote: "split_spaces (''-x '' @ [CHR 0x22] @ ''1'') = None"
  by (simp add: split_spaces_def)

lemma round_mb_small: "n < 2 ^ 53 \<Longrightarrow> round_mb n = round_half_even (100 * n) (1024 * 1024)"
  by (simp add: round_mb_def to_double_def)

lemmas eval_world =
  scripted_env_def artifact_def no_artifact_def exit_nonzero_def
  run_benchmark_and_get_size_def newest_first_def round_mb_small round_half_even_def
  meets_threshold_def
  base_attempt_def attempt_proc_def base_cmd_def build_base_benchmark_cmd_def
  py_shlex_split_def split_spaces_base_args
  demo_profile_def demo_conf_def plain_conf_def

subsection \<open>A search that starts at size 0\<close>

text \<open>
  Claim C9. Let the configured starting size be \<open>0\<close> and let every attempt at that size
  exit with code zero and leave no artifact, or one below the threshold. Then after any
  number of iterations the search is still running and its current size is still \<open>0\<close>
  (doubling \<open>0\<close> gives \<open>0\<close>, so every attempt is made at size \<open>0\<close>), the loop never
  stops, and \<open>process_benchmark\<close> does not return.
\<close>

theorem zero_start_search_never_stops:
  assumes cfg: "benchmark_config prof bench_name = Some bconf"
    and zero: "size_arg_start bconf = 0"
    and dir: "isdir e (os_path_join (benchmark_path prof) bench_name)"
    and build: "go_build_returncode e (os_path_join (benchmark_path prof) bench_name) = 0"
    and small: "\<forall>j. fst (base_attempt e prof bconf (exe_path_of e prof bench_name bconf) 0 s j)
                  \<and> \<not> meets_threshold prof
                        (base_attempt e prof bconf (exe_path_of e prof bench_name bconf) 0 s j)"
  shows "(\<forall>n. \<exists>s'. base_iter n e prof bench_name bconf (exe_path_of e prof bench_name bconf)
                      (size_arg_start bconf) s = Searching 0 s')
       \<and> base_loop e prof bench_name bconf (exe_path_of e prof bench_name bconf)
            (size_arg_start bconf) s = None
       \<and> process_benchmark e prof bench_name s = None"
proof -
  let ?exe = "exe_path_of e prof bench_name bconf"
  have iter: "\<exists>s'. base_iter n e prof bench_name bconf ?exe 0 s = Searching 0 s'" for n
  proof -
    from small have "\<forall>j<n. fst (base_attempt e prof bconf ?exe 0 s j)
                  \<and> \<not> meets_threshold prof (base_attempt e prof bconf ?exe 0 s j)" by simp
    from base_iter_searching [OF this, of bench_name] show ?thesis by auto
  qed
  have loop: "base_loop e prof bench_name bconf ?exe 0 s = None"
    using small by (rule base_loop_diverges)
  have "process_benchmark e prof bench_name s = None"
    by (simp add: process_benchmark_def cfg dir build zero loop Let_def)
  with iter loop show ?thesis by (simp add: zero)
qed

theorem zero_start_search_never_stops_witness:
  "benchmark_config (demo_profile (demo_conf 0)) ''kmeans'' = Some (demo_conf 0)
   \<and> size_arg_start (demo_conf 0) = 0
   \<and> isdir small_env (os_path_join (benchmark_path (demo_profile (demo_conf 0))) ''kmeans'')
   \<and> go_build_returncode small_env (os_path_join (benchmark_path (demo_profile (demo_conf 0))) ''kmeans'') = 0
   \<and> (\<forall>j. fst (base_attempt small_env (demo_profile (demo_conf 0)) (demo_conf 0)
                  (exe_path_of small_env (demo_profile (demo_conf 0)) ''kmeans'' (demo_conf 0)) 0 fresh_state j)
          \<and> \<not> meets_threshold (demo_profile (demo_conf 0))
                (base_attempt small_env (demo_profile (demo_conf 0)) (demo_conf 0)
                  (exe_path_of small_env (demo_profile (demo_conf 0)) ''kmeans'' (demo_conf 0)) 0 fresh_state j))
   \<and> process_benchmark small_env (demo_profile (demo_conf 0)) ''kmeans'' fresh_state = None"
proof -
  have cfg: "benchmark_config (demo_profile (demo_conf 0)) ''kmeans'' = Some (demo_conf 0)"
    by (simp add: demo_profile_def)
  have zero: "size_arg_start (demo_conf 0) = 0" by (simp add: demo_conf_def)
  have dir: "isdir small_env (os_path_join (benchmark_path (demo_profile (demo_conf 0))) ''kmeans'')"
    by (simp add: small_env_def scripted_env_def)
  have build: "go_build_returncode small_env (os_path_join (benchmark_path (demo_profile (demo_conf 0))) ''kmeans'') = 0"
    by (simp add: small_env_def scripted_env_def)
  have small: "\<forall>j. fst (base_attempt small_env (demo_profile (demo_conf 0)) (demo_conf 0)
                  (exe_path_of small_env (demo_profile (demo_conf 0)) ''kmeans'' (demo_conf 0)) 0 fresh_state j)
          \<and> \<not> meets_threshold (demo_profile (demo_conf 0))
                (base_attempt small_env (demo_profile (demo_conf 0)) (demo_conf 0)
                  (exe_path_of small_env (demo_profile (demo_conf 0)) ''kmeans'' (demo_conf 0)) 0 fresh_state j)"
    by (simp add: small_env_def eval_world)
  from zero_start_search_never_stops [OF cfg zero dir build small] cfg zero dir build small
  show ?thesis by (intro conjI) simp_all
qed

subsection \<open>A failing attempt aborts the benchmark\<close>

text \<open>
  Claim C6. When the benchmark is configured, its directory exists and the build
  succeeds, and the search reaches an attempt that exits nonzero (every attempt before it
  exited with zero and did not meet the threshold), \<open>process_benchmark\<close> returns status
  \<open>1\<close> and has written no record file and no summary: both stores are as they were.
\<close>

theorem base_search_failure_is_fatal:
  assumes cfg: "benchmark_config prof bench_name = Some bconf"
    and dir: "isdir e (os_path_join (benchmark_path prof) bench_name)"
    and build: "go_build_returncode e (os_path_join (benchmark_path prof) bench_name) = 0"
    and before: "\<forall>j<k. fst (base_attempt e prof bconf (exe_path_of e prof bench_name bconf)
                           (size_arg_start bconf) s j)
                  \<and> \<not> meets_threshold prof
                        (base_attempt e prof bconf (exe_path_of e prof bench_name bconf)
                           (size_arg_start bconf) s j)"
    and failed: "attempt_proc e prof bconf (exe_path_of e prof bench_name bconf)
                    (size_arg_start bconf) s k = Some p"
                "returncode p \<noteq> 0"
  shows "\<exists>s'. process_benchmark e prof bench_name s = Some (Returned (1, s'))
            \<and> record_files s' = record_files s \<and> summary_files s' = summary_files s"
proof -
  let ?exe = "exe_path_of e prof bench_name bconf"
  from base_loop_aborted_at [OF before failed, of bench_name]
  obtain s' where loop: "base_loop e prof bench_name bconf ?exe (size_arg_start bconf) s
                           = Some (BaseAborted s')"
    and same: "record_files s' = record_files s" "summary_files s' = summary_files s"
    by blast
  have "process_benchmark e prof bench_name s = Some (Returned (1, s'))"
    by (simp add: process_benchmark_def cfg dir build loop Let_def)
  with same show ?thesis by blast
qed

theorem base_search_failure_is_fatal_witness:
  "benchmark_config (demo_profile (demo_conf 1)) ''kmeans'' = Some (demo_conf 1)
   \<and> isdir failing_env (os_path_join (benchmark_path (demo_profile (demo_conf 1))) ''kmeans'')
   \<and> go_build_returncode failing_env (os_path_join (benchmark_path (demo_profile (demo_conf 1))) ''kmeans'') = 0
   \<and> fst (base_attempt failing_env (demo_profile (demo_conf 1)) (demo_conf 1)
            (exe_path_of failing_env (demo_profile (demo_conf 1)) ''kmeans'' (demo_conf 1))
            (size_arg_start (demo_conf 1)) fresh_state 0)
   \<and> \<not> meets_threshold (demo_profile (demo_conf 1))
          (base_attempt failing_env (demo_profile (demo_conf 1)) (demo_conf 1)
            (exe_path_of failing_env (demo_profile (demo_conf 1)) ''kmeans'' (demo_conf 1))
            (size_arg_start (demo_conf 1)) fresh_state 0)
   \<and> attempt_proc failing_env (demo_profile (demo_conf 1)) (demo_conf 1)
            (exe_path_of failing_env (demo_profile (demo_conf 1)) ''kmeans'' (demo_conf 1))
            (size_arg_start (demo_conf 1)) fresh_state 1 = Some exit_nonzero
   \<and> returncode exit_nonzero \<noteq> 0
   \<and> (\<exists>s'. process_benchmark failing_env (demo_profile (demo_conf 1)) ''kmeans'' fresh_state
               = Some (Returned (1, s'))
            \<and> record_files s' = [] \<and> summary_files s' = [])"
proof -
  let ?P = "demo_profile (demo_conf 1)"
  let ?X = "exe_path_of failing_env ?P ''kmeans'' (demo_conf 1)"
  have cfg: "benchmark_config ?P ''kmeans'' = Some (demo_conf 1)"
    by (simp add: demo_profile_def)
  have dir: "isdir failing_env (os_path_join (benchmark_path ?P) ''kmeans'')"
    by (simp add: failing_env_def scripted_env_def)
  have build: "go_build_returncode failing_env (os_path_join (benchmark_path ?P) ''kmeans'') = 0"
    by (simp add: failing_env_def scripted_env_def)
  have a0: "fst (base_attempt failing_env ?P (demo_conf 1) ?X (size_arg_start (demo_conf 1)) fresh_state 0)"
    "\<not> meets_threshold ?P (base_attempt failing_env ?P (demo_conf 1) ?X (size_arg_start (demo_conf 1)) fresh_state 0)"
    by (simp_all add: failing_env_def fresh_state_def eval_world)
  then have before: "\<forall>j<1. fst (base_attempt failing_env ?P (demo_conf 1) ?X (size_arg_start (demo_conf 1)) fresh_state j)
      \<and> \<not> meets_threshold ?P (base_attempt failing_env ?P (demo_conf 1) ?X (size_arg_start (demo_conf 1)) fresh_state j)"
    by simp
  have failed: "attempt_proc failing_env ?P (demo_conf 1) ?X (size_arg_start (demo_conf 1)) fresh_state 1
                  = Some exit_nonzero"
    by (simp add: failing_env_def fresh_state_def eval_world)
  have nz: "returncode exit_nonzero \<noteq> 0" by (simp add: exit_nonzero_def)
  from base_search_failure_is_fatal [OF cfg dir build before failed nz]
  obtain s' where "process_benchmark failing_env ?P ''kmeans'' fresh_state = Some (Returned (1, s'))"
    "record_files s' = record_files fresh_state" "summary_files s' = summary_files fresh_state"
    by blast
  then have "\<exists>s'. process_benchmark failing_env ?P ''kmeans'' fresh_state = Some (Returned (1, s'))
            \<and> record_files s' = [] \<and> summary_files s' = []"
    by (simp add: fresh_state_def)
  with cfg dir build a0 failed nz show ?thesis by (intro conjI)
qed


subsection \<open>The size the search returns\<close>





section \<open>The sweep passes\<close>

lemma sweep_okI:
  assumes "produced_traces (fst ls') = produced_traces (fst ls) @ map nm [0..<n]"
    and "length (produced_records (fst ls')) = length (produced_records (fst ls)) + n"
    and "summary_files (snd ls') = summary_files (snd ls)"
    and "executed (snd ls') = executed (snd ls) @ cmds" and "length cmds = n"
    and "record_files (snd ls') = record_files (snd ls) @ recs" and "length recs = n"
    and "\<And>i. i < n \<Longrightarrow> trace_file (snd (recs ! i)) = nm i
                   \<and> rec_id (snd (recs ! i)) = str_replace ''.sqlite3'' [] (nm i)
                   \<and> (\<exists>p. run_proc e (length (executed (snd ls)) + i) (cmds ! i) = Some p
                          \<and> size_field (snd (recs ! i)) =
                              size_label (fst (snd (run_benchmark_and_get_size p))))"
  shows "sweep_ok e nm n ls ls'"
proof -
  have all: "\<forall>i<n. trace_file (snd (recs ! i)) = nm i
                   \<and> rec_id (snd (recs ! i)) = str_replace ''.sqlite3'' [] (nm i)
                   \<and> (\<exists>p. run_proc e (length (executed (snd ls)) + i) (cmds ! i) = Some p
                          \<and> size_field (snd (recs ! i)) =
                              size_label (fst (snd (run_benchmark_and_get_size p))))"
    using assms(8) by blast
  show ?thesis
    unfolding sweep_ok_def
    apply (rule conjI, rule assms(1))
    apply (rule conjI, rule assms(2))
    apply (rule conjI, rule assms(3))
    apply (rule exI [of _ cmds], rule exI [of _ recs])
    apply (rule conjI, rule assms(4))
    apply (rule conjI, rule assms(5))
    apply (rule conjI, rule assms(6))
    apply (rule conjI, rule assms(7))
    apply (rule all)
    done
qed

lemma sweep_okE:
  assumes "sweep_ok e nm n ls ls'"
  obtains cmds recs where
    "produced_traces (fst ls') = produced_traces (fst ls) @ map nm [0..<n]"
    and "length (produced_records (fst ls')) = length (produced_records (fst ls)) + n"
    and "summary_files (snd ls') = summary_files (snd ls)"
    and "executed (snd ls') = executed (snd ls) @ cmds" and "length cmds = n"
    and "record_files (snd ls') = record_files (snd ls) @ recs" and "length recs = n"
    and "\<And>i. i < n \<Longrightarrow> trace_file (snd (recs ! i)) = nm i
                   \<and> rec_id (snd (recs ! i)) = str_replace ''.sqlite3'' [] (nm i)
                   \<and> (\<exists>p. run_proc e (length (executed (snd ls)) + i) (cmds ! i) = Some p
                          \<and> size_field (snd (recs ! i)) =
                              size_label (fst (snd (run_benchmark_and_get_size p))))"
  using assms unfolding sweep_ok_def by blast

lemma sweep_ok_cong:
  assumes "sweep_ok e nm n ls ls'" and eq: "\<And>i. i < n \<Longrightarrow> nm i = nm' i"
  shows "sweep_ok e nm' n ls ls'"
proof -
  have m: "map nm [0..<n] = map nm' [0..<n]" using eq by simp
  from assms(1) show ?thesis
  proof (rule sweep_okE)
    fix cmds recs
    assume h: "produced_traces (fst ls') = produced_traces (fst ls) @ map nm [0..<n]"
      "length (produced_records (fst ls')) = length (produced_records (fst ls)) + n"
      "summary_files (snd ls') = summary_files (snd ls)"
      "executed (snd ls') = executed (snd ls) @ cmds" "length cmds = n"
      "record_files (snd ls') = record_files (snd ls) @ recs" "length recs = n"
      and i: "\<And>i. i < n \<Longrightarrow> trace_file (snd (recs ! i)) = nm i
                   \<and> rec_id (snd (recs ! i)) = str_replace ''.sqlite3'' [] (nm i)
                   \<and> (\<exists>p. run_proc e (length (executed (snd ls)) + i) (cmds ! i) = Some p
                          \<and> size_field (snd (recs ! i)) =
                              size_label (fst (snd (run_benchmark_and_get_size p))))"
    show ?thesis
    proof (rule sweep_okI [where cmds = cmds and recs = recs])
      show "produced_traces (fst ls') = produced_traces (fst ls) @ map nm' [0..<n]"
        using h(1) m by simp
      fix j assume "j < n"
      with i [of j] eq [of j]
      show "trace_file (snd (recs ! j)) = nm' j
                   \<and> rec_id (snd (recs ! j)) = str_replace ''.sqlite3'' [] (nm' j)
                   \<and> (\<exists>p. run_proc e (length (executed (snd ls)) + j) (cmds ! j) = Some p
                          \<and> size_field (snd (recs ! j)) =
                              size_label (fst (snd (run_benchmark_and_get_size p))))"
        by simp
    qed (rule h)+
  qed
qed

lemma sweep_ok_trans:
  assumes a: "sweep_ok e nm1 n ls ls1" and b: "sweep_ok e nm2 m ls1 ls2"
  shows "sweep_ok e (\<lambda>i. if i < n then nm1 i else nm2 (i - n)) (n + m) ls ls2"
proof -
  let ?nm = "\<lambda>i. if i < n then nm1 i else nm2 (i - n)"
  from a obtain cmds1 recs1 where
    t1: "produced_traces (fst ls1) = produced_traces (fst ls) @ map nm1 [0..<n]"
    and p1: "length (produced_records (fst ls1)) = length (produced_records (fst ls)) + n"
    and s1: "summary_files (snd ls1) = summary_files (snd ls)"
    and e1: "executed (snd ls1) = executed (snd ls) @ cmds1" "length cmds1 = n"
    and r1: "record_files (snd ls1) = record_files (snd ls) @ recs1" "length recs1 = n"
    and i1: "\<And>i. i < n \<Longrightarrow> trace_file (snd (recs1 ! i)) = nm1 i
                   \<and> rec_id (snd (recs1 ! i)) = str_replace ''.sqlite3'' [] (nm1 i)
                   \<and> (\<exists>p. run_proc e (length (executed (snd ls)) + i) (cmds1 ! i) = Some p
                          \<and> size_field (snd (recs1 ! i)) =
                              size_label (fst (snd (run_benchmark_and_get_size p))))"
    unfolding sweep_ok_def by blast
  from b obtain cmds2 recs2 where
    t2: "produced_traces (fst ls2) = produced_traces (fst ls1) @ map nm2 [0..<m]"
    and p2: "length (produced_records (fst ls2)) = length (produced_records (fst ls1)) + m"
    and s2: "summary_files (snd ls2) = summary_files (snd ls1)"
    and e2: "executed (snd ls2) = executed (snd ls1) @ cmds2" "length cmds2 = m"
    and r2: "record_files (snd ls2) = record_files (snd ls1) @ recs2" "length recs2 = m"
    and i2: "\<And>i. i < m \<Longrightarrow> trace_file (snd (recs2 ! i)) = nm2 i
                   \<and> rec_id (snd (recs2 ! i)) = str_replace ''.sqlite3'' [] (nm2 i)
                   \<and> (\<exists>p. run_proc e (length (executed (snd ls1)) + i) (cmds2 ! i) = Some p
                          \<and> size_field (snd (recs2 ! i)) =
                              size_label (fst (snd (run_benchmark_and_get_size p))))"
    unfolding sweep_ok_def by blast
  have m1: "map ?nm [0..<n] = map nm1 [0..<n]" by simp
  have "map ?nm [n..<n + m] = map (\<lambda>i. nm2 (i - n)) [n..<n + m]" by simp
  also have "\<dots> = map nm2 (map (\<lambda>i. i - n) [n..<n + m])" by simp
  also have "map (\<lambda>i. i - n) [n..<n + m] = [0..<m]"
    by (rule nth_equalityI) simp_all
  finally have m2: "map ?nm [n..<n + m] = map nm2 [0..<m]" .
  have "[0..<n + m] = [0..<n] @ [n..<n + m]" by (rule upt_add_eq_append) simp
  then have "map ?nm [0..<n + m] = map nm1 [0..<n] @ map nm2 [0..<m]"
    using m1 m2 by (simp only: map_append)
  then have T: "produced_traces (fst ls2) = produced_traces (fst ls) @ map ?nm [0..<n + m]"
    using t1 t2 by simp
  have P: "length (produced_records (fst ls2)) = length (produced_records (fst ls)) + (n + m)"
    using p1 p2 by simp
  have S: "summary_files (snd ls2) = summary_files (snd ls)" using s1 s2 by simp
  have E: "executed (snd ls2) = executed (snd ls) @ (cmds1 @ cmds2)" "length (cmds1 @ cmds2) = n + m"
    using e1 e2 by simp_all
  have R: "record_files (snd ls2) = record_files (snd ls) @ (recs1 @ recs2)" "length (recs1 @ recs2) = n + m"
    using r1 r2 by simp_all
  have I: "trace_file (snd ((recs1 @ recs2) ! i)) = ?nm i
                   \<and> rec_id (snd ((recs1 @ recs2) ! i)) = str_replace ''.sqlite3'' [] (?nm i)
                   \<and> (\<exists>p. run_proc e (length (executed (snd ls)) + i) ((cmds1 @ cmds2) ! i) = Some p
                          \<and> size_field (snd ((recs1 @ recs2) ! i)) =
                              size_label (fst (snd (run_benchmark_and_get_size p))))"
    if "i < n + m" for i
  proof (cases "i < n")
    case True
    with i1 [of i] show ?thesis by (simp add: nth_append r1 e1)
  next
    case False
    with that have "i - n < m" by simp
    from i2 [OF this] False show ?thesis
      by (simp add: nth_append r1 e1 add.assoc)
  qed
  show ?thesis
    by (rule sweep_okI [OF T P S E R I])
qed


text \<open>The command of a run that can be built: its tokens, for the command and the record.\<close>

lemma normal_cmd_SomeD:
  assumes "normal_cmd e prof bconf exe_path base_size combo = Some cmd"
  shows "\<exists>toks. py_shlex_split e (benchmark_base_arg prof) = Some toks
          \<and> (if benchmark_base_arg prof \<noteq> [] then py_shlex_split e (benchmark_base_arg prof)
              else Some []) = Some toks
          \<and> cmd = [exe_path] @ toks @ [size_arg bconf] @ [str_int base_size]
                  @ concat (map (\<lambda>(arg_name, arg_val). [arg_name, py_str arg_val])
                              (zip (normal_arg_list bconf) combo))"
  using assms
  by (cases "benchmark_base_arg prof = []")
     (auto simp: normal_cmd_def py_shlex_split_def split: option.splits)

lemma special_cmd_SomeD:
  assumes "special_cmd e prof bconf exe_path base_size special = Some cmd"
  shows "\<exists>toks stoks. py_shlex_split e special = Some stoks
          \<and> (if benchmark_base_arg prof \<noteq> [] then py_shlex_split e (benchmark_base_arg prof)
              else Some []) = Some toks
          \<and> cmd = [exe_path] @ toks @ [size_arg bconf] @ [str_int base_size] @ stoks"
  using assms
  by (auto simp: special_cmd_def split: option.splits)

text \<open>One run that returns: what it leaves behind.\<close>

lemma normal_run_ok:
  assumes "normal_run e prof bench_name bconf exe_path base_size combo (l, s) = Returned (l1, s1)"
  shows "sweep_ok e (\<lambda>i. format_data_filename (bench_id bconf) ''0'' (idx_counter l)) 1 (l, s) (l1, s1)
       \<and> idx_counter l1 = idx_counter l + 1
       \<and> (\<exists>cmd. normal_cmd e prof bconf exe_path base_size combo = Some cmd
                \<and> executed s1 = executed s @ [cmd])"
proof -
  from assms obtain toks where
    t1: "(if benchmark_base_arg prof \<noteq> [] then py_shlex_split e (benchmark_base_arg prof)
          else Some []) = Some toks"
    by (auto simp: normal_run_def Let_def split: option.splits)
  define cmd where "cmd = [exe_path] @ toks @ [size_arg bconf] @ [str_int base_size]
                @ concat (map (\<lambda>(arg_name, arg_val). [arg_name, py_str arg_val])
                            (zip (normal_arg_list bconf) combo))"
  have nc: "normal_cmd e prof bconf exe_path base_size combo = Some cmd"
    by (simp add: normal_cmd_def t1 cmd_def)
  from assms obtain p where r: "run_proc e (length (executed s)) cmd = Some p"
    unfolding cmd_def
    by (auto simp: normal_run_def Let_def t1 run_cmd_def split: option.splits)
  from assms obtain rtoks where t2: "py_shlex_split e (benchmark_base_arg prof) = Some rtoks"
    using r unfolding cmd_def
    by (auto simp: normal_run_def Let_def t1 run_cmd_def split: option.splits prod.splits)
  obtain ok sz pp where t: "run_benchmark_and_get_size p = (ok, sz, pp)"
    by (metis prod_cases3)
  show ?thesis
  proof (cases pp)
    case None
    with assms t1 r t2 t nc show ?thesis
      unfolding sweep_ok_def cmd_def
      by (auto simp: normal_run_def Let_def run_cmd_def write_data_record_def)
  next
    case (Some q)
    with assms t1 r t2 t nc show ?thesis
      unfolding sweep_ok_def cmd_def
      by (auto simp: normal_run_def Let_def run_cmd_def write_data_record_def try_move_def)
  qed
qed

lemma special_run_ok:
  assumes "special_run e prof bench_name bconf exe_path base_size special (l, s) = Returned (l1, s1)"
  shows "sweep_ok e (\<lambda>i. format_data_filename (bench_id bconf) ''1'' (idx_counter l)) 1 (l, s) (l1, s1)
       \<and> idx_counter l1 = idx_counter l + 1
       \<and> (\<exists>cmd. special_cmd e prof bconf exe_path base_size special = Some cmd
                \<and> executed s1 = executed s @ [cmd])"
proof -
  from assms obtain stoks where t0: "py_shlex_split e special = Some stoks"
    by (auto simp: special_run_def Let_def split: option.splits)
  from assms obtain toks where
    t1: "(if benchmark_base_arg prof \<noteq> [] then py_shlex_split e (benchmark_base_arg prof)
          else Some []) = Some toks"
    by (auto simp: special_run_def Let_def t0 split: option.splits)
  define cmd where "cmd = [exe_path] @ toks @ [size_arg bconf] @ [str_int base_size] @ stoks"
  have nc: "special_cmd e prof bconf exe_path base_size special = Some cmd"
    by (simp add: special_cmd_def t0 t1 cmd_def)
  from assms obtain p where r: "run_proc e (length (executed s)) cmd = Some p"
    unfolding cmd_def
    by (auto simp: special_run_def Let_def t0 t1 run_cmd_def split: option.splits)
  obtain ok sz pp where t: "run_benchmark_and_get_size p = (ok, sz, pp)"
    by (metis prod_cases3)
  show ?thesis
  proof (cases pp)
    case None
    with assms t0 t1 r t nc show ?thesis
      unfolding sweep_ok_def cmd_def
      by (auto simp: special_run_def Let_def run_cmd_def write_data_record_def)
  next
    case (Some q)
    with assms t0 t1 r t nc show ?thesis
      unfolding sweep_ok_def cmd_def
      by (auto simp: special_run_def Let_def run_cmd_def write_data_record_def try_move_def)
  qed
qed

text \<open>A run whose command can be built and run returns; the others raise.\<close>

lemma normal_run_returns:
  assumes "normal_cmd e prof bconf exe_path base_size combo = Some cmd"
    and "run_proc e (length (executed s)) cmd = Some p"
  shows "\<exists>l1 s1. normal_run e prof bench_name bconf exe_path base_size combo (l, s) = Returned (l1, s1)"
proof -
  from normal_cmd_SomeD [OF assms(1)] obtain toks where
    t2: "py_shlex_split e (benchmark_base_arg prof) = Some toks"
    and t1: "(if benchmark_base_arg prof \<noteq> [] then py_shlex_split e (benchmark_base_arg prof)
              else Some []) = Some toks"
    and c: "cmd = [exe_path] @ toks @ [size_arg bconf] @ [str_int base_size]
                  @ concat (map (\<lambda>(arg_name, arg_val). [arg_name, py_str arg_val])
                              (zip (normal_arg_list bconf) combo))"
    by blast
  obtain ok sz pp where t: "run_benchmark_and_get_size p = (ok, sz, pp)"
    by (metis prod_cases3)
  from assms(2) t1 t2 t show ?thesis
    unfolding c
    by (simp add: normal_run_def Let_def run_cmd_def write_data_record_def)
qed


lemma special_run_returns:
  assumes "special_cmd e prof bconf exe_path base_size special = Some cmd"
    and "run_proc e (length (executed s)) cmd = Some p"
  shows "\<exists>l1 s1. special_run e prof bench_name bconf exe_path base_size special (l, s) = Returned (l1, s1)"
proof -
  from special_cmd_SomeD [OF assms(1)] obtain toks stoks where
    t0: "py_shlex_split e special = Some stoks"
    and t1: "(if benchmark_base_arg prof \<noteq> [] then py_shlex_split e (benchmark_base_arg prof)
              else Some []) = Some toks"
    and c: "cmd = [exe_path] @ toks @ [size_arg bconf] @ [str_int base_size] @ stoks"
    by blast
  obtain ok sz pp where t: "run_benchmark_and_get_size p = (ok, sz, pp)"
    by (metis prod_cases3)
  from assms(2) t0 t1 t show ?thesis
    unfolding c
    by (simp add: special_run_def Let_def run_cmd_def write_data_record_def)
qed


lemma sweep_ok_refl: "sweep_ok e nm 0 ls ls"
  by (simp add: sweep_ok_def)

lemma sweep_ok_length:
  "sweep_ok e nm n ls ls' \<Longrightarrow> length (executed (snd ls')) = length (executed (snd ls)) + n"
  unfolding sweep_ok_def by auto

text \<open>A pass that returns: the runs it made, their names and their commands.\<close>

lemma normal_pass_ok:
  assumes "normal_pass e prof bench_name bconf exe_path base_size items (l, s) = Returned ls'"
  shows "sweep_ok e (\<lambda>i. format_data_filename (bench_id bconf) ''0'' (idx_counter l + int i))
           (length items) (l, s) ls'
       \<and> idx_counter (fst ls') = idx_counter l + int (length items)
       \<and> (\<exists>cmds. executed (snd ls') = executed s @ cmds
              \<and> map Some cmds = map (normal_cmd e prof bconf exe_path base_size) items)"
  using assms
proof (induction items arbitrary: l s)
  case Nil
  then show ?case by (auto simp: sweep_ok_refl)
next
  case (Cons x xs)
  from Cons.prems obtain l1 s1 where
    run: "normal_run e prof bench_name bconf exe_path base_size x (l, s) = Returned (l1, s1)"
    and rest: "normal_pass e prof bench_name bconf exe_path base_size xs (l1, s1) = Returned ls'"
    by (auto split: outcome.splits)
  from normal_run_ok [OF run] obtain cmd where
    one: "sweep_ok e (\<lambda>i. format_data_filename (bench_id bconf) ''0'' (idx_counter l)) 1 (l, s) (l1, s1)"
    and idx1: "idx_counter l1 = idx_counter l + 1"
    and c1: "normal_cmd e prof bconf exe_path base_size x = Some cmd"
    and e1: "executed s1 = executed s @ [cmd]"
    by blast
  from Cons.IH [OF rest] obtain cmds where
    more: "sweep_ok e (\<lambda>i. format_data_filename (bench_id bconf) ''0'' (idx_counter l1 + int i))
                (length xs) (l1, s1) ls'"
    and idx2: "idx_counter (fst ls') = idx_counter l1 + int (length xs)"
    and e2: "executed (snd ls') = executed s1 @ cmds"
    and c2: "map Some cmds = map (normal_cmd e prof bconf exe_path base_size) xs"
    by blast
  have "sweep_ok e (\<lambda>i. format_data_filename (bench_id bconf) ''0'' (idx_counter l + int i))
          (1 + length xs) (l, s) ls'"
  proof (rule sweep_ok_cong [OF sweep_ok_trans [OF one more]])
    fix i assume "i < 1 + length xs"
    show "(if i < 1 then format_data_filename (bench_id bconf) ''0'' (idx_counter l)
           else format_data_filename (bench_id bconf) ''0'' (idx_counter l1 + int (i - 1)))
          = format_data_filename (bench_id bconf) ''0'' (idx_counter l + int i)"
    proof (cases "i < 1")
      case True
      then show ?thesis by simp
    next
      case False
      then have "idx_counter l1 + int (i - 1) = idx_counter l + int i" using idx1 by simp
      then show ?thesis using False by (simp only: if_False)
    qed
  qed
  moreover have "idx_counter (fst ls') = idx_counter l + int (length (x # xs))"
    using idx1 idx2 by simp
  moreover have "executed (snd ls') = executed s @ (cmd # cmds)
      \<and> map Some (cmd # cmds) = map (normal_cmd e prof bconf exe_path base_size) (x # xs)"
    using e1 e2 c1 c2 by simp
  ultimately show ?case by (simp only: list.size add_Suc_right add_0_right plus_1_eq_Suc) blast
qed

lemma special_pass_ok:
  assumes "special_pass e prof bench_name bconf exe_path base_size items (l, s) = Returned ls'"
  shows "sweep_ok e (\<lambda>i. format_data_filename (bench_id bconf) ''1'' (idx_counter l + int i))
           (length items) (l, s) ls'
       \<and> idx_counter (fst ls') = idx_counter l + int (length items)
       \<and> (\<exists>cmds. executed (snd ls') = executed s @ cmds
              \<and> map Some cmds = map (special_cmd e prof bconf exe_path base_size) items)"
  using assms
proof (induction items arbitrary: l s)
  case Nil
  then show ?case by (auto simp: sweep_ok_refl)
next
  case (Cons x xs)
  from Cons.prems obtain l1 s1 where
    run: "special_run e prof bench_name bconf exe_path base_size x (l, s) = Returned (l1, s1)"
    and rest: "special_pass e prof bench_name bconf exe_path base_size xs (l1, s1) = Returned ls'"
    by (auto split: outcome.splits)
  from special_run_ok [OF run] obtain cmd where
    one: "sweep_ok e (\<lambda>i. format_data_filename (bench_id bconf) ''1'' (idx_counter l)) 1 (l, s) (l1, s1)"
    and idx1: "idx_counter l1 = idx_counter l + 1"
    and c1: "special_cmd e prof bconf exe_path base_size x = Some cmd"
    and e1: "executed s1 = executed s @ [cmd]"
    by blast
  from Cons.IH [OF rest] obtain cmds where
    more: "sweep_ok e (\<lambda>i. format_data_filename (bench_id bconf) ''1'' (idx_counter l1 + int i))
                (length xs) (l1, s1) ls'"
    and idx2: "idx_counter (fst ls') = idx_counter l1 + int (length xs)"
    and e2: "executed (snd ls') = executed s1 @ cmds"
    and c2: "map Some cmds = map (special_cmd e prof bconf exe_path base_size) xs"
    by blast
  have "sweep_ok e (\<lambda>i. format_data_filename (bench_id bconf) ''1'' (idx_counter l + int i))
          (1 + length xs) (l, s) ls'"
  proof (rule sweep_ok_cong [OF sweep_ok_trans [OF one more]])
    fix i assume "i < 1 + length xs"
    show "(if i < 1 then format_data_filename (bench_id bconf) ''1'' (idx_counter l)
           else format_data_filename (bench_id bconf) ''1'' (idx_counter l1 + int (i - 1)))
          = format_data_filename (bench_id bconf) ''1'' (idx_counter l + int i)"
    proof (cases "i < 1")
      case True
      then show ?thesis by simp
    next
      case False
      then have "idx_counter l1 + int (i - 1) = idx_counter l + int i" using idx1 by simp
      then show ?thesis using False by (simp only: if_False)
    qed
  qed
  moreover have "idx_counter (fst ls') = idx_counter l + int (length (x # xs))"
    using idx1 idx2 by simp
  moreover have "executed (snd ls') = executed s @ (cmd # cmds)
      \<and> map Some (cmd # cmds) = map (special_cmd e prof bconf exe_path base_size) (x # xs)"
    using e1 e2 c1 c2 by simp
  ultimately show ?case by (simp only: list.size add_Suc_right add_0_right plus_1_eq_Suc) blast
qed

text \<open>A pass all of whose commands can be built and run returns.\<close>

lemma normal_pass_returns:
  assumes "\<forall>i<length items. \<exists>cmd p. normal_cmd e prof bconf exe_path base_size (items ! i) = Some cmd
              \<and> run_proc e (length (executed s) + i) cmd = Some p"
  shows "\<exists>ls'. normal_pass e prof bench_name bconf exe_path base_size items (l, s) = Returned ls'"
  using assms
proof (induction items arbitrary: l s)
  case Nil
  show ?case by simp
next
  case (Cons x xs)
  from Cons.prems [rule_format, of 0] obtain cmd p where
    c: "normal_cmd e prof bconf exe_path base_size x = Some cmd"
    and r: "run_proc e (length (executed s)) cmd = Some p" by auto
  from normal_run_returns [OF c r, of bench_name l] obtain l1 s1 where
    run: "normal_run e prof bench_name bconf exe_path base_size x (l, s) = Returned (l1, s1)"
    by blast
  from normal_run_ok [OF run] have len: "length (executed s1) = length (executed s) + 1"
    by auto
  have "\<forall>i<length xs. \<exists>cmd p. normal_cmd e prof bconf exe_path base_size (xs ! i) = Some cmd
              \<and> run_proc e (length (executed s1) + i) cmd = Some p"
  proof (intro allI impI)
    fix i assume "i < length xs"
    then have "Suc i < length (x # xs)" by simp
    from Cons.prems [rule_format, OF this] show "\<exists>cmd p.
        normal_cmd e prof bconf exe_path base_size (xs ! i) = Some cmd
        \<and> run_proc e (length (executed s1) + i) cmd = Some p"
      by (simp add: len)
  qed
  from Cons.IH [OF this, of l1] show ?case by (simp add: run)
qed

lemma special_pass_returns:
  assumes "\<forall>i<length items. \<exists>cmd p. special_cmd e prof bconf exe_path base_size (items ! i) = Some cmd
              \<and> run_proc e (length (executed s) + i) cmd = Some p"
  shows "\<exists>ls'. special_pass e prof bench_name bconf exe_path base_size items (l, s) = Returned ls'"
  using assms
proof (induction items arbitrary: l s)
  case Nil
  show ?case by simp
next
  case (Cons x xs)
  from Cons.prems [rule_format, of 0] obtain cmd p where
    c: "special_cmd e prof bconf exe_path base_size x = Some cmd"
    and r: "run_proc e (length (executed s)) cmd = Some p" by auto
  from special_run_returns [OF c r, of bench_name l] obtain l1 s1 where
    run: "special_run e prof bench_name bconf exe_path base_size x (l, s) = Returned (l1, s1)"
    by blast
  from special_run_ok [OF run] have len: "length (executed s1) = length (executed s) + 1"
    by auto
  have "\<forall>i<length xs. \<exists>cmd p. special_cmd e prof bconf exe_path base_size (xs ! i) = Some cmd
              \<and> run_proc e (length (executed s1) + i) cmd = Some p"
  proof (intro allI impI)
    fix i assume "i < length xs"
    then have "Suc i < length (x # xs)" by simp
    from Cons.prems [rule_format, OF this] show "\<exists>cmd p.
        special_cmd e prof bconf exe_path base_size (xs ! i) = Some cmd
        \<and> run_proc e (length (executed s1) + i) cmd = Some p"
      by (simp add: len)
  qed
  from Cons.IH [OF this, of l1] show ?case by (simp add: run)
qed

lemma sweep_ok_idx_irrelevant:
  "sweep_ok e nm n (l\<lparr>idx_counter := k\<rparr>, s) ls' \<Longrightarrow> sweep_ok e nm n (l, s) ls'"
  by (simp add: sweep_ok_def)

lemma length_sweep_cmds:
  "length (sweep_cmds e prof bconf exe_path base_size)
     = length (normal_combinations bconf) + length (special_arg_list bconf)"
  by (simp add: sweep_cmds_def)

text \<open>Both passes, when they return.\<close>

lemma sweeps_ok:
  assumes "sweeps e prof bench_name bconf exe_path base_size (l, s) = Returned ls'"
  shows "sweep_ok e
     (\<lambda>i. if i < length (normal_combinations bconf)
           then format_data_filename (bench_id bconf) ''0'' (1 + int i)
           else format_data_filename (bench_id bconf) ''1'' (1 + int i))
     (length (normal_combinations bconf) + length (special_arg_list bconf)) (l, s) ls'
   \<and> (\<exists>cmds. executed (snd ls') = executed s @ cmds
          \<and> map Some cmds = sweep_cmds e prof bconf exe_path base_size)"
proof -
  let ?K = "length (normal_combinations bconf)"
  let ?l0 = "l\<lparr>idx_counter := 1\<rparr>"
  from assms obtain l1 s1 where
    np: "normal_pass e prof bench_name bconf exe_path base_size
           (normal_combinations bconf) (?l0, s) = Returned (l1, s1)"
    and sp: "special_pass e prof bench_name bconf exe_path base_size
           (special_arg_list bconf) (l1, s1) = Returned ls'"
    by (auto simp: sweeps_def Let_def split: outcome.splits)
  from normal_pass_ok [OF np] obtain cmds1 where
    n: "sweep_ok e (\<lambda>i. format_data_filename (bench_id bconf) ''0'' (1 + int i)) ?K (?l0, s) (l1, s1)"
    and idx1: "idx_counter l1 = 1 + int ?K"
    and e1: "executed s1 = executed s @ cmds1"
    and c1: "map Some cmds1 = map (normal_cmd e prof bconf exe_path base_size) (normal_combinations bconf)"
    by auto
  from special_pass_ok [OF sp] obtain cmds2 where
    sp_ok: "sweep_ok e (\<lambda>i. format_data_filename (bench_id bconf) ''1'' (idx_counter l1 + int i))
              (length (special_arg_list bconf)) (l1, s1) ls'"
    and e2: "executed (snd ls') = executed s1 @ cmds2"
    and c2: "map Some cmds2 = map (special_cmd e prof bconf exe_path base_size) (special_arg_list bconf)"
    by auto
  have "sweep_ok e
     (\<lambda>i. if i < ?K then format_data_filename (bench_id bconf) ''0'' (1 + int i)
           else format_data_filename (bench_id bconf) ''1'' (1 + int i))
     (?K + length (special_arg_list bconf)) (?l0, s) ls'"
  proof (rule sweep_ok_cong [OF sweep_ok_trans [OF n sp_ok]])
    fix i assume "i < ?K + length (special_arg_list bconf)"
    show "(if i < ?K then format_data_filename (bench_id bconf) ''0'' (1 + int i)
           else format_data_filename (bench_id bconf) ''1'' (idx_counter l1 + int (i - ?K)))
        = (if i < ?K then format_data_filename (bench_id bconf) ''0'' (1 + int i)
           else format_data_filename (bench_id bconf) ''1'' (1 + int i))"
    proof (cases "i < ?K")
      case True
      then show ?thesis by simp
    next
      case False
      then have "idx_counter l1 + int (i - ?K) = 1 + int i" using idx1 by simp
      then show ?thesis using False by (simp only: if_False)
    qed
  qed
  then have A: "sweep_ok e
     (\<lambda>i. if i < ?K then format_data_filename (bench_id bconf) ''0'' (1 + int i)
           else format_data_filename (bench_id bconf) ''1'' (1 + int i))
     (?K + length (special_arg_list bconf)) (l, s) ls'"
    by (rule sweep_ok_idx_irrelevant)
  have "executed (snd ls') = executed s @ (cmds1 @ cmds2)" using e1 e2 by simp
  moreover have "map Some (cmds1 @ cmds2) = sweep_cmds e prof bconf exe_path base_size"
    unfolding sweep_cmds_def map_append c1 c2 ..
  ultimately show ?thesis using A by blast
qed

text \<open>Both passes return when every one of their commands can be built and run.\<close>

lemma sweeps_returns:
  assumes "\<forall>i<length (sweep_cmds e prof bconf exe_path base_size).
             \<exists>cmd p. sweep_cmds e prof bconf exe_path base_size ! i = Some cmd
                \<and> run_proc e (length (executed s) + i) cmd = Some p"
  shows "\<exists>ls'. sweeps e prof bench_name bconf exe_path base_size (l, s) = Returned ls'"
proof -
  let ?K = "length (normal_combinations bconf)"
  let ?S = "length (special_arg_list bconf)"
  let ?l0 = "l\<lparr>idx_counter := 1\<rparr>"
  have "\<forall>i<?K. \<exists>cmd p. normal_cmd e prof bconf exe_path base_size (normal_combinations bconf ! i) = Some cmd
              \<and> run_proc e (length (executed s) + i) cmd = Some p"
  proof (intro allI impI)
    fix i assume i: "i < ?K"
    then have "i < length (sweep_cmds e prof bconf exe_path base_size)"
      by (simp add: length_sweep_cmds)
    from assms [rule_format, OF this] i
    show "\<exists>cmd p. normal_cmd e prof bconf exe_path base_size (normal_combinations bconf ! i) = Some cmd
              \<and> run_proc e (length (executed s) + i) cmd = Some p"
      by (simp add: sweep_cmds_def nth_append)
  qed
  from normal_pass_returns [OF this, of bench_name ?l0] obtain l1 s1 where
    np: "normal_pass e prof bench_name bconf exe_path base_size
           (normal_combinations bconf) (?l0, s) = Returned (l1, s1)"
    by auto
  from normal_pass_ok [OF np] have len: "length (executed s1) = length (executed s) + ?K"
    using sweep_ok_length by fastforce
  have "\<forall>j<?S. \<exists>cmd p. special_cmd e prof bconf exe_path base_size (special_arg_list bconf ! j) = Some cmd
              \<and> run_proc e (length (executed s1) + j) cmd = Some p"
  proof (intro allI impI)
    fix j assume j: "j < ?S"
    then have "?K + j < length (sweep_cmds e prof bconf exe_path base_size)"
      by (simp add: length_sweep_cmds)
    from assms [rule_format, OF this] j
    show "\<exists>cmd p. special_cmd e prof bconf exe_path base_size (special_arg_list bconf ! j) = Some cmd
              \<and> run_proc e (length (executed s1) + j) cmd = Some p"
      by (simp add: sweep_cmds_def nth_append len add.assoc)
  qed
  from special_pass_returns [OF this, of bench_name l1] obtain ls' where
    "special_pass e prof bench_name bconf exe_path base_size (special_arg_list bconf) (l1, s1)
       = Returned ls'"
    by blast
  then have "sweeps e prof bench_name bconf exe_path base_size (l, s) = Returned ls'"
    by (simp add: sweeps_def Let_def np)
  then show ?thesis ..
qed

text \<open>What the search has written when it stops.\<close>

lemma base_step_raised:
  assumes "attempt_proc e prof bconf exe_path c s 0 = None"
  shows "\<exists>err. base_step e prof bench_name bconf exe_path c s = Stop (BaseRaised err s)"
  using assms
  by (auto simp: attempt_proc_def base_cmd_def base_step_def Let_def run_cmd_def
           split: option.splits)

lemma base_step_props:
  "(\<forall>c' s'. base_step e prof bench_name bconf exe_path c s = Searching c' s'
       \<longrightarrow> record_files s' = record_files s \<and> summary_files s' = summary_files s)
   \<and> (\<forall>s'. base_step e prof bench_name bconf exe_path c s = Stop (BaseAborted s')
       \<longrightarrow> record_files s' = record_files s \<and> summary_files s' = summary_files s)
   \<and> (\<forall>b l s'. base_step e prof bench_name bconf exe_path c s = Stop (BaseFound b l s')
       \<longrightarrow> (\<exists>path r. record_files s' = record_files s @ [(path, r)]
              \<and> summary_files s' = summary_files s
              \<and> produced_traces l = [trace_file r] \<and> length (produced_records l) = 1))"
proof -
  let ?r = "base_attempt e prof bconf exe_path c s 0"
  consider (raised) "attempt_proc e prof bconf exe_path c s 0 = None"
    | (failed) p where "attempt_proc e prof bconf exe_path c s 0 = Some p" "returncode p \<noteq> 0"
    | (small) "fst ?r" "\<not> meets_threshold prof ?r"
    | (found) "meets_threshold prof ?r"
    by (cases "attempt_proc e prof bconf exe_path c s 0")
       (auto simp: base_attempt_def fst_run_benchmark_and_get_size)
  then show ?thesis
  proof cases
    case raised
    from base_step_raised [OF this, of bench_name] show ?thesis by auto
  next
    case failed
    from base_step_aborted [OF this, of bench_name] show ?thesis by auto
  next
    case small
    from base_step_searching [OF this, of bench_name] show ?thesis by auto
  next
    case found
    from base_step_found [OF this, of bench_name] show ?thesis by auto
  qed
qed

lemma base_iter_found_props:
  "base_iter n e prof bench_name bconf exe_path c s = Stop (BaseFound b l s')
     \<Longrightarrow> \<exists>path r. record_files s' = record_files s @ [(path, r)]
              \<and> summary_files s' = summary_files s
              \<and> produced_traces l = [trace_file r] \<and> length (produced_records l) = 1"
proof (induction n arbitrary: c s)
  case 0
  then show ?case by simp
next
  case (Suc n)
  show ?case
  proof (cases "base_step e prof bench_name bconf exe_path c s")
    case (Searching c1 s1)
    with Suc.prems have "base_iter n e prof bench_name bconf exe_path c1 s1 = Stop (BaseFound b l s')"
      by simp
    from Suc.IH [OF this] base_step_props [of e prof bench_name bconf exe_path c s] Searching
    show ?thesis by simp
  next
    case (Stop r')
    with Suc.prems have "base_step e prof bench_name bconf exe_path c s = Stop (BaseFound b l s')"
      by simp
    with base_step_props [of e prof bench_name bconf exe_path c s] show ?thesis by blast
  qed
qed

lemma base_loop_found_props:
  assumes "base_loop e prof bench_name bconf exe_path c s = Some (BaseFound b l s')"
  shows "\<exists>path r. record_files s' = record_files s @ [(path, r)]
              \<and> summary_files s' = summary_files s
              \<and> produced_traces l = [trace_file r] \<and> length (produced_records l) = 1"
  using base_loop_Some_iter [OF assms] base_iter_found_props by blast

section \<open>The whole function\<close>

lemma write_summary_keeps:
  "record_files (write_summary e prof bench_name l s) = record_files s"
  "executed (write_summary e prof bench_name l s) = executed s"
  by (simp_all add: write_summary_def Let_def)

lemma write_summary_file:
  "summary_write_ok e \<Longrightarrow>
     summary_files (write_summary e prof bench_name l s)
       = summary_files s @ [(path_div (data_record_save_path prof) (bench_name @ ''.json''),
            \<lparr>summary_benchmark = bench_name, summary_data = produced_traces l,
             summary_data_record = produced_records l\<rparr>)]"
  by (simp add: write_summary_def Let_def)

lemma process_benchmark_found:
  assumes cfg: "benchmark_config prof bench_name = Some bconf"
    and dir: "isdir e (os_path_join (benchmark_path prof) bench_name)"
    and build: "go_build_returncode e (os_path_join (benchmark_path prof) bench_name) = 0"
    and found: "base_loop e prof bench_name bconf (exe_path_of e prof bench_name bconf)
                  (size_arg_start bconf) s = Some (BaseFound base_size l s1)"
  shows "process_benchmark e prof bench_name s =
           (case sweeps e prof bench_name bconf (exe_path_of e prof bench_name bconf) base_size (l, s1) of
              Raised err s2 \<Rightarrow> Some (Raised err s2)
            | Returned ls \<Rightarrow> Some (Returned (0, write_summary e prof bench_name (fst ls) (snd ls))))"
  by (simp add: process_benchmark_def cfg dir build found Let_def split: outcome.splits)

lemma process_benchmark_status0:
  assumes cfg: "benchmark_config prof bench_name = Some bconf"
    and run: "process_benchmark e prof bench_name s = Some (Returned (0, s'))"
  shows "\<exists>base_size l s1 ls.
           base_loop e prof bench_name bconf (exe_path_of e prof bench_name bconf)
             (size_arg_start bconf) s = Some (BaseFound base_size l s1)
         \<and> sweeps e prof bench_name bconf (exe_path_of e prof bench_name bconf) base_size (l, s1)
             = Returned ls
         \<and> s' = write_summary e prof bench_name (fst ls) (snd ls)"
proof -
  let ?dir = "os_path_join (benchmark_path prof) bench_name"
  let ?loop = "base_loop e prof bench_name bconf (exe_path_of e prof bench_name bconf) (size_arg_start bconf) s"
  have dir: "isdir e ?dir"
  proof (rule ccontr)
    assume "\<not> isdir e ?dir"
    with run show False by (simp add: process_benchmark_def cfg Let_def)
  qed
  have build: "go_build_returncode e ?dir = 0"
  proof (rule ccontr)
    assume "go_build_returncode e ?dir \<noteq> 0"
    with run dir show False by (simp add: process_benchmark_def cfg Let_def)
  qed
  show ?thesis
  proof (cases ?loop)
    case None
    with run show ?thesis by (simp add: process_benchmark_def cfg dir build Let_def)
  next
    case (Some r)
    show ?thesis
    proof (cases r)
      case (BaseAborted s1)
      with Some run show ?thesis by (simp add: process_benchmark_def cfg dir build Let_def)
    next
      case (BaseRaised err s1)
      with Some run show ?thesis by (simp add: process_benchmark_def cfg dir build Let_def)
    next
      case (BaseFound base_size l s1)
      with Some have found: "?loop = Some (BaseFound base_size l s1)" by simp
      from process_benchmark_found [OF cfg dir build found] run
      obtain ls where
        "sweeps e prof bench_name bconf (exe_path_of e prof bench_name bconf) base_size (l, s1)
           = Returned ls"
        "s' = write_summary e prof bench_name (fst ls) (snd ls)"
        by (auto split: outcome.splits)
      with found show ?thesis by blast
    qed
  qed
qed



lemma sweeps_result:
  fixes e prof bench_name bconf exe_path base_size l s1
  defines "K \<equiv> length (normal_combinations bconf)"
    and "S \<equiv> length (special_arg_list bconf)"
  assumes sw: "sweeps e prof bench_name bconf exe_path base_size (l, s1) = Returned ls"
  shows "\<exists>cmds recs.
           executed (snd ls) = executed s1 @ cmds \<and> length cmds = K + S
         \<and> record_files (snd ls) = record_files s1 @ recs \<and> length recs = K + S
         \<and> summary_files (snd ls) = summary_files s1
         \<and> produced_traces (fst ls) = produced_traces l
              @ map (\<lambda>i. format_data_filename (bench_id bconf) (if i < K then ''0'' else ''1'') (1 + int i))
                  [0..<K + S]
         \<and> length (produced_records (fst ls)) = length (produced_records l) + (K + S)
         \<and> (\<forall>i<K + S.
               trace_file (snd (recs ! i))
                 = format_data_filename (bench_id bconf) (if i < K then ''0'' else ''1'') (1 + int i)
             \<and> rec_id (snd (recs ! i))
                 = str_replace ''.sqlite3'' []
                     (format_data_filename (bench_id bconf) (if i < K then ''0'' else ''1'') (1 + int i))
             \<and> (\<exists>p. run_proc e (length (executed s1) + i) (cmds ! i) = Some p
                    \<and> size_field (snd (recs ! i))
                        = size_label (fst (snd (run_benchmark_and_get_size p)))))"
proof -
  let ?nm = "\<lambda>i. format_data_filename (bench_id bconf) (if i < K then ''0'' else ''1'') (1 + int i)"
  have "sweep_ok e
     (\<lambda>i. if i < K then format_data_filename (bench_id bconf) ''0'' (1 + int i)
           else format_data_filename (bench_id bconf) ''1'' (1 + int i)) (K + S) (l, s1) ls"
    unfolding K_def S_def using sweeps_ok [OF sw] by blast
  then have "sweep_ok e ?nm (K + S) (l, s1) ls"
    by (rule sweep_ok_cong) simp
  then show ?thesis
    unfolding sweep_ok_def fst_conv snd_conv by blast
qed


text \<open>A search that found a base size has tokenised the base arguments.\<close>

lemma base_step_found_tokens:
  assumes "base_step e prof bench_name bconf exe_path c s = Stop (BaseFound b l s')"
  shows "\<exists>toks. py_shlex_split e (benchmark_base_arg prof) = Some toks"
proof (cases "build_base_benchmark_cmd e exe_path (benchmark_base_arg prof)
                (benchmark_trace_filename_arg prof)
                (os_path_join (data_save_path prof) (format_data_filename (bench_id bconf) ''0'' 0))
                (size_arg bconf) c")
  case None
  with assms show ?thesis by (simp add: base_step_def Let_def)
next
  case (Some cmd)
  then show ?thesis by (rule build_cmd_tokens)
qed

lemma base_iter_found_tokens:
  "base_iter n e prof bench_name bconf exe_path c s = Stop (BaseFound b l s')
     \<Longrightarrow> \<exists>toks. py_shlex_split e (benchmark_base_arg prof) = Some toks"
proof (induction n arbitrary: c s)
  case 0
  then show ?case by simp
next
  case (Suc n)
  show ?case
  proof (cases "base_step e prof bench_name bconf exe_path c s")
    case (Searching c1 s1)
    with Suc.prems have "base_iter n e prof bench_name bconf exe_path c1 s1 = Stop (BaseFound b l s')"
      by simp
    then show ?thesis by (rule Suc.IH)
  next
    case (Stop r')
    with Suc.prems have "base_step e prof bench_name bconf exe_path c s = Stop (BaseFound b l s')"
      by simp
    then show ?thesis by (rule base_step_found_tokens)
  qed
qed

lemma base_loop_found_tokens:
  assumes "base_loop e prof bench_name bconf exe_path c s = Some (BaseFound b l s')"
  shows "\<exists>toks. py_shlex_split e (benchmark_base_arg prof) = Some toks"
  using base_loop_Some_iter [OF assms] base_iter_found_tokens by blast

lemma sweep_cmds_built:
  assumes base: "py_shlex_split e (benchmark_base_arg prof) = Some toks"
    and tok: "\<forall>sp \<in> set (special_arg_list bconf). py_shlex_split e sp \<noteq> None"
    and i: "i < length (sweep_cmds e prof bconf exe_path base_size)"
  shows "\<exists>cmd. sweep_cmds e prof bconf exe_path base_size ! i = Some cmd"
proof -
  have b: "(if benchmark_base_arg prof \<noteq> [] then py_shlex_split e (benchmark_base_arg prof)
            else Some []) = Some toks"
    using base by (auto simp: py_shlex_split_def split: if_splits)
  show ?thesis
  proof (cases "i < length (normal_combinations bconf)")
    case True
    then show ?thesis by (simp add: sweep_cmds_def nth_append normal_cmd_def b)
  next
    case False
    with i have j: "i - length (normal_combinations bconf) < length (special_arg_list bconf)"
      by (simp add: length_sweep_cmds)
    then have "special_arg_list bconf ! (i - length (normal_combinations bconf))
                 \<in> set (special_arg_list bconf)" by (rule nth_mem)
    with tok obtain st where
      "py_shlex_split e (special_arg_list bconf ! (i - length (normal_combinations bconf))) = Some st"
      by blast
    with False j show ?thesis by (simp add: sweep_cmds_def nth_append special_cmd_def b)
  qed
qed

subsection \<open>Failures in the sweep passes\<close>


lemma process_benchmark_status0_result:
  assumes cfg: "benchmark_config prof bench_name = Some bconf"
    and run: "process_benchmark e prof bench_name s = Some (Returned (0, s'))"
  shows "\<exists>base_size l s1 ls path r.
           sweeps e prof bench_name bconf (exe_path_of e prof bench_name bconf) base_size (l, s1)
             = Returned ls
         \<and> s' = write_summary e prof bench_name (fst ls) (snd ls)
         \<and> record_files s1 = record_files s @ [(path, r)]
         \<and> summary_files s1 = summary_files s
         \<and> produced_traces l = [trace_file r] \<and> length (produced_records l) = 1"
proof -
  from process_benchmark_status0 [OF cfg run]
  obtain base_size l s1 ls where
    loop: "base_loop e prof bench_name bconf (exe_path_of e prof bench_name bconf)
             (size_arg_start bconf) s = Some (BaseFound base_size l s1)"
    and sw: "sweeps e prof bench_name bconf (exe_path_of e prof bench_name bconf) base_size (l, s1)
             = Returned ls"
    and s': "s' = write_summary e prof bench_name (fst ls) (snd ls)"
    by blast
  from base_loop_found_props [OF loop] sw s' show ?thesis by blast
qed

subsection \<open>One index counter for both passes\<close>

text \<open>
  Claim C4. In a run that completes with status \<open>0\<close> the record files written are the base
  record followed by one record per sweep run. With \<open>K\<close> normal combinations and \<open>S\<close>
  special entries, the \<open>j\<close>-th normal record (from \<open>0\<close>) carries index \<open>1 + j\<close> with type
  \<open>"0"\<close> in its trace file name and its id, and the \<open>j\<close>-th special record carries index
  \<open>K + 1 + j\<close> with type \<open>"1"\<close>: the counter starts at \<open>1\<close> after the base run and the
  special pass continues where the normal pass stopped.
\<close>

theorem index_counter_is_shared:
  assumes cfg: "benchmark_config prof bench_name = Some bconf"
    and run: "process_benchmark e prof bench_name s = Some (Returned (0, s'))"
  shows "\<exists>base recs.
           record_files s' = record_files s @ base # recs
         \<and> length recs = length (normal_combinations bconf) + length (special_arg_list bconf)
         \<and> (\<forall>j < length (normal_combinations bconf).
               trace_file (snd (recs ! j)) = format_data_filename (bench_id bconf) ''0'' (1 + int j)
             \<and> rec_id (snd (recs ! j))
                 = str_replace ''.sqlite3'' [] (format_data_filename (bench_id bconf) ''0'' (1 + int j)))
         \<and> (\<forall>j < length (special_arg_list bconf).
               trace_file (snd (recs ! (length (normal_combinations bconf) + j)))
                 = format_data_filename (bench_id bconf) ''1''
                     (int (length (normal_combinations bconf)) + 1 + int j)
             \<and> rec_id (snd (recs ! (length (normal_combinations bconf) + j)))
                 = str_replace ''.sqlite3'' []
                     (format_data_filename (bench_id bconf) ''1''
                        (int (length (normal_combinations bconf)) + 1 + int j)))"
proof -
  let ?K = "length (normal_combinations bconf)"
  let ?S = "length (special_arg_list bconf)"
  let ?exe = "exe_path_of e prof bench_name bconf"
  from process_benchmark_status0_result [OF cfg run]
  obtain base_size l s1 ls path r where
    ls: "sweeps e prof bench_name bconf ?exe base_size (l, s1) = Returned ls"
    and s': "s' = write_summary e prof bench_name (fst ls) (snd ls)"
    and base: "record_files s1 = record_files s @ [(path, r)]"
    by blast
  from sweeps_result [OF ls]
  obtain recs where
    rf: "record_files (snd ls) = record_files s1 @ recs" "length recs = ?K + ?S"
    and each: "\<forall>i < ?K + ?S.
        trace_file (snd (recs ! i)) =
          format_data_filename (bench_id bconf) (if i < ?K then ''0'' else ''1'') (1 + int i)
      \<and> rec_id (snd (recs ! i))
          = str_replace ''.sqlite3'' []
              (format_data_filename (bench_id bconf) (if i < ?K then ''0'' else ''1'') (1 + int i))"
    by blast
  have all: "record_files s' = record_files s @ (path, r) # recs"
    by (simp add: s' write_summary_keeps rf base)
  have normal: "trace_file (snd (recs ! j)) = format_data_filename (bench_id bconf) ''0'' (1 + int j)
             \<and> rec_id (snd (recs ! j))
                 = str_replace ''.sqlite3'' [] (format_data_filename (bench_id bconf) ''0'' (1 + int j))"
    if "j < ?K" for j
  proof -
    from that have "j < ?K + ?S" by simp
    with each that show ?thesis by simp
  qed
  have special: "trace_file (snd (recs ! (?K + j)))
                 = format_data_filename (bench_id bconf) ''1'' (int ?K + 1 + int j)
             \<and> rec_id (snd (recs ! (?K + j)))
                 = str_replace ''.sqlite3'' []
                     (format_data_filename (bench_id bconf) ''1'' (int ?K + 1 + int j))"
    if "j < ?S" for j
  proof -
    from that have lt: "?K + j < ?K + ?S" by simp
    have idx: "1 + int (?K + j) = int ?K + 1 + int j" by simp
    from each lt have
      "trace_file (snd (recs ! (?K + j))) =
          format_data_filename (bench_id bconf) (if ?K + j < ?K then ''0'' else ''1'') (1 + int (?K + j))
      \<and> rec_id (snd (recs ! (?K + j)))
          = str_replace ''.sqlite3'' []
              (format_data_filename (bench_id bconf) (if ?K + j < ?K then ''0'' else ''1'') (1 + int (?K + j)))"
      by blast
    then show ?thesis unfolding idx by simp
  qed
  from all rf(2) normal special show ?thesis by blast
qed

lemma summary_of_completed_run:
  assumes cfg: "benchmark_config prof bench_name = Some bconf"
    and run: "process_benchmark e prof bench_name s = Some (Returned (0, s'))"
    and ok: "summary_write_ok e"
  shows "\<exists>path summ.
           summary_files s' = summary_files s @ [(path, summ)]
         \<and> length (summary_data summ)
             = 1 + length (normal_combinations bconf) + length (special_arg_list bconf)
         \<and> length (summary_data_record summ)
             = 1 + length (normal_combinations bconf) + length (special_arg_list bconf)
         \<and> (\<forall>j < length (normal_combinations bconf).
               summary_data summ ! (1 + j) = format_data_filename (bench_id bconf) ''0'' (1 + int j))
         \<and> (\<forall>j < length (special_arg_list bconf).
               summary_data summ ! (1 + length (normal_combinations bconf) + j)
                 = format_data_filename (bench_id bconf) ''1''
                     (1 + int (length (normal_combinations bconf)) + int j))"
proof -
  let ?K = "length (normal_combinations bconf)"
  let ?S = "length (special_arg_list bconf)"
  let ?exe = "exe_path_of e prof bench_name bconf"
  let ?nm = "\<lambda>i. format_data_filename (bench_id bconf) (if i < ?K then ''0'' else ''1'') (1 + int i)"
  from process_benchmark_status0_result [OF cfg run]
  obtain base_size l s1 ls path r where
    res: "sweeps e prof bench_name bconf ?exe base_size (l, s1) = Returned ls
         \<and> s' = write_summary e prof bench_name (fst ls) (snd ls)
         \<and> record_files s1 = record_files s @ [(path, r)]
         \<and> summary_files s1 = summary_files s
         \<and> produced_traces l = [trace_file r] \<and> length (produced_records l) = 1"
    by blast
  then have ls: "sweeps e prof bench_name bconf ?exe base_size (l, s1) = Returned ls"
    and s': "s' = write_summary e prof bench_name (fst ls) (snd ls)"
    and sm1: "summary_files s1 = summary_files s"
    and tr1: "produced_traces l = [trace_file r]" and pr1: "length (produced_records l) = 1"
    by simp_all
  from sweeps_result [OF ls]
  obtain cmds recs where
    sw: "executed (snd ls) = executed s1 @ cmds \<and> length cmds = ?K + ?S
         \<and> record_files (snd ls) = record_files s1 @ recs \<and> length recs = ?K + ?S
         \<and> summary_files (snd ls) = summary_files s1
         \<and> produced_traces (fst ls) = produced_traces l @ map ?nm [0..<?K + ?S]
         \<and> length (produced_records (fst ls)) = length (produced_records l) + (?K + ?S)"
    by blast
  then have sm: "summary_files (snd ls) = summary_files s1"
    and tr: "produced_traces (fst ls) = produced_traces l @ map ?nm [0..<?K + ?S]"
    and pr: "length (produced_records (fst ls)) = length (produced_records l) + (?K + ?S)"
    by simp_all
  let ?summ = "\<lparr>summary_benchmark = bench_name, summary_data = produced_traces (fst ls),
             summary_data_record = produced_records (fst ls)\<rparr>"
  have sfile: "summary_files s' = summary_files s
                @ [(path_div (data_record_save_path prof) (bench_name @ ''.json''), ?summ)]"
    by (simp add: s' write_summary_file [OF ok] sm sm1)
  have data: "produced_traces (fst ls) = trace_file r # map ?nm [0..<?K + ?S]"
    by (simp add: tr tr1)
  have len: "length (summary_data ?summ) = 1 + ?K + ?S" by (simp add: data)
  have lenr: "length (summary_data_record ?summ) = 1 + ?K + ?S" by (simp add: pr pr1)
  have normal: "summary_data ?summ ! (1 + j) = format_data_filename (bench_id bconf) ''0'' (1 + int j)"
    if "j < ?K" for j
    using that by (simp add: data)
  have special: "summary_data ?summ ! (1 + ?K + j)
                 = format_data_filename (bench_id bconf) ''1'' (1 + int ?K + int j)"
    if "j < ?S" for j
    using that by (simp add: data add.assoc)
  show ?thesis
    apply (rule exI [of _ "path_div (data_record_save_path prof) (bench_name @ ''.json'')"])
    apply (rule exI [of _ ?summ])
    apply (intro conjI allI impI)
        apply (rule sfile)
       apply (rule len)
      apply (rule lenr)
     apply (erule normal)
    apply (erule special)
    done
qed

text \<open>The main scenario.\<close>

lemma scripted_env_runs:
  assumes "None \<notin> set script" and "dflt \<noteq> None"
  shows "\<exists>p. run_proc (scripted_env script dflt bad_moves) k cmd = Some p"
proof (cases "k < length script")
  case True
  then have "script ! k \<in> set script" by (rule nth_mem)
  with assms(1) have "script ! k \<noteq> None" by metis
  with True show ?thesis by (auto simp: scripted_env_def)
next
  case False
  with assms(2) show ?thesis by (auto simp: scripted_env_def)
qed

lemma demo_runs: "\<exists>p. run_proc demo_env k cmd = Some p"
  unfolding demo_env_def by (rule scripted_env_runs) simp_all

lemma demo_cfg: "benchmark_config (demo_profile (demo_conf 1)) ''kmeans'' = Some (demo_conf 1)"
  by (simp add: demo_profile_def)

lemma demo_dir:
  "isdir demo_env (os_path_join (benchmark_path (demo_profile (demo_conf 1))) ''kmeans'')"
  by (simp add: demo_env_def scripted_env_def)

lemma demo_build:
  "go_build_returncode demo_env (os_path_join (benchmark_path (demo_profile (demo_conf 1))) ''kmeans'') = 0"
  by (simp add: demo_env_def scripted_env_def)

lemma demo_summary_ok: "summary_write_ok demo_env"
  by (simp add: demo_env_def scripted_env_def)

lemma demo_K: "length (normal_combinations (demo_conf 1)) = 4"
  by (simp add: normal_combinations_def normal_values_lists_def py_product_def demo_conf_def
      lstrip_dash_def)

lemma demo_S: "length (special_arg_list (demo_conf 1)) = 1"
  by (simp add: demo_conf_def)

lemma demo_bench_id: "bench_id (demo_conf 1) = ''03''"
  by (simp add: demo_conf_def)

lemma demo_special_list: "special_arg_list (demo_conf 1) = [''-x 1'']"
  by (simp add: demo_conf_def)

lemma demo_special_tokens: "py_shlex_split demo_env ''-x 1'' = Some [''-x'', ''1'']"
  by (simp add: py_shlex_split_def demo_env_def scripted_env_def split_spaces_special)

lemma demo_found:
  "\<exists>l s1. base_loop demo_env (demo_profile (demo_conf 1)) ''kmeans'' (demo_conf 1)
             (exe_path_of demo_env (demo_profile (demo_conf 1)) ''kmeans'' (demo_conf 1))
             (size_arg_start (demo_conf 1)) fresh_state = Some (BaseFound 8 l s1)
         \<and> length (executed s1) = 4"
proof -
  let ?P = "demo_profile (demo_conf 1)"
  let ?X = "exe_path_of demo_env ?P ''kmeans'' (demo_conf 1)"
  let ?att = "base_attempt demo_env ?P (demo_conf 1) ?X (size_arg_start (demo_conf 1)) fresh_state"
  have a: "fst (?att 0) \<and> \<not> meets_threshold ?P (?att 0)"
    "fst (?att 1) \<and> \<not> meets_threshold ?P (?att 1)"
    "fst (?att 2) \<and> \<not> meets_threshold ?P (?att 2)"
    by (simp_all add: demo_env_def fresh_state_def eval_world)
  have m3: "meets_threshold ?P (?att 3)"
    by (simp add: demo_env_def fresh_state_def eval_world)
  have before: "\<forall>j<3. fst (?att j) \<and> \<not> meets_threshold ?P (?att j)"
  proof (intro allI impI)
    fix j :: nat assume "j < 3"
    then consider "j = 0" | "j = 1" | "j = 2" by linarith
    then show "fst (?att j) \<and> \<not> meets_threshold ?P (?att j)" using a by cases simp_all
  qed
  have st: "size_arg_start (demo_conf 1) * 2 ^ 3 = 8" by (simp add: demo_conf_def)
  from base_loop_found_at [OF before m3, of "''kmeans''"] show ?thesis
    unfolding st by (auto simp: fresh_state_def)
qed

lemma demo_tok: "\<forall>sp \<in> set (special_arg_list (demo_conf 1)). py_shlex_split demo_env sp \<noteq> None"
  by (simp add: demo_special_list demo_special_tokens)


lemma demo_status0:
  "\<exists>s'. process_benchmark demo_env (demo_profile (demo_conf 1)) ''kmeans'' fresh_state
           = Some (Returned (0, s'))"
proof -
  from demo_found obtain l s1 where
    found: "base_loop demo_env (demo_profile (demo_conf 1)) ''kmeans'' (demo_conf 1)
             (exe_path_of demo_env (demo_profile (demo_conf 1)) ''kmeans'' (demo_conf 1))
             (size_arg_start (demo_conf 1)) fresh_state = Some (BaseFound 8 l s1)"
    by blast
  have "\<forall>i<length (sweep_cmds demo_env (demo_profile (demo_conf 1)) (demo_conf 1)
                     (exe_path_of demo_env (demo_profile (demo_conf 1)) ''kmeans'' (demo_conf 1)) 8).
          \<exists>cmd p. sweep_cmds demo_env (demo_profile (demo_conf 1)) (demo_conf 1)
                     (exe_path_of demo_env (demo_profile (demo_conf 1)) ''kmeans'' (demo_conf 1)) 8 ! i
                     = Some cmd
             \<and> run_proc demo_env (length (executed s1) + i) cmd = Some p"
  proof (intro allI impI)
    fix i
    assume i: "i < length (sweep_cmds demo_env (demo_profile (demo_conf 1)) (demo_conf 1)
                     (exe_path_of demo_env (demo_profile (demo_conf 1)) ''kmeans'' (demo_conf 1)) 8)"
    from base_loop_found_tokens [OF found] obtain toks where
      "py_shlex_split demo_env (benchmark_base_arg (demo_profile (demo_conf 1))) = Some toks"
      by blast
    from sweep_cmds_built [OF this demo_tok i] obtain cmd where
      c: "sweep_cmds demo_env (demo_profile (demo_conf 1)) (demo_conf 1)
            (exe_path_of demo_env (demo_profile (demo_conf 1)) ''kmeans'' (demo_conf 1)) 8 ! i
            = Some cmd" by blast
    from demo_runs [of "length (executed s1) + i" cmd] obtain p where
      "run_proc demo_env (length (executed s1) + i) cmd = Some p" by blast
    with c show "\<exists>cmd p. sweep_cmds demo_env (demo_profile (demo_conf 1)) (demo_conf 1)
                     (exe_path_of demo_env (demo_profile (demo_conf 1)) ''kmeans'' (demo_conf 1)) 8 ! i
                     = Some cmd
             \<and> run_proc demo_env (length (executed s1) + i) cmd = Some p" by blast
  qed
  from sweeps_returns [OF this, of "''kmeans''" l] obtain ls where
    "sweeps demo_env (demo_profile (demo_conf 1)) ''kmeans'' (demo_conf 1)
       (exe_path_of demo_env (demo_profile (demo_conf 1)) ''kmeans'' (demo_conf 1)) 8 (l, s1)
       = Returned ls" by blast
  then show ?thesis
    by (simp add: process_benchmark_found [OF demo_cfg demo_dir demo_build found])
qed

lemmas eval_name = format_data_filename_def DATA_TASK_PREFIX_def eval_str

theorem index_counter_is_shared_witness:
  "benchmark_config (demo_profile (demo_conf 1)) ''kmeans'' = Some (demo_conf 1)
   \<and> (\<exists>s' base recs.
         process_benchmark demo_env (demo_profile (demo_conf 1)) ''kmeans'' fresh_state
           = Some (Returned (0, s'))
       \<and> record_files s' = base # recs \<and> length recs = 5
       \<and> trace_file (snd (recs ! 0)) = ''D0300001.sqlite3''
       \<and> trace_file (snd (recs ! 3)) = ''D0300004.sqlite3''
       \<and> trace_file (snd (recs ! 4)) = ''D0310005.sqlite3'')"
proof -
  from demo_status0 obtain s' where
    run: "process_benchmark demo_env (demo_profile (demo_conf 1)) ''kmeans'' fresh_state
            = Some (Returned (0, s'))"
    by blast
  from index_counter_is_shared [OF demo_cfg run]
  obtain base recs where
    rf: "record_files s' = record_files fresh_state @ base # recs"
    and len: "length recs = 4 + 1"
    and normal: "\<forall>j<4. trace_file (snd (recs ! j)) = format_data_filename ''03'' ''0'' (1 + int j)"
    and special: "\<forall>j<1. trace_file (snd (recs ! (4 + j))) = format_data_filename ''03'' ''1'' (int 4 + 1 + int j)"
    unfolding demo_K demo_S demo_bench_id by blast
  from normal have "trace_file (snd (recs ! 0)) = format_data_filename ''03'' ''0'' (1 + int 0)"
    "trace_file (snd (recs ! 3)) = format_data_filename ''03'' ''0'' (1 + int 3)" by simp_all
  then have n: "trace_file (snd (recs ! 0)) = ''D0300001.sqlite3''"
    "trace_file (snd (recs ! 3)) = ''D0300004.sqlite3''"
    by (simp_all add: eval_name)
  from special have "trace_file (snd (recs ! (4 + 0))) = format_data_filename ''03'' ''1'' (int 4 + 1 + int 0)"
    by simp
  then have sp: "trace_file (snd (recs ! 4)) = ''D0310005.sqlite3''"
    by (simp add: eval_name)
  from rf have "record_files s' = base # recs" by (simp add: fresh_state_def)
  with run len n sp demo_cfg show ?thesis by auto
qed





lemma demo_base_tokens:
  "py_shlex_split e' (benchmark_base_arg (demo_profile bconf)) = shlex_split e' ''-timing -trace-vis''"
  by (simp add: py_shlex_split_def demo_profile_def)

lemma scripted_split: "shlex_split (scripted_env script dflt bad_moves) = split_spaces"
  by (simp add: scripted_env_def)

lemma normal_cmd_built:
  assumes "py_shlex_split e (benchmark_base_arg prof) = Some toks"
  shows "\<exists>cmd. normal_cmd e prof bconf exe_path base_size combo = Some cmd"
  using assms by (auto simp: normal_cmd_def py_shlex_split_def split: if_splits)





subsection \<open>The summary\<close>

lemma normal_run_no_artifact:
  assumes run: "normal_run e prof bench_name bconf exe_path base_size combo (l, s) = Returned (l1, s1)"
    and r: "run_proc e (length (executed s)) (last (executed s1)) = Some p"
    and none: "snd (snd (run_benchmark_and_get_size p)) = None"
  shows "moved s1 = moved s
       \<and> produced_traces l1 = produced_traces l @ [format_data_filename (bench_id bconf) ''0'' (idx_counter l)]"
proof -
  from normal_run_ok [OF run] obtain cmd where
    nc: "normal_cmd e prof bconf exe_path base_size combo = Some cmd"
    and ex: "executed s1 = executed s @ [cmd]" by blast
  from r ex have r': "run_proc e (length (executed s)) cmd = Some p" by simp
  from normal_cmd_SomeD [OF nc] obtain toks where
    t2: "py_shlex_split e (benchmark_base_arg prof) = Some toks"
    and t1: "(if benchmark_base_arg prof \<noteq> [] then py_shlex_split e (benchmark_base_arg prof)
              else Some []) = Some toks"
    and c: "cmd = [exe_path] @ toks @ [size_arg bconf] @ [str_int base_size]
                  @ concat (map (\<lambda>(arg_name, arg_val). [arg_name, py_str arg_val])
                              (zip (normal_arg_list bconf) combo))"
    by blast
  obtain ok sz where t: "run_benchmark_and_get_size p = (ok, sz, None)"
    using none by (metis prod.collapse)
  from run t1 t2 r' t show ?thesis
    unfolding c by (auto simp: normal_run_def Let_def run_cmd_def write_data_record_def)
qed

lemma special_run_no_artifact:
  assumes run: "special_run e prof bench_name bconf exe_path base_size special (l, s) = Returned (l1, s1)"
    and r: "run_proc e (length (executed s)) (last (executed s1)) = Some p"
    and none: "snd (snd (run_benchmark_and_get_size p)) = None"
  shows "moved s1 = moved s
       \<and> produced_traces l1 = produced_traces l @ [format_data_filename (bench_id bconf) ''1'' (idx_counter l)]"
proof -
  from special_run_ok [OF run] obtain cmd where
    nc: "special_cmd e prof bconf exe_path base_size special = Some cmd"
    and ex: "executed s1 = executed s @ [cmd]" by blast
  from r ex have r': "run_proc e (length (executed s)) cmd = Some p" by simp
  from special_cmd_SomeD [OF nc] obtain toks stoks where
    t0: "py_shlex_split e special = Some stoks"
    and t1: "(if benchmark_base_arg prof \<noteq> [] then py_shlex_split e (benchmark_base_arg prof)
              else Some []) = Some toks"
    and c: "cmd = [exe_path] @ toks @ [size_arg bconf] @ [str_int base_size] @ stoks"
    by blast
  obtain ok sz where t: "run_benchmark_and_get_size p = (ok, sz, None)"
    using none by (metis prod.collapse)
  from run t0 t1 r' t show ?thesis
    unfolding c by (auto simp: special_run_def Let_def run_cmd_def write_data_record_def)
qed

text \<open>
  Claim C10. In a run that completes with status \<open>0\<close> and can write its summary, the
  summary written has \<open>1 + K + S\<close> trace names and as many record names: the base entry,
  then the nominal file name of every normal combination and of every special entry,
  whatever the outcome of the run was. In particular a normal or special run that leaves
  no artifact (it failed, or produced nothing) still appends its nominal name to the list
  of produced traces and moves no file, so the summary can name a file that was never put
  into the trace directory.
\<close>

theorem summary_lists_every_run:
  assumes cfg: "benchmark_config prof bench_name = Some bconf"
    and run: "process_benchmark e prof bench_name s = Some (Returned (0, s'))"
    and ok: "summary_write_ok e"
  shows "(\<exists>path summ.
           summary_files s' = summary_files s @ [(path, summ)]
         \<and> length (summary_data summ)
             = 1 + length (normal_combinations bconf) + length (special_arg_list bconf)
         \<and> length (summary_data_record summ)
             = 1 + length (normal_combinations bconf) + length (special_arg_list bconf)
         \<and> (\<forall>j < length (normal_combinations bconf).
               summary_data summ ! (1 + j) = format_data_filename (bench_id bconf) ''0'' (1 + int j))
         \<and> (\<forall>j < length (special_arg_list bconf).
               summary_data summ ! (1 + length (normal_combinations bconf) + j)
                 = format_data_filename (bench_id bconf) ''1''
                     (1 + int (length (normal_combinations bconf)) + int j)))
       \<and> (normal_run e prof bench_name bconf exe_path base_size combo (l0, s0) = Returned (l1, s1)
          \<and> run_proc e (length (executed s0)) (last (executed s1)) = Some p
          \<and> snd (snd (run_benchmark_and_get_size p)) = None
          \<longrightarrow> moved s1 = moved s0
            \<and> produced_traces l1
                = produced_traces l0 @ [format_data_filename (bench_id bconf) ''0'' (idx_counter l0)])
       \<and> (special_run e prof bench_name bconf exe_path base_size special (l0, s0) = Returned (l2, s2)
          \<and> run_proc e (length (executed s0)) (last (executed s2)) = Some q
          \<and> snd (snd (run_benchmark_and_get_size q)) = None
          \<longrightarrow> moved s2 = moved s0
            \<and> produced_traces l2
                = produced_traces l0 @ [format_data_filename (bench_id bconf) ''1'' (idx_counter l0)])"
proof (intro conjI impI)
  show "\<exists>path summ.
           summary_files s' = summary_files s @ [(path, summ)]
         \<and> length (summary_data summ)
             = 1 + length (normal_combinations bconf) + length (special_arg_list bconf)
         \<and> length (summary_data_record summ)
             = 1 + length (normal_combinations bconf) + length (special_arg_list bconf)
         \<and> (\<forall>j < length (normal_combinations bconf).
               summary_data summ ! (1 + j) = format_data_filename (bench_id bconf) ''0'' (1 + int j))
         \<and> (\<forall>j < length (special_arg_list bconf).
               summary_data summ ! (1 + length (normal_combinations bconf) + j)
                 = format_data_filename (bench_id bconf) ''1''
                     (1 + int (length (normal_combinations bconf)) + int j))"
    by (rule summary_of_completed_run [OF cfg run ok])
next
  assume a: "normal_run e prof bench_name bconf exe_path base_size combo (l0, s0) = Returned (l1, s1)
          \<and> run_proc e (length (executed s0)) (last (executed s1)) = Some p
          \<and> snd (snd (run_benchmark_and_get_size p)) = None"
  then have "moved s1 = moved s0
       \<and> produced_traces l1 = produced_traces l0 @ [format_data_filename (bench_id bconf) ''0'' (idx_counter l0)]"
    using normal_run_no_artifact by blast
  then show "moved s1 = moved s0"
    and "produced_traces l1
           = produced_traces l0 @ [format_data_filename (bench_id bconf) ''0'' (idx_counter l0)]"
    by simp_all
next
  assume a: "special_run e prof bench_name bconf exe_path base_size special (l0, s0) = Returned (l2, s2)
          \<and> run_proc e (length (executed s0)) (last (executed s2)) = Some q
          \<and> snd (snd (run_benchmark_and_get_size q)) = None"
  then have "moved s2 = moved s0
       \<and> produced_traces l2 = produced_traces l0 @ [format_data_filename (bench_id bconf) ''1'' (idx_counter l0)]"
    using special_run_no_artifact by blast
  then show "moved s2 = moved s0"
    and "produced_traces l2
           = produced_traces l0 @ [format_data_filename (bench_id bconf) ''1'' (idx_counter l0)]"
    by simp_all
qed

lemma demo_normal_cmd:
  "\<exists>cmd. normal_cmd demo_env (demo_profile (demo_conf 1)) (demo_conf 1) exe_path base_size combo = Some cmd"
proof (rule normal_cmd_built)
  show "py_shlex_split demo_env (benchmark_base_arg (demo_profile (demo_conf 1)))
          = Some [''-timing'', ''-trace-vis'']"
    by (simp add: demo_base_tokens demo_env_def scripted_split split_spaces_base_args)
qed

theorem summary_lists_every_run_witness:
  "benchmark_config (demo_profile (demo_conf 1)) ''kmeans'' = Some (demo_conf 1)
   \<and> summary_write_ok demo_env
   \<and> (\<exists>s' path summ.
         process_benchmark demo_env (demo_profile (demo_conf 1)) ''kmeans'' fresh_state
           = Some (Returned (0, s'))
       \<and> summary_files s' = [(path, summ)]
       \<and> length (summary_data summ) = 6
       \<and> summary_data summ ! 2 = ''D0300002.sqlite3''
       \<and> summary_data summ ! 5 = ''D0310005.sqlite3'')
   \<and> snd (snd (run_benchmark_and_get_size no_artifact)) = None
   \<and> (\<exists>l1 s1.
         normal_run demo_env (demo_profile (demo_conf 1)) ''kmeans'' (demo_conf 1)
           ''/w/bench/kmeans/kmeans'' 8 [IntVal 1, IntVal 10]
           (\<lparr>idx_counter = 1, produced_traces = [], produced_records = []\<rparr>, fresh_state)
           = Returned (l1, s1)
       \<and> run_proc demo_env (length (executed fresh_state)) (last (executed s1)) = Some no_artifact
       \<and> moved s1 = []
       \<and> produced_traces l1 = [''D0300001.sqlite3''])"
proof -
  let ?l = "\<lparr>idx_counter = 1, produced_traces = [], produced_records = []\<rparr>"
  from demo_status0 obtain s' where
    run: "process_benchmark demo_env (demo_profile (demo_conf 1)) ''kmeans'' fresh_state
            = Some (Returned (0, s'))"
    by blast
  from demo_normal_cmd obtain cmd where
    c: "normal_cmd demo_env (demo_profile (demo_conf 1)) (demo_conf 1)
          ''/w/bench/kmeans/kmeans'' 8 [IntVal 1, IntVal 10] = Some cmd" by blast
  have r0: "run_proc demo_env (length (executed fresh_state)) cmd' = Some no_artifact" for cmd'
    by (simp add: demo_env_def scripted_env_def fresh_state_def)
  from normal_run_returns [OF c r0, of "''kmeans''" ?l] obtain l1 s1 where
    nr: "normal_run demo_env (demo_profile (demo_conf 1)) ''kmeans'' (demo_conf 1)
           ''/w/bench/kmeans/kmeans'' 8 [IntVal 1, IntVal 10] (?l, fresh_state) = Returned (l1, s1)"
    by blast
  have none: "snd (snd (run_benchmark_and_get_size no_artifact)) = None"
    by (simp add: run_benchmark_and_get_size_def no_artifact_def)
  note inst = summary_lists_every_run [OF demo_cfg run demo_summary_ok,
      of "''/w/bench/kmeans/kmeans''" 8 "[IntVal 1, IntVal 10]" ?l fresh_state l1 s1 no_artifact]
  from inst obtain path summ where
    sf: "summary_files s' = summary_files fresh_state @ [(path, summ)]"
    and len: "length (summary_data summ) = 1 + 4 + 1"
    and normal: "\<forall>j<4. summary_data summ ! (1 + j) = format_data_filename ''03'' ''0'' (1 + int j)"
    and special: "\<forall>j<1. summary_data summ ! (1 + 4 + j) = format_data_filename ''03'' ''1'' (1 + int 4 + int j)"
    unfolding demo_K demo_S demo_bench_id by blast
  have nm2: "format_data_filename ''03'' ''0'' (1 + int 1) = ''D0300002.sqlite3''"
    by (simp add: eval_name)
  have nm5: "format_data_filename ''03'' ''1'' (1 + int 4 + int 0) = ''D0310005.sqlite3''"
    by (simp add: eval_name)
  from normal have "summary_data summ ! (1 + 1) = format_data_filename ''03'' ''0'' (1 + int 1)"
    by simp
  then have n: "summary_data summ ! 2 = ''D0300002.sqlite3''"
    by (simp only: nm2 one_add_one)
  from special have "summary_data summ ! (1 + 4 + 0) = format_data_filename ''03'' ''1'' (1 + int 4 + int 0)"
    by simp
  moreover have "(1::nat) + 4 + 0 = 5" by simp
  ultimately have sp: "summary_data summ ! 5 = ''D0310005.sqlite3''"
    by (simp only: nm5)
  from sf have "summary_files s' = [(path, summ)]" by (simp add: fresh_state_def)
  with run len n sp have first: "\<exists>s' path summ.
         process_benchmark demo_env (demo_profile (demo_conf 1)) ''kmeans'' fresh_state
           = Some (Returned (0, s'))
       \<and> summary_files s' = [(path, summ)]
       \<and> length (summary_data summ) = 6
       \<and> summary_data summ ! 2 = ''D0300002.sqlite3''
       \<and> summary_data summ ! 5 = ''D0310005.sqlite3''" by auto
  have nm1: "format_data_filename ''03'' ''0'' (idx_counter ?l) = ''D0300001.sqlite3''"
    by (simp add: eval_name)
  from inst nr r0 [of "last (executed s1)"] none
  have "moved s1 = moved fresh_state"
    and "produced_traces l1 = produced_traces ?l @ [format_data_filename ''03'' ''0'' (idx_counter ?l)]"
    unfolding demo_bench_id by blast+
  then have step: "moved s1 = []" "produced_traces l1 = [''D0300001.sqlite3'']"
    unfolding nm1 by (simp_all add: fresh_state_def)
  with nr r0 [of "last (executed s1)"] have second: "\<exists>l1 s1.
         normal_run demo_env (demo_profile (demo_conf 1)) ''kmeans'' (demo_conf 1)
           ''/w/bench/kmeans/kmeans'' 8 [IntVal 1, IntVal 10] (?l, fresh_state) = Returned (l1, s1)
       \<and> run_proc demo_env (length (executed fresh_state)) (last (executed s1)) = Some no_artifact
       \<and> moved s1 = []
       \<and> produced_traces l1 = [''D0300001.sqlite3'']" by blast
  from demo_cfg demo_summary_ok first none second show ?thesis by (intro conjI)
qed

section \<open>The combinations of the normal pass\<close>

lemma concat_map_append_Cons:
  "concat (map (\<lambda>z. map ((@) z) PL) (map (\<lambda>y. x @ [y]) p))
     = map ((@) x) (concat (map (\<lambda>y. map (Cons y) PL) p))"
  by (induction p) (simp_all add: comp_def)

lemma foldl_product_step:
  "foldl (\<lambda>result pool. concat (map (\<lambda>x. map (\<lambda>y. x @ [y]) pool) result)) acc pools
     = concat (map (\<lambda>x. map ((@) x) (product_lists pools)) acc)"
proof (induction pools arbitrary: acc)
  case Nil
  show ?case by (induction acc) simp_all
next
  case (Cons p ps)
  have "concat (map (\<lambda>x. map ((@) x) (product_lists ps))
               (concat (map (\<lambda>x. map (\<lambda>y. x @ [y]) p) acc)))
        = concat (map (\<lambda>x. map ((@) x) (product_lists (p # ps))) acc)"
  proof (induction acc)
    case Nil
    show ?case by simp
  next
    case (Cons a acc)
    then show ?case
      using concat_map_append_Cons [of "product_lists ps" a p] by simp
  qed
  then show ?case by (simp add: Cons.IH)
qed

lemma py_product_eq_product_lists: "py_product pools = product_lists pools"
proof -
  have "map ((@) []) (product_lists pools) = product_lists pools"
    by (induction "product_lists pools") simp_all
  then show ?thesis by (simp add: py_product_def foldl_product_step)
qed

lemma concat_blocks:
  "concat (map (\<lambda>x. map (f x) [0..<M]) vs)
     = map (\<lambda>p. f (vs ! (p div M)) (p mod M)) [0..<length vs * M]"
proof (induction vs rule: rev_induct)
  case Nil
  show ?case by simp
next
  case (snoc x vs)
  let ?n = "length vs"
  have split: "[0..<(?n + 1) * M] = [0..<?n * M] @ [?n * M..<?n * M + M]"
    using upt_add_eq_append [of 0 "?n * M" M] by (simp add: algebra_simps)
  have first: "map (\<lambda>p. f ((vs @ [x]) ! (p div M)) (p mod M)) [0..<?n * M]
             = map (\<lambda>p. f (vs ! (p div M)) (p mod M)) [0..<?n * M]"
  proof (rule map_cong [OF refl])
    fix p assume "p \<in> set [0..<?n * M]"
    then have "p < ?n * M" by simp
    then have "p div M < ?n"
      by (simp add: less_mult_imp_div_less)
    then show "f ((vs @ [x]) ! (p div M)) (p mod M) = f (vs ! (p div M)) (p mod M)"
      by (simp add: nth_append)
  qed
  have second: "map (\<lambda>p. f ((vs @ [x]) ! (p div M)) (p mod M)) [?n * M..<?n * M + M]
             = map (f x) [0..<M]"
  proof (rule nth_equalityI)
    show "length (map (\<lambda>p. f ((vs @ [x]) ! (p div M)) (p mod M)) [?n * M..<?n * M + M])
            = length (map (f x) [0..<M])" by simp
  next
    fix i assume "i < length (map (\<lambda>p. f ((vs @ [x]) ! (p div M)) (p mod M)) [?n * M..<?n * M + M])"
    then have i: "i < M" by simp
    then have "(?n * M + i) div M = ?n" "(?n * M + i) mod M = i" by simp_all
    with i show "map (\<lambda>p. f ((vs @ [x]) ! (p div M)) (p mod M)) [?n * M..<?n * M + M] ! i
                   = map (f x) [0..<M] ! i"
      by simp
  qed
  have "concat (map (\<lambda>x. map (f x) [0..<M]) (vs @ [x]))
          = concat (map (\<lambda>x. map (f x) [0..<M]) vs) @ map (f x) [0..<M]" by simp
  also have "\<dots> = map (\<lambda>p. f (vs ! (p div M)) (p mod M)) [0..<?n * M] @ map (f x) [0..<M]"
    by (simp only: snoc.IH)
  also have "\<dots> = map (\<lambda>p. f ((vs @ [x]) ! (p div M)) (p mod M)) ([0..<?n * M] @ [?n * M..<?n * M + M])"
    by (simp only: map_append first second)
  also have "\<dots> = map (\<lambda>p. f ((vs @ [x]) ! (p div M)) (p mod M)) [0..<length (vs @ [x]) * M]"
    using split by simp
  finally show ?case .
qed

lemma product_lists_eq_spec: "product_lists pools = spec_lex_product pools"
proof (induction pools)
  case Nil
  show ?case by (simp add: spec_lex_product_def)
next
  case (Cons vs rest)
  let ?M = "prod_list (map length rest)"
  have "product_lists (vs # rest)
          = concat (map (\<lambda>x. map (\<lambda>q. x # combo_at rest q) [0..<?M]) vs)"
    by (simp add: Cons.IH spec_lex_product_def comp_def)
  also have "\<dots> = map (\<lambda>p. vs ! (p div ?M) # combo_at rest (p mod ?M)) [0..<length vs * ?M]"
    by (rule concat_blocks)
  also have "\<dots> = spec_lex_product (vs # rest)"
    by (simp add: spec_lex_product_def)
  finally show ?case .
qed


lemma length_spec_lex_product:
  "length (spec_lex_product pools) = prod_list (map length pools)"
  by (simp add: spec_lex_product_def)

lemma normal_values_lists_Nil: "normal_values_lists bconf = [] \<longleftrightarrow> normal_arg_list bconf = []"
  by (simp add: normal_values_lists_def)

text \<open>
  Claim C5, as amended. When at least one flag is declared, the normal pass enumerates
  exactly the Cartesian product of the flags' value lists (each taken in declared order,
  the empty list for a flag without values), in lexicographic order with the last flag
  varying fastest: there are as many combinations as the product of the lists' lengths,
  the combination at position \<open>p\<close> is selected by the mixed-radix digits of \<open>p\<close>, and the
  combinations are the lists that pick one value per flag. When no flag is declared the
  normal pass enumerates nothing.
\<close>

theorem normal_pass_enumerates_lex_product:
  "(normal_arg_list bconf \<noteq> [] \<longrightarrow>
      normal_combinations bconf = spec_lex_product (normal_values_lists bconf)
    \<and> length (normal_combinations bconf) = prod_list (map length (normal_values_lists bconf))
    \<and> (\<forall>p < length (normal_combinations bconf).
          normal_combinations bconf ! p = combo_at (normal_values_lists bconf) p)
    \<and> set (normal_combinations bconf)
        = {c. list_all2 (\<lambda>v vals. v \<in> set vals) c (normal_values_lists bconf)})
   \<and> (normal_arg_list bconf = [] \<longrightarrow> normal_combinations bconf = [])"
proof (intro conjI impI)
  assume ne: "normal_arg_list bconf \<noteq> []"
  then have nc: "normal_combinations bconf = product_lists (normal_values_lists bconf)"
    by (simp add: normal_combinations_def normal_values_lists_Nil py_product_eq_product_lists)
  show eq: "normal_combinations bconf = spec_lex_product (normal_values_lists bconf)"
    by (simp add: nc product_lists_eq_spec)
  show len: "length (normal_combinations bconf) = prod_list (map length (normal_values_lists bconf))"
    by (simp add: eq length_spec_lex_product)
  show "\<forall>p < length (normal_combinations bconf).
          normal_combinations bconf ! p = combo_at (normal_values_lists bconf) p"
    unfolding len by (simp add: eq spec_lex_product_def)
  show "set (normal_combinations bconf)
        = {c. list_all2 (\<lambda>v vals. v \<in> set vals) c (normal_values_lists bconf)}"
    by (simp add: nc product_lists_set)
next
  assume "normal_arg_list bconf = []"
  then show "normal_combinations bconf = []"
    by (simp add: normal_combinations_def normal_values_lists_Nil)
qed

lemma demo_values: "normal_values_lists (demo_conf 1) = [[IntVal 1, IntVal 2], [IntVal 10, IntVal 20]]"
  by (simp add: normal_values_lists_def demo_conf_def lstrip_dash_def)

theorem normal_pass_enumerates_lex_product_witness:
  "normal_arg_list (demo_conf 1) = [''-a'', ''-b'']
   \<and> normal_arg_list (demo_conf 1) \<noteq> []
   \<and> normal_values_lists (demo_conf 1) = [[IntVal 1, IntVal 2], [IntVal 10, IntVal 20]]
   \<and> normal_combinations (demo_conf 1)
       = [[IntVal 1, IntVal 10], [IntVal 1, IntVal 20], [IntVal 2, IntVal 10], [IntVal 2, IntVal 20]]"
proof -
  have fl: "normal_arg_list (demo_conf 1) = [''-a'', ''-b'']" by (simp add: demo_conf_def)
  then have ne: "normal_arg_list (demo_conf 1) \<noteq> []" by simp
  have up: "[0..<4] = [0, 1, 2, 3]" by (simp add: upt_rec)
  have n: "prod_list (map length [[IntVal 1, IntVal 2], [IntVal 10, IntVal 20]]) = 4" by simp
  from normal_pass_enumerates_lex_product [of "demo_conf 1"] ne
  have "normal_combinations (demo_conf 1) = spec_lex_product (normal_values_lists (demo_conf 1))"
    by blast
  also have "\<dots> = spec_lex_product [[IntVal 1, IntVal 2], [IntVal 10, IntVal 20]]"
    by (simp only: demo_values)
  also have "\<dots> = map (combo_at [[IntVal 1, IntVal 2], [IntVal 10, IntVal 20]]) [0..<4]"
    by (simp only: spec_lex_product_def n)
  also have "\<dots> = map (combo_at [[IntVal 1, IntVal 2], [IntVal 10, IntVal 20]]) [0, 1, 2, 3]"
    by (simp only: up)
  also have "\<dots> = [[IntVal 1, IntVal 10], [IntVal 1, IntVal 20], [IntVal 2, IntVal 10], [IntVal 2, IntVal 20]]"
    by code_simp
  finally have "normal_combinations (demo_conf 1)
       = [[IntVal 1, IntVal 10], [IntVal 1, IntVal 20], [IntVal 2, IntVal 10], [IntVal 2, IntVal 20]]" .
  with fl ne demo_values show ?thesis by (intro conjI)
qed

text \<open>
  The claim as it was stated covers every declared flag list. For the empty flag list the
  full Cartesian product has one element, the empty combination, and
  \<open>itertools.product\<close> itself would yield it; the guard in the source
  (\<open>... if normal_values_lists else []\<close>) makes the normal pass enumerate nothing.
\<close>

theorem no_flags_no_combination:
  "normal_arg_list (plain_conf 1) = []
   \<and> normal_values_lists (plain_conf 1) = []
   \<and> spec_lex_product (normal_values_lists (plain_conf 1)) = [[]]
   \<and> py_product (normal_values_lists (plain_conf 1)) = [[]]
   \<and> normal_combinations (plain_conf 1) = []"
  by (simp add: plain_conf_def normal_values_lists_def normal_combinations_def
      spec_lex_product_def py_product_def)

section \<open>What the records name\<close>

lemma base_step_found_trace:
  assumes m: "meets_threshold prof (base_attempt e prof bconf exe_path c s 0)"
    and p: "snd (snd (base_attempt e prof bconf exe_path c s 0)) = Some p"
  shows "\<exists>l s' path r. base_step e prof bench_name bconf exe_path c s = Stop (BaseFound c l s')
            \<and> length (executed s') = length (executed s) + 1
            \<and> record_files s' = record_files s @ [(path, r)]
            \<and> summary_files s' = summary_files s
            \<and> produced_traces l = [trace_file r]
            \<and> trace_file r =
                 path_name (if move_ok e (length (executed s))
                            then path_div (data_save_path prof)
                                   (format_data_filename (bench_id bconf) ''0'' 0)
                            else p)
            \<and> moved s' =
                 (if move_ok e (length (executed s))
                  then moved s @ [(p, path_div (data_save_path prof)
                                        (format_data_filename (bench_id bconf) ''0'' 0))]
                  else moved s)"
proof -
  from base_attempt_ranD [OF meets_threshold_fst [OF m]] obtain pr where
    ap: "attempt_proc e prof bconf exe_path c s 0 = Some pr"
    and a: "base_attempt e prof bconf exe_path c s 0 = run_benchmark_and_get_size pr"
    by blast
  from attempt_proc_SomeD [OF ap] obtain cmd where
    b: "build_base_benchmark_cmd e exe_path (benchmark_base_arg prof)
          (benchmark_trace_filename_arg prof)
          (os_path_join (data_save_path prof) (format_data_filename (bench_id bconf) ''0'' 0))
          (size_arg bconf) c = Some cmd"
    and r: "run_proc e (length (executed s)) cmd = Some pr"
    by blast
  from build_cmd_tokens [OF b] obtain toks where
    toks: "py_shlex_split e (benchmark_base_arg prof) = Some toks" by blast
  obtain ok sz pp where t: "run_benchmark_and_get_size pr = (ok, sz, pp)"
    by (metis prod_cases3)
  with m p a have ok: "ok" and pp: "pp = Some p"
    and ge: "\<not> mb_less sz (benchmark_trace_min_size_MB prof)"
    by (auto simp: meets_threshold_def)
  show ?thesis
  proof (cases "move_ok e (length (executed s))")
    case True
    with b r t ok pp ge toks show ?thesis
      by (simp add: base_step_def run_cmd_def Let_def write_data_record_def try_move_def)
  next
    case False
    with b r t ok pp ge toks show ?thesis
      by (simp add: base_step_def run_cmd_def Let_def write_data_record_def try_move_def)
  qed
qed

text \<open>
  The sweep passes: a run that returns has written exactly one record, whose trace file
  field is the nominal name of the current index whether or not the artifact could be
  moved; when the move fails nothing is moved.
\<close>

lemma normal_run_record:
  assumes run: "normal_run e prof bench_name bconf exe_path base_size combo (l, s) = Returned (l1, s1)"
  shows "\<exists>path r. record_files s1 = record_files s @ [(path, r)]
           \<and> trace_file r = format_data_filename (bench_id bconf) ''0'' (idx_counter l)
           \<and> (\<not> move_ok e (length (executed s)) \<longrightarrow> moved s1 = moved s)"
proof -
  from normal_run_ok [OF run] obtain cmd where
    nc: "normal_cmd e prof bconf exe_path base_size combo = Some cmd"
    and ex: "executed s1 = executed s @ [cmd]" by blast
  from normal_cmd_SomeD [OF nc] obtain toks where
    t2: "py_shlex_split e (benchmark_base_arg prof) = Some toks"
    and t1: "(if benchmark_base_arg prof \<noteq> [] then py_shlex_split e (benchmark_base_arg prof)
              else Some []) = Some toks"
    and c: "cmd = [exe_path] @ toks @ [size_arg bconf] @ [str_int base_size]
                  @ concat (map (\<lambda>(arg_name, arg_val). [arg_name, py_str arg_val])
                              (zip (normal_arg_list bconf) combo))"
    by blast
  from run obtain p where r: "run_proc e (length (executed s)) cmd = Some p"
    unfolding c by (auto simp: normal_run_def Let_def t1 run_cmd_def split: option.splits)
  obtain ok sz pp where t: "run_benchmark_and_get_size p = (ok, sz, pp)"
    by (metis prod_cases3)
  show ?thesis
  proof (cases pp)
    case None
    with run t1 t2 r t show ?thesis
      unfolding c by (auto simp: normal_run_def Let_def run_cmd_def write_data_record_def)
  next
    case (Some q)
    with run t1 t2 r t show ?thesis
      unfolding c
      by (auto simp: normal_run_def Let_def run_cmd_def write_data_record_def try_move_def)
  qed
qed

lemma special_run_record:
  assumes run: "special_run e prof bench_name bconf exe_path base_size special (l, s) = Returned (l1, s1)"
  shows "\<exists>path r. record_files s1 = record_files s @ [(path, r)]
           \<and> trace_file r = format_data_filename (bench_id bconf) ''1'' (idx_counter l)
           \<and> (\<not> move_ok e (length (executed s)) \<longrightarrow> moved s1 = moved s)"
proof -
  from special_run_ok [OF run] obtain cmd where
    nc: "special_cmd e prof bconf exe_path base_size special = Some cmd"
    and ex: "executed s1 = executed s @ [cmd]" by blast
  from special_cmd_SomeD [OF nc] obtain toks stoks where
    t0: "py_shlex_split e special = Some stoks"
    and t1: "(if benchmark_base_arg prof \<noteq> [] then py_shlex_split e (benchmark_base_arg prof)
              else Some []) = Some toks"
    and c: "cmd = [exe_path] @ toks @ [size_arg bconf] @ [str_int base_size] @ stoks"
    by blast
  from run obtain p where r: "run_proc e (length (executed s)) cmd = Some p"
    unfolding c by (auto simp: special_run_def Let_def t0 t1 run_cmd_def split: option.splits)
  obtain ok sz pp where t: "run_benchmark_and_get_size p = (ok, sz, pp)"
    by (metis prod_cases3)
  show ?thesis
  proof (cases pp)
    case None
    with run t0 t1 r t show ?thesis
      unfolding c by (auto simp: special_run_def Let_def run_cmd_def write_data_record_def)
  next
    case (Some q)
    with run t0 t1 r t show ?thesis
      unfolding c
      by (auto simp: special_run_def Let_def run_cmd_def write_data_record_def try_move_def)
  qed
qed

text \<open>A world in which no move succeeds: the main benchmark, run to completion.\<close>

lemma stuck_runs: "run_proc stuck_env k cmd = Some (artifact (6 * 1048576))"
  by (simp add: stuck_env_def scripted_env_def)

lemma stuck_attempt:
  "base_attempt stuck_env (demo_profile (demo_conf 1)) (demo_conf 1) exe_path c s j
     = (True, FloatMB 600, Some ''/w/akita_sim_1.sqlite3'')"
  by (simp add: stuck_env_def eval_world)

lemma fresh_records: "record_files fresh_state = []"
  by (simp add: fresh_state_def)

lemma stuck_move: "\<not> move_ok stuck_env (length (executed fresh_state))"
  by (simp add: stuck_env_def scripted_env_def fresh_state_def)

lemma path_name_artifact: "path_name ''/w/akita_sim_1.sqlite3'' = ''akita_sim_1.sqlite3''"
  by (simp add: path_name_def)

lemma stuck_base:
  "\<exists>l s1 path r.
     base_loop stuck_env (demo_profile (demo_conf 1)) ''kmeans'' (demo_conf 1)
       (exe_path_of stuck_env (demo_profile (demo_conf 1)) ''kmeans'' (demo_conf 1))
       (size_arg_start (demo_conf 1)) fresh_state = Some (BaseFound 1 l s1)
   \<and> length (executed s1) = 1
   \<and> record_files s1 = [(path, r)] \<and> summary_files s1 = []
   \<and> trace_file r = ''akita_sim_1.sqlite3''
   \<and> produced_traces l = [''akita_sim_1.sqlite3'']
   \<and> moved s1 = []"
proof -
  let ?C = "demo_conf 1"
  let ?P = "demo_profile ?C"
  let ?X = "exe_path_of stuck_env ?P ''kmeans'' ?C"
  have start: "size_arg_start ?C = 1" by (simp add: demo_conf_def)
  have thr: "benchmark_trace_min_size_MB ?P = 5" by (simp add: demo_profile_def)
  have m: "meets_threshold ?P (base_attempt stuck_env ?P ?C ?X 1 fresh_state 0)"
    by (simp add: stuck_attempt meets_threshold_def thr)
  have p: "snd (snd (base_attempt stuck_env ?P ?C ?X 1 fresh_state 0)) = Some ''/w/akita_sim_1.sqlite3''"
    by (simp add: stuck_attempt)
  from base_step_found_trace [OF m p, of "''kmeans''"] stuck_move
  obtain l s1 path r where
    step: "base_step stuck_env ?P ''kmeans'' ?C ?X 1 fresh_state = Stop (BaseFound 1 l s1)"
    and facts: "length (executed s1) = length (executed fresh_state) + 1"
      "record_files s1 = record_files fresh_state @ [(path, r)]"
      "summary_files s1 = summary_files fresh_state"
      "produced_traces l = [trace_file r]"
      "trace_file r = path_name ''/w/akita_sim_1.sqlite3''"
      "moved s1 = moved fresh_state"
    by auto
  have "base_iter (Suc 0) stuck_env ?P ''kmeans'' ?C ?X 1 fresh_state = Stop (BaseFound 1 l s1)"
    by (simp add: step)
  then have "base_loop stuck_env ?P ''kmeans'' ?C ?X 1 fresh_state = Some (BaseFound 1 l s1)"
    by (rule base_loop_of_iter)
  then have found: "base_loop stuck_env ?P ''kmeans'' ?C ?X (size_arg_start ?C) fresh_state
                      = Some (BaseFound 1 l s1)"
    by (simp only: start)
  from facts have "length (executed s1) = 1" "record_files s1 = [(path, r)]" "summary_files s1 = []"
    "trace_file r = ''akita_sim_1.sqlite3''" "produced_traces l = [''akita_sim_1.sqlite3'']"
    "moved s1 = []"
    by (simp_all add: fresh_state_def path_name_artifact)
  with found show ?thesis by blast
qed

lemma demo_sweep_names:
  "map (\<lambda>i. format_data_filename (bench_id (demo_conf 1)) (if i < 4 then ''0'' else ''1'') (1 + int i))
     [0..<5]
   = [''D0300001.sqlite3'', ''D0300002.sqlite3'', ''D0300003.sqlite3'', ''D0300004.sqlite3'',
      ''D0310005.sqlite3'']"
proof -
  have "[0..<5] = [0, 1, 2, 3, 4::nat]" by (simp add: upt_rec)
  then show ?thesis by (simp add: demo_bench_id eval_name)
qed

text \<open>
  Claim C3 says that the record of every run whose artifact could not be moved still
  names the nominal file \<open>D<bench_id><type_id><index>.sqlite3\<close>. The normal and the
  special pass do so. The base run does not: when the move fails it replaces the
  destination by the path where the artifact was found and writes the name of that file
  into the record and into the list of produced traces. In a world where every run leaves
  the 6 MB artifact \<open>/w/akita_sim_1.sqlite3\<close> and no move succeeds, the main benchmark
  completes with status \<open>0\<close>; its five sweep records name the nominal files of the indices
  1 to 5, its base record names \<open>akita_sim_1.sqlite3\<close> where the claim has
  \<open>D0300000.sqlite3\<close>, and the summary lists the same six names.
\<close>

theorem base_record_names_original_file:
  "map (move_ok stuck_env) [0, 1, 2, 3, 4, 5] = [False, False, False, False, False, False]
   \<and> format_data_filename (bench_id (demo_conf 1)) ''0'' 0 = ''D0300000.sqlite3''
   \<and> (\<exists>s' path summ.
         process_benchmark stuck_env (demo_profile (demo_conf 1)) ''kmeans'' fresh_state
           = Some (Returned (0, s'))
       \<and> map (\<lambda>(path, r). trace_file r) (record_files s')
           = [''akita_sim_1.sqlite3'', ''D0300001.sqlite3'', ''D0300002.sqlite3'',
              ''D0300003.sqlite3'', ''D0300004.sqlite3'', ''D0310005.sqlite3'']
       \<and> summary_files s' = [(path, summ)]
       \<and> summary_data summ
           = [''akita_sim_1.sqlite3'', ''D0300001.sqlite3'', ''D0300002.sqlite3'',
              ''D0300003.sqlite3'', ''D0300004.sqlite3'', ''D0310005.sqlite3''])"
proof -
  let ?C = "demo_conf 1"
  let ?P = "demo_profile ?C"
  let ?X = "exe_path_of stuck_env ?P ''kmeans'' ?C"
  let ?nm = "\<lambda>i. format_data_filename (bench_id ?C) (if i < 4 then ''0'' else ''1'') (1 + int i)"
  have cfg: "benchmark_config ?P ''kmeans'' = Some ?C" by (simp add: demo_profile_def)
  have dir: "isdir stuck_env (os_path_join (benchmark_path ?P) ''kmeans'')"
    by (simp add: stuck_env_def scripted_env_def)
  have build: "go_build_returncode stuck_env (os_path_join (benchmark_path ?P) ''kmeans'') = 0"
    by (simp add: stuck_env_def scripted_env_def)
  have wr: "summary_write_ok stuck_env" by (simp add: stuck_env_def scripted_env_def)
  from stuck_base obtain l s1 path r where
    found: "base_loop stuck_env ?P ''kmeans'' ?C ?X (size_arg_start ?C) fresh_state
              = Some (BaseFound 1 l s1)"
    and rf1: "record_files s1 = [(path, r)]" and sm1: "summary_files s1 = []"
    and tf: "trace_file r = ''akita_sim_1.sqlite3''"
    and pt: "produced_traces l = [''akita_sim_1.sqlite3'']"
    by blast
  have tok: "\<forall>sp \<in> set (special_arg_list ?C). py_shlex_split stuck_env sp \<noteq> None"
    by (simp add: demo_special_list py_shlex_split_def stuck_env_def scripted_split
        split_spaces_special)
  from base_loop_found_tokens [OF found] obtain toks where
    base: "py_shlex_split stuck_env (benchmark_base_arg ?P) = Some toks" by blast
  have "\<forall>i<length (sweep_cmds stuck_env ?P ?C ?X 1).
          \<exists>cmd p. sweep_cmds stuck_env ?P ?C ?X 1 ! i = Some cmd
             \<and> run_proc stuck_env (length (executed s1) + i) cmd = Some p"
  proof (intro allI impI)
    fix i assume i: "i < length (sweep_cmds stuck_env ?P ?C ?X 1)"
    from sweep_cmds_built [OF base tok i] obtain cmd where
      "sweep_cmds stuck_env ?P ?C ?X 1 ! i = Some cmd" by blast
    then show "\<exists>cmd p. sweep_cmds stuck_env ?P ?C ?X 1 ! i = Some cmd
             \<and> run_proc stuck_env (length (executed s1) + i) cmd = Some p"
      by (simp add: stuck_runs)
  qed
  from sweeps_returns [OF this, of "''kmeans''" l] obtain ls where
    sw: "sweeps stuck_env ?P ''kmeans'' ?C ?X 1 (l, s1) = Returned ls" by blast
  let ?s' = "write_summary stuck_env ?P ''kmeans'' (fst ls) (snd ls)"
  have res: "process_benchmark stuck_env ?P ''kmeans'' fresh_state = Some (Returned (0, ?s'))"
    by (simp add: process_benchmark_found [OF cfg dir build found] sw)
  have e5: "(4::nat) + 1 = 5" by simp
  from sweeps_result [OF sw]
  obtain cmds recs where
    all: "record_files (snd ls) = record_files s1 @ recs \<and> length recs = 5
        \<and> summary_files (snd ls) = summary_files s1
        \<and> produced_traces (fst ls) = produced_traces l @ map ?nm [0..<5]
        \<and> (\<forall>i<5. trace_file (snd (recs ! i)) = ?nm i)"
    unfolding demo_K demo_S e5 by blast
  then have rf: "record_files (snd ls) = record_files s1 @ recs" and len: "length recs = 5"
    and sm: "summary_files (snd ls) = summary_files s1"
    and tr: "produced_traces (fst ls) = produced_traces l @ map ?nm [0..<5]"
    and each: "\<forall>i<5. trace_file (snd (recs ! i)) = ?nm i"
    by simp_all
  have "map (\<lambda>(path, r). trace_file r) recs = map ?nm [0..<5]"
  proof (rule nth_equalityI)
    show "length (map (\<lambda>(path, r). trace_file r) recs) = length (map ?nm [0..<5])"
      using len by simp
  next
    fix i assume "i < length (map (\<lambda>(path, r). trace_file r) recs)"
    then have i: "i < 5" using len by simp
    then have "map (\<lambda>(path, r). trace_file r) recs ! i = trace_file (snd (recs ! i))"
      using len by (simp add: case_prod_unfold)
    also have "\<dots> = ?nm i" using each i by blast
    also have "\<dots> = map ?nm [0..<5] ! i" using i by (simp del: upt_Suc)
    finally show "map (\<lambda>(path, r). trace_file r) recs ! i = map ?nm [0..<5] ! i" .
  qed
  then have names: "map (\<lambda>(path, r). trace_file r) recs
      = [''D0300001.sqlite3'', ''D0300002.sqlite3'', ''D0300003.sqlite3'', ''D0300004.sqlite3'',
         ''D0310005.sqlite3'']"
    by (simp only: demo_sweep_names)
  have r1: "map (\<lambda>(path, r). trace_file r) (record_files ?s')
      = [''akita_sim_1.sqlite3'', ''D0300001.sqlite3'', ''D0300002.sqlite3'',
         ''D0300003.sqlite3'', ''D0300004.sqlite3'', ''D0310005.sqlite3'']"
    by (simp add: write_summary_keeps rf rf1 tf names)
  let ?summ = "\<lparr>summary_benchmark = ''kmeans'', summary_data = produced_traces (fst ls),
                 summary_data_record = produced_records (fst ls)\<rparr>"
  have r2: "summary_files ?s'
      = [(path_div (data_record_save_path ?P) (''kmeans'' @ ''.json''), ?summ)]"
    by (simp add: write_summary_file [OF wr] sm sm1)
  have r3: "summary_data ?summ
      = [''akita_sim_1.sqlite3'', ''D0300001.sqlite3'', ''D0300002.sqlite3'',
         ''D0300003.sqlite3'', ''D0300004.sqlite3'', ''D0310005.sqlite3'']"
    by (simp add: tr pt demo_sweep_names del: upt_Suc)
  have mv: "map (move_ok stuck_env) [0, 1, 2, 3, 4, 5] = [False, False, False, False, False, False]"
    by (simp add: stuck_env_def scripted_env_def)
  have nm: "format_data_filename (bench_id ?C) ''0'' 0 = ''D0300000.sqlite3''"
    by (simp add: demo_conf_def eval_name)
  have "\<exists>s' path summ.
         process_benchmark stuck_env ?P ''kmeans'' fresh_state = Some (Returned (0, s'))
       \<and> map (\<lambda>(path, r). trace_file r) (record_files s')
           = [''akita_sim_1.sqlite3'', ''D0300001.sqlite3'', ''D0300002.sqlite3'',
              ''D0300003.sqlite3'', ''D0300004.sqlite3'', ''D0310005.sqlite3'']
       \<and> summary_files s' = [(path, summ)]
       \<and> summary_data summ
           = [''akita_sim_1.sqlite3'', ''D0300001.sqlite3'', ''D0300002.sqlite3'',
              ''D0300003.sqlite3'', ''D0300004.sqlite3'', ''D0310005.sqlite3'']"
    apply (rule exI [of _ ?s'])
    apply (rule exI [of _ "path_div (data_record_save_path ?P) (''kmeans'' @ ''.json'')"])
    apply (rule exI [of _ ?summ])
    apply (intro conjI)
       apply (rule res)
      apply (rule r1)
     apply (rule r2)
    apply (rule r3)
    done
  with mv nm show ?thesis by (intro conjI)
qed

lemma demo_exe_path:
  "exe_path_of demo_env (demo_profile (demo_conf 1)) ''kmeans'' (demo_conf 1) = ''/w/bench/kmeans/kmeans''"
  by (simp add: exe_path_of_def abspath_def normpath_def os_path_join_def strip_leading_dot_slash_def
      demo_env_def scripted_env_def demo_profile_def demo_conf_def Let_def replicate_eval)

lemma demo_base_args:
  "py_shlex_split demo_env ''-timing -trace-vis'' = Some [''-timing'', ''-trace-vis'']"
  by (simp add: py_shlex_split_def demo_env_def scripted_split split_spaces_base_args)

lemma basename_demo: "basename ''/w/bench/kmeans/kmeans'' = ''kmeans''"
  by (simp add: basename_def)

subsection \<open>The command string of a normal-pass record\<close>

text \<open>
  Claim C2 says that the command string of a normal-pass record reconstructs the command
  that was run, size flag and base size included. The source builds the string from the
  executable's name, the base arguments and the combination only. At base size 8 the
  normal run for the combination \<open>(1, 10)\<close> executes
  \<open>kmeans -timing -trace-vis -points 8 -a 1 -b 10\<close> (with the absolute path of the
  executable) and records \<open>kmeans -timing -trace-vis -a 1 -b 10\<close>; the special pass, like
  the base record, does include \<open>-points 8\<close>.
\<close>

theorem normal_record_command_omits_size:
  "exe_path_of demo_env (demo_profile (demo_conf 1)) ''kmeans'' (demo_conf 1) = ''/w/bench/kmeans/kmeans''
   \<and> (\<exists>l1 s1.
         normal_run demo_env (demo_profile (demo_conf 1)) ''kmeans'' (demo_conf 1)
           ''/w/bench/kmeans/kmeans'' 8 [IntVal 1, IntVal 10]
           (\<lparr>idx_counter = 1, produced_traces = [], produced_records = []\<rparr>, fresh_state)
           = Returned (l1, s1)
       \<and> executed s1
           = [[''/w/bench/kmeans/kmeans'', ''-timing'', ''-trace-vis'', ''-points'', ''8'',
               ''-a'', ''1'', ''-b'', ''10'']]
       \<and> map (\<lambda>(path, r). benchmark_cmd r) (record_files s1)
           = [''kmeans -timing -trace-vis -a 1 -b 10''])
   \<and> (\<exists>l2 s2.
         special_run demo_env (demo_profile (demo_conf 1)) ''kmeans'' (demo_conf 1)
           ''/w/bench/kmeans/kmeans'' 8 ''-x 1''
           (\<lparr>idx_counter = 1, produced_traces = [], produced_records = []\<rparr>, fresh_state)
           = Returned (l2, s2)
       \<and> map (\<lambda>(path, r). benchmark_cmd r) (record_files s2)
           = [''kmeans -timing -trace-vis -points 8 -x 1''])"
proof -
  let ?l = "\<lparr>idx_counter = 1, produced_traces = [], produced_records = []\<rparr>"
  have p0: "run_proc demo_env 0 cmd = Some no_artifact" for cmd
    by (simp add: demo_env_def scripted_env_def)
  have r0: "run_benchmark_and_get_size no_artifact = (True, IntMB 0, None)"
    by (simp add: run_benchmark_and_get_size_def no_artifact_def)
  have prof: "benchmark_base_arg (demo_profile (demo_conf 1)) = ''-timing -trace-vis''"
    "data_record_save_path (demo_profile (demo_conf 1)) = ''./data_record''"
    by (simp_all add: demo_profile_def)
  have conf: "size_arg (demo_conf 1) = ''-points''" "normal_arg_list (demo_conf 1) = [''-a'', ''-b'']"
    "bench_id (demo_conf 1) = ''03''"
    by (simp_all add: demo_conf_def)
  have s8: "str_int 8 = ''8''" "str_int 1 = ''1''" "str_int 10 = ''10''" by (simp_all add: eval_str)
  have e0: "executed fresh_state = []" "record_files fresh_state = []"
    by (simp_all add: fresh_state_def)
  obtain l1 s1 where
    nr: "normal_run demo_env (demo_profile (demo_conf 1)) ''kmeans'' (demo_conf 1)
           ''/w/bench/kmeans/kmeans'' 8 [IntVal 1, IntVal 10] (?l, fresh_state) = Returned (l1, s1)"
    by (simp add: normal_run_def Let_def run_cmd_def write_data_record_def
        p0 r0 prof demo_base_args e0)
  from nr have n1: "executed s1
       = [[''/w/bench/kmeans/kmeans'', ''-timing'', ''-trace-vis'', ''-points'', ''8'',
           ''-a'', ''1'', ''-b'', ''10'']]"
    by (auto simp: normal_run_def Let_def run_cmd_def write_data_record_def
        p0 r0 prof conf s8 demo_base_args e0)
  from nr have n2: "map (\<lambda>(path, r). benchmark_cmd r) (record_files s1)
       = [''kmeans -timing -trace-vis -a 1 -b 10'']"
    by (auto simp: normal_run_def Let_def run_cmd_def write_data_record_def
        p0 r0 prof conf s8 demo_base_args e0 basename_demo strip_leading_dot_slash_def)
  obtain l2 s2 where
    sr: "special_run demo_env (demo_profile (demo_conf 1)) ''kmeans'' (demo_conf 1)
           ''/w/bench/kmeans/kmeans'' 8 ''-x 1'' (?l, fresh_state) = Returned (l2, s2)"
    by (simp add: special_run_def Let_def run_cmd_def write_data_record_def
        p0 r0 prof demo_base_args demo_special_tokens e0)
  from sr have n3: "map (\<lambda>(path, r). benchmark_cmd r) (record_files s2)
       = [''kmeans -timing -trace-vis -points 8 -x 1'']"
    by (auto simp: special_run_def Let_def run_cmd_def write_data_record_def
        p0 r0 prof conf s8 demo_base_args demo_special_tokens e0 basename_demo
        strip_leading_dot_slash_def)
  from nr n1 n2 have first: "\<exists>l1 s1.
         normal_run demo_env (demo_profile (demo_conf 1)) ''kmeans'' (demo_conf 1)
           ''/w/bench/kmeans/kmeans'' 8 [IntVal 1, IntVal 10] (?l, fresh_state) = Returned (l1, s1)
       \<and> executed s1
           = [[''/w/bench/kmeans/kmeans'', ''-timing'', ''-trace-vis'', ''-points'', ''8'',
               ''-a'', ''1'', ''-b'', ''10'']]
       \<and> map (\<lambda>(path, r). benchmark_cmd r) (record_files s1)
           = [''kmeans -timing -trace-vis -a 1 -b 10'']"
    by (intro exI [of _ l1] exI [of _ s1] conjI)
  from sr n3 have second: "\<exists>l2 s2.
         special_run demo_env (demo_profile (demo_conf 1)) ''kmeans'' (demo_conf 1)
           ''/w/bench/kmeans/kmeans'' 8 ''-x 1'' (?l, fresh_state) = Returned (l2, s2)
       \<and> map (\<lambda>(path, r). benchmark_cmd r) (record_files s2)
           = [''kmeans -timing -trace-vis -points 8 -x 1'']"
    by (intro exI [of _ l2] exI [of _ s2] conjI)
  from demo_exe_path first second show ?thesis by (intro conjI)
qed


end
